theory Spec2Isabelle
  imports Main "HOL-Library.Sublist" "HOL-Library.AList"
begin

section \<open>Python values and exceptions\<close>

text \<open>
  The values the two programs handle at run time: configuration entries (from a TOML
  document, the environment or the command line), query parameters and result cells.
  Python is dynamically typed, so a field annotated \<^verbatim>\<open>Optional[str]\<close> holds whatever
  was stored in it; \<open>PNone\<close> is Python's \<^verbatim>\<open>None\<close>. Floats, decimals and timestamps are
  not modelled. A dictionary with string keys is an association list in insertion
  order.
\<close>

datatype pyval =
    PNone
  | PBool bool
  | PInt int
  | PStr string
  | PList "pyval list"
  | PDict "(string \<times> pyval) list"

text \<open>Python's truth value of an object, as tested by \<^verbatim>\<open>if x\<close>, \<^verbatim>\<open>not x\<close> and \<^verbatim>\<open>x or y\<close>.\<close>

fun truthy :: "pyval \<Rightarrow> bool" where
  "truthy PNone = False"
| "truthy (PBool b) = b"
| "truthy (PInt i) = (i \<noteq> 0)"
| "truthy (PStr s) = (s \<noteq> [])"
| "truthy (PList xs) = (xs \<noteq> [])"
| "truthy (PDict kvs) = (kvs \<noteq> [])"

text \<open>\<^verbatim>\<open>a or b\<close>: the first operand when it is true, the second otherwise.\<close>

definition py_or :: "pyval \<Rightarrow> pyval \<Rightarrow> pyval" where
  "py_or a b = (if truthy a then a else b)"

text \<open>
  The exceptions the code paths can raise. \<open>DatabaseError\<close> stands for the driver's
  exception hierarchy (\<^verbatim>\<open>psycopg2.Error\<close>, \<^verbatim>\<open>psycopg.Error\<close> and their subclasses) with
  the driver's message. A \<^verbatim>\<open>ValueError\<close> carries which message it was raised with (the
  messages of pgtool/cli.py are Russian text in the source) or which subclass it is:
  \<^verbatim>\<open>tomllib.TOMLDecodeError\<close> and \<^verbatim>\<open>UnicodeDecodeError\<close> are subclasses of
  \<^verbatim>\<open>ValueError\<close>. \<open>CsvError\<close> is \<^verbatim>\<open>csv.Error\<close>. The errors of the file system carry the
  path of the call that raised them. \<open>SystemExit\<close> is the only one that is not an
  \<^verbatim>\<open>Exception\<close>.
\<close>

type_synonym path = "string list"

datatype value_error =
    MissingDatabaseSection path
  | NoDataToExport
  | OptionNotKeyValue string
  | SqlAndFileTogether
  | SqlOrFileRequired
  | InvalidLiteralForInt string
  | TOMLDecodeError
  | UnicodeDecodeError

datatype error =
    ValueError value_error
  | TypeError
  | KeyError string
  | StopIteration
  | RuntimeError
  | RecursionError
  | MemoryError
  | CsvError
  | FileNotFoundError path
  | FileExistsError path
  | NotADirectoryError path
  | IsADirectoryError path
  | DatabaseError string
  | SystemExit int

section \<open>The file system\<close>

text \<open>
  A \<^verbatim>\<open>pathlib.Path\<close> is its list of components; \<open>[]\<close> is the starting directory,
  which always exists. The file system holds the set of directories and the content of
  every regular file: the text its bytes are in UTF-8, or \<open>Undecodable\<close> when the bytes
  are not valid UTF-8. Every file and directory can be read and written by the process
  (permissions are not modelled).
\<close>

datatype content = Text string | Undecodable

record filesystem =
  dirs :: "path set"
  files :: "path \<rightharpoonup> content"

definition parent :: "path \<Rightarrow> path" where
  "parent p = butlast p"

definition is_file :: "filesystem \<Rightarrow> path \<Rightarrow> bool" where
  "is_file fs p = (files fs p \<noteq> None)"

definition is_dir :: "filesystem \<Rightarrow> path \<Rightarrow> bool" where
  "is_dir fs p = (p = [] \<or> p \<in> dirs fs)"

text \<open>
  \<^verbatim>\<open>p.mkdir(parents=True, exist_ok=True)\<close>: creates \<open>p\<close> and every missing ancestor.
  With a regular file among the proper ancestors of \<open>p\<close> the first \<^verbatim>\<open>os.mkdir(p)\<close>
  raises \<^verbatim>\<open>NotADirectoryError\<close>, which is raised again since \<open>p\<close> is no directory; with
  \<open>p\<close> itself a regular file it is \<^verbatim>\<open>FileExistsError\<close>.
\<close>

definition mkdir_parents :: "filesystem \<Rightarrow> path \<Rightarrow> error + filesystem" where
  "mkdir_parents fs p =
     (if filter (is_file fs) (butlast (prefixes p)) \<noteq> [] then Inl (NotADirectoryError p)
      else if is_file fs p then Inl (FileExistsError p)
      else Inr (fs\<lparr>dirs := dirs fs \<union> set (prefixes p)\<rparr>))"

text \<open>
  The way \<^verbatim>\<open>open\<close> reaches the file \<open>p\<close>: its ancestors \<open>qs\<close> are looked up from the
  starting directory down; the first that is a regular file gives
  \<^verbatim>\<open>NotADirectoryError\<close>, the first that does not exist \<^verbatim>\<open>FileNotFoundError\<close>.
\<close>

fun lookup :: "filesystem \<Rightarrow> path list \<Rightarrow> path \<Rightarrow> error option" where
  "lookup fs [] p = None"
| "lookup fs (q # qs) p =
     (if is_file fs q then Some (NotADirectoryError p)
      else if \<not> is_dir fs q then Some (FileNotFoundError p)
      else lookup fs qs p)"

text \<open>
  \<^verbatim>\<open>p.open("w", encoding="utf-8")\<close> followed by writing \<open>text\<close> and closing the file.
  A directory cannot be opened for writing; an existing file is replaced.
\<close>

definition write_file :: "filesystem \<Rightarrow> path \<Rightarrow> string \<Rightarrow> error + filesystem" where
  "write_file fs p text =
     (case lookup fs (prefixes (parent p)) p of
        Some e \<Rightarrow> Inl e
      | None \<Rightarrow>
          if is_dir fs p then Inl (IsADirectoryError p)
          else Inr (fs\<lparr>files := (files fs)(p \<mapsto> Text text)\<rparr>))"

text \<open>
  \<^verbatim>\<open>p.read_text(encoding="utf-8")\<close>, and \<^verbatim>\<open>p.open("r", encoding="utf-8")\<close> followed by
  reading the whole file: a directory cannot be opened, a missing file neither, and
  bytes that are not UTF-8 raise \<^verbatim>\<open>UnicodeDecodeError\<close> when they are read.
\<close>

definition read_file :: "filesystem \<Rightarrow> path \<Rightarrow> error + string" where
  "read_file fs p =
     (case lookup fs (prefixes (parent p)) p of
        Some e \<Rightarrow> Inl e
      | None \<Rightarrow>
          if is_dir fs p then Inl (IsADirectoryError p)
          else (case files fs p of
                  None \<Rightarrow> Inl (FileNotFoundError p)
                | Some Undecodable \<Rightarrow> Inl (ValueError UnicodeDecodeError)
                | Some (Text text) \<Rightarrow> Inr text))"

section \<open>The database driver\<close>

text \<open>
  SQL text as the drivers take it: a plain string is \<open>SQL s\<close>; psycopg's \<^verbatim>\<open>sql\<close> module
  composes statements from literal SQL, escaped identifiers and placeholders.
\<close>

datatype composable =
    SQL string
  | Identifier string
  | Placeholder
  | Composed "composable list"

text \<open>\<^verbatim>\<open>sql.SQL(sep).join(xs)\<close>: the items with the separator between them.\<close>

fun sql_join :: "string \<Rightarrow> composable list \<Rightarrow> composable list" where
  "sql_join sep [] = []"
| "sql_join sep [x] = [x]"
| "sql_join sep (x # y # ys) = x # SQL sep # sql_join sep (y # ys)"

text \<open>A statement is the SQL with its parameters (\<^verbatim>\<open>None\<close> or a sequence).\<close>

type_synonym statement = "composable \<times> pyval list option"

text \<open>
  What a cursor holds after \<^verbatim>\<open>execute\<close>: its \<^verbatim>\<open>description\<close> (the column names, or
  \<^verbatim>\<open>None\<close> when the statement produced no result set) and the rows to fetch.
\<close>

type_synonym result = "string list option \<times> pyval list list"

text \<open>
  The driver is a black box with the capabilities \<^verbatim>\<open>execute\<close>, \<^verbatim>\<open>commit\<close> and \<^verbatim>\<open>close\<close>.
  A connection is modelled by what those capabilities can observe: whether it is closed,
  its autocommit flag, whether the open transaction was aborted by a failed statement,
  the statements executed in the open transaction (\<open>pending\<close>) and the statements whose
  effects were committed (\<open>durable\<close>).

  A statement is refused in one of two ways. The driver itself raises before anything
  is sent to the server (\<open>ClientSide\<close>: the parameters do not fill the placeholders of
  the query, a value cannot be adapted), and the transaction is left as it was; or the
  server rejects the statement (\<open>ServerSide\<close>: a syntax error, a missing table, a
  violated constraint), and the open transaction is aborted. Both carry the message of
  the driver's exception.
\<close>

datatype refusal = ClientSide string | ServerSide string

record connection =
  closed :: bool
  autocommit :: bool
  failed :: bool
  pending :: "statement list"
  durable :: "statement list"

text \<open>A connection as the driver's \<^verbatim>\<open>connect\<close> returns it, to a server with the given history.\<close>

definition new_connection :: "statement list \<Rightarrow> connection" where
  "new_connection history =
     \<lparr>closed = False, autocommit = False, failed = False, pending = [], durable = history\<rparr>"

text \<open>
  The environment of a run: the parts of the Python runtime, its libraries and the
  database server that the programs call and that are not code of the repository.
  \<^item> \<open>psycopg_connect\<close>: \<^verbatim>\<open>psycopg2.connect(**kwargs)\<close> and \<^verbatim>\<open>psycopg.connect(**kwargs)\<close>:
    the driver's error message, or the committed history of the server reached;
  \<^item> \<open>psycopg_execute\<close>: what happens to a statement on a connection: a refusal or the
    result;
  \<^item> \<open>int_of_str\<close>: \<^verbatim>\<open>int(s)\<close> on a string, \<open>None\<close> for \<^verbatim>\<open>ValueError\<close>;
  \<^item> \<open>py_str\<close>: \<^verbatim>\<open>str(v)\<close> on a value that is not a string;
  \<^item> \<open>environ\<close>: \<^verbatim>\<open>os.environ.items()\<close>;
  \<^item> \<open>Path\<close>: \<^verbatim>\<open>pathlib.Path(s)\<close>; \<open>expanduser\<close>: \<^verbatim>\<open>Path.expanduser\<close>, \<open>None\<close> for the
    \<^verbatim>\<open>RuntimeError\<close> it raises when the home directory cannot be determined;
  \<^item> \<open>DEFAULT_CONFIG_LOCATIONS\<close>: the three paths built from the working and the home
    directory when pgtool/config.py is imported;
  \<^item> \<open>toml_load\<close>: \<^verbatim>\<open>tomllib.load\<close> on a file with the given text, \<open>None\<close> for
    \<^verbatim>\<open>TOMLDecodeError\<close>;
  \<^item> \<open>literal_eval\<close>: \<^verbatim>\<open>ast.literal_eval\<close>: the value, or the exception it raises
    (\<^verbatim>\<open>ValueError\<close> and \<^verbatim>\<open>SyntaxError\<close> for text that is no literal, \<^verbatim>\<open>TypeError\<close> for an
    unhashable key as in \<^verbatim>\<open>{[1]: 2}\<close>, \<^verbatim>\<open>MemoryError\<close> and \<^verbatim>\<open>RecursionError\<close> for text the
    parser cannot handle);
  \<^item> \<open>csv_reader\<close>: the rows \<^verbatim>\<open>csv.reader\<close> yields for the text of a file, \<open>None\<close> for
    \<^verbatim>\<open>csv.Error\<close>; \<open>csv_writer\<close>: the text \<^verbatim>\<open>csv.writer\<close> writes for a sequence of rows;
  \<^item> \<open>getpass\<close>: the password typed at the \<^verbatim>\<open>getpass.getpass\<close> prompt.
\<close>

datatype literal_error =
    LiteralValueError
  | LiteralSyntaxError
  | LiteralTypeError
  | LiteralMemoryError
  | LiteralRecursionError

record env =
  psycopg_connect :: "(string \<rightharpoonup> pyval) \<Rightarrow> string + statement list"
  psycopg_execute :: "connection \<Rightarrow> statement \<Rightarrow> refusal + result"
  int_of_str :: "string \<Rightarrow> int option"
  py_str :: "pyval \<Rightarrow> string"
  environ :: "(string \<times> string) list"
  Path :: "string \<Rightarrow> path"
  expanduser :: "path \<Rightarrow> path option"
  DEFAULT_CONFIG_LOCATIONS :: "path list"
  toml_load :: "string \<Rightarrow> pyval option"
  literal_eval :: "string \<Rightarrow> literal_error + pyval"
  csv_reader :: "string \<Rightarrow> string list list option"
  csv_writer :: "pyval list list \<Rightarrow> string"
  getpass :: string

text \<open>
  \<^verbatim>\<open>connection.cursor()\<close>: refused on a closed connection. Cursors are closed by the
  code on every exit path (a \<^verbatim>\<open>with\<close> block or \<^verbatim>\<open>try/finally\<close>); they carry no state the
  model needs beyond the result of their statement.
\<close>

definition conn_cursor :: "connection \<Rightarrow> error + unit" where
  "conn_cursor c = (if closed c then Inl (DatabaseError ''the connection is closed'') else Inr ())"

text \<open>
  \<^verbatim>\<open>cursor.execute(query, params)\<close>. A statement the driver refuses before sending it
  leaves the connection as it was: what was pending stays pending in the open
  transaction. A statement the server rejects aborts the open transaction: what was
  pending is lost, and every later statement is refused until the transaction ends. With
  autocommit every statement is its own transaction.
\<close>

definition conn_execute :: "env \<Rightarrow> connection \<Rightarrow> statement \<Rightarrow> (error + result) \<times> connection" where
  "conn_execute E c st =
     (if closed c then (Inl (DatabaseError ''the connection is closed''), c)
      else if failed c then (Inl (DatabaseError ''current transaction is aborted''), c)
      else (case psycopg_execute E c st of
              Inl (ClientSide m) \<Rightarrow> (Inl (DatabaseError m), c)
            | Inl (ServerSide m) \<Rightarrow>
                (Inl (DatabaseError m),
                 if autocommit c then c else c\<lparr>failed := True, pending := []\<rparr>)
            | Inr r \<Rightarrow>
                (Inr r,
                 if autocommit c then c\<lparr>durable := durable c @ [st]\<rparr>
                 else c\<lparr>pending := pending c @ [st]\<rparr>)))"

text \<open>\<^verbatim>\<open>cursor.executemany(query, rows)\<close>: the statement once per row, up to the first error.\<close>

fun conn_executemany ::
  "env \<Rightarrow> connection \<Rightarrow> composable \<Rightarrow> pyval list list \<Rightarrow> (error + unit) \<times> connection" where
  "conn_executemany E c q [] = (Inr (), c)"
| "conn_executemany E c q (r # rs) =
     (case conn_execute E c (q, Some r) of
        (Inl e, c') \<Rightarrow> (Inl e, c')
      | (Inr _, c') \<Rightarrow> conn_executemany E c' q rs)"

text \<open>
  \<^verbatim>\<open>connection.commit()\<close>: the pending statements become durable; committing an aborted
  transaction rolls it back.
\<close>

definition conn_commit :: "connection \<Rightarrow> (error + unit) \<times> connection" where
  "conn_commit c =
     (if closed c then (Inl (DatabaseError ''the connection is closed''), c)
      else if failed c then (Inr (), c\<lparr>failed := False, pending := []\<rparr>)
      else (Inr (), c\<lparr>durable := durable c @ pending c, pending := []\<rparr>))"

text \<open>\<^verbatim>\<open>connection.close()\<close>: uncommitted work is discarded; closing twice is allowed.\<close>

definition conn_close :: "connection \<Rightarrow> connection" where
  "conn_close c = c\<lparr>closed := True, failed := False, pending := []\<rparr>"

section \<open>pgtool/config.py\<close>

text \<open>
  \<^verbatim>\<open>DatabaseConfig\<close>: six scalar fields, each \<^verbatim>\<open>None\<close> by default, and the extra
  driver options, a dictionary from strings to strings.
\<close>

record DatabaseConfig =
  host :: pyval
  port :: pyval
  user :: pyval
  password :: pyval
  database :: pyval
  dsn :: pyval
  options :: "string \<rightharpoonup> string"

text \<open>\<^verbatim>\<open>DatabaseConfig()\<close>: every field at its default.\<close>

definition DatabaseConfig_default :: DatabaseConfig where
  "DatabaseConfig_default =
     \<lparr>host = PNone, port = PNone, user = PNone, password = PNone, database = PNone,
      dsn = PNone, options = Map.empty\<rparr>"

text \<open>
  \<^verbatim>\<open>merged_with\<close>: each scalar is \<^verbatim>\<open>other.f or self.f\<close>; the options are
  \<^verbatim>\<open>{**self.options, **other.options}\<close>.
\<close>

definition merged_with :: "DatabaseConfig \<Rightarrow> DatabaseConfig \<Rightarrow> DatabaseConfig" where
  "merged_with self other =
     \<lparr>host = py_or (host other) (host self),
      port = py_or (port other) (port self),
      user = py_or (user other) (user self),
      password = py_or (password other) (password self),
      database = py_or (database other) (database self),
      dsn = py_or (dsn other) (dsn self),
      options = options self ++ options other\<rparr>"

text \<open>\<^verbatim>\<open>merge_configs\<close>: the loop \<^verbatim>\<open>merged = merged.merged_with(config)\<close> from the default.\<close>

definition merge_configs :: "DatabaseConfig list \<Rightarrow> DatabaseConfig" where
  "merge_configs configs = fold (\<lambda>config merged. merged_with merged config) configs DatabaseConfig_default"

text \<open>
  \<^verbatim>\<open>to_connect_kwargs\<close>: the DSN alone when it is set (true); otherwise the scalar
  fields that are not \<^verbatim>\<open>None\<close>, updated with the options.
\<close>

definition to_connect_kwargs :: "DatabaseConfig \<Rightarrow> (string \<rightharpoonup> pyval)" where
  "to_connect_kwargs self =
     (if truthy (dsn self) then [''dsn'' \<mapsto> dsn self]
      else map_of (filter (\<lambda>(k, v). v \<noteq> PNone)
             [(''host'', host self), (''port'', port self), (''user'', user self),
              (''password'', password self), (''dbname'', database self)])
           ++ (\<lambda>k. map_option PStr (options self k)))"

text \<open>\<^verbatim>\<open>mapping.get(key)\<close>: \<^verbatim>\<open>None\<close> for a missing key.\<close>

definition dict_get :: "(string \<rightharpoonup> pyval) \<Rightarrow> string \<Rightarrow> pyval" where
  "dict_get m k = (case m k of None \<Rightarrow> PNone | Some v \<Rightarrow> v)"

text \<open>The builtins \<^verbatim>\<open>int(v)\<close> and \<^verbatim>\<open>str(v)\<close>.\<close>

definition py_int :: "env \<Rightarrow> pyval \<Rightarrow> error + int" where
  "py_int E v =
     (case v of
        PInt i \<Rightarrow> Inr i
      | PBool b \<Rightarrow> Inr (if b then 1 else 0)
      | PStr s \<Rightarrow> (case int_of_str E s of
                     None \<Rightarrow> Inl (ValueError (InvalidLiteralForInt s))
                   | Some i \<Rightarrow> Inr i)
      | _ \<Rightarrow> Inl TypeError)"

definition str_of :: "env \<Rightarrow> pyval \<Rightarrow> string" where
  "str_of E v = (case v of PStr s \<Rightarrow> s | _ \<Rightarrow> py_str E v)"

text \<open>
  \<^verbatim>\<open>from_mapping\<close>. The three branches for the port (a string of digits, a number,
  anything else that is not \<^verbatim>\<open>None\<close>) all apply \<^verbatim>\<open>int\<close> to it; \<^verbatim>\<open>None\<close> stays. The
  options are kept only when they are a dictionary, keys and values through \<^verbatim>\<open>str\<close>.
\<close>

definition from_mapping :: "env \<Rightarrow> (string \<rightharpoonup> pyval) \<Rightarrow> error + DatabaseConfig" where
  "from_mapping E mapping =
     (let opts = (case dict_get mapping ''options'' of PDict kvs \<Rightarrow> kvs | _ \<Rightarrow> []);
          p = dict_get mapping ''port''
      in case (if p = PNone then Inr PNone else map_sum id PInt (py_int E p)) of
           Inl e \<Rightarrow> Inl e
         | Inr port' \<Rightarrow>
             Inr \<lparr>host = py_or (dict_get mapping ''host'') PNone,
                  port = port',
                  user = py_or (dict_get mapping ''user'') PNone,
                  password = py_or (dict_get mapping ''password'') PNone,
                  database = py_or (dict_get mapping ''database'') PNone,
                  dsn = py_or (dict_get mapping ''dsn'') PNone,
                  options = fold (\<lambda>(k, v) m. m(k \<mapsto> str_of E v)) opts Map.empty\<rparr>)"

text \<open>\<^verbatim>\<open>str.lower\<close> on ASCII text.\<close>

definition lower_char :: "char \<Rightarrow> char" where
  "lower_char c =
     (let n = (of_char c :: nat) in if 65 \<le> n \<and> n \<le> 90 then char_of (n + 32) else c)"

definition lower :: "string \<Rightarrow> string" where
  "lower s = map lower_char s"

text \<open>
  \<^verbatim>\<open>from_environment\<close> with the prefix \<^verbatim>\<open>PGTOOL_\<close>: one step of its loop over the
  environment, on the pair of dictionaries \<open>(data, options)\<close>.
\<close>

definition environment_step ::
  "string \<times> string \<Rightarrow> (string \<rightharpoonup> pyval) \<times> (string \<times> pyval) list
     \<Rightarrow> (string \<rightharpoonup> pyval) \<times> (string \<times> pyval) list" where
  "environment_step kv acc =
     (let key = fst kv; val = snd kv; data = fst acc; opts = snd acc in
      if \<not> prefix ''PGTOOL_'' key then acc
      else let raw_key = drop (length ''PGTOOL_'') key in
        if prefix ''OPTION_'' raw_key
        then (data, AList.update (lower (drop (length ''OPTION_'') raw_key)) (PStr val) opts)
        else (data(lower raw_key \<mapsto> PStr val), opts))"

definition from_environment :: "env \<Rightarrow> error + DatabaseConfig" where
  "from_environment E =
     (let acc = fold environment_step (environ E) (Map.empty, []);
          data = fst acc; opts = snd acc
      in from_mapping E (if opts \<noteq> [] then data(''options'' \<mapsto> PDict opts) else data))"

text \<open>
  \<^verbatim>\<open>load_config\<close>: the explicit path when one is given (a non-empty string), the
  default locations otherwise; the first candidate that is a file is loaded, and when
  none is, the result is \<^verbatim>\<open>DatabaseConfig()\<close>. The file is opened in binary mode and
  \<^verbatim>\<open>tomllib.load\<close> decodes its bytes.
\<close>

fun load_candidates :: "env \<Rightarrow> filesystem \<Rightarrow> path list \<Rightarrow> error + DatabaseConfig" where
  "load_candidates E fs [] = Inr DatabaseConfig_default"
| "load_candidates E fs (candidate # rest) =
     (case files fs candidate of
        None \<Rightarrow> load_candidates E fs rest
      | Some Undecodable \<Rightarrow> Inl (ValueError UnicodeDecodeError)
      | Some (Text text) \<Rightarrow>
          (case toml_load E text of
             None \<Rightarrow> Inl (ValueError TOMLDecodeError)
           | Some (PDict data) \<Rightarrow>
               (case map_of data ''database'' of
                  Some (PDict db_section) \<Rightarrow> from_mapping E (map_of db_section)
                | _ \<Rightarrow> Inl (ValueError (MissingDatabaseSection candidate)))
           | Some _ \<Rightarrow> Inl (ValueError (MissingDatabaseSection candidate))))"

definition load_config :: "env \<Rightarrow> filesystem \<Rightarrow> string option \<Rightarrow> error + DatabaseConfig" where
  "load_config E fs path =
     load_candidates E fs
       (case path of
          None \<Rightarrow> DEFAULT_CONFIG_LOCATIONS E
        | Some p \<Rightarrow> if p \<noteq> [] then [Path E p] else DEFAULT_CONFIG_LOCATIONS E)"

section \<open>pgtool/db.py\<close>

text \<open>
  \<^verbatim>\<open>DatabaseConnection\<close>: the configuration and the connection, \<^verbatim>\<open>None\<close> until
  \<^verbatim>\<open>connect\<close> opens one.
\<close>

record DatabaseConnection =
  config :: DatabaseConfig
  connection :: "connection option"

definition DatabaseConnection_init :: "DatabaseConfig \<Rightarrow> DatabaseConnection" where
  "DatabaseConnection_init cfg = \<lparr>config = cfg, connection = None\<rparr>"

text \<open>\<^verbatim>\<open>connect\<close>: opens a connection when there is none, and returns the connection.\<close>

definition connect :: "env \<Rightarrow> DatabaseConnection \<Rightarrow> (error + connection) \<times> DatabaseConnection" where
  "connect E self =
     (case connection self of
        Some c \<Rightarrow> (Inr c, self)
      | None \<Rightarrow>
          (case psycopg_connect E (to_connect_kwargs (config self)) of
             Inl m \<Rightarrow> (Inl (DatabaseError m), self)
           | Inr history \<Rightarrow>
               (Inr (new_connection history),
                self\<lparr>connection := Some (new_connection history)\<rparr>)))"

text \<open>
  \<^verbatim>\<open>close\<close>: closes the connection, if there is one, and forgets it. The closed
  connection object is no longer referenced.
\<close>

definition close :: "DatabaseConnection \<Rightarrow> DatabaseConnection" where
  "close self =
     (case connection self of
        None \<Rightarrow> self
      | Some c \<Rightarrow> self\<lparr>connection := None\<rparr>)"

text \<open>\<^verbatim>\<open>cursor\<close>: connects, then asks the connection for a cursor.\<close>

definition cursor :: "env \<Rightarrow> DatabaseConnection \<Rightarrow> (error + connection) \<times> DatabaseConnection" where
  "cursor E self =
     (case connect E self of
        (Inl e, s) \<Rightarrow> (Inl e, s)
      | (Inr c, s) \<Rightarrow>
          (case conn_cursor c of
             Inl e \<Rightarrow> (Inl e, s)
           | Inr _ \<Rightarrow> (Inr c, s)))"

text \<open>
  \<^verbatim>\<open>run_query\<close>: executes; with \<^verbatim>\<open>fetch\<close> and a non-empty description the columns and
  all rows, the empty pair otherwise; commits when \<^verbatim>\<open>fetch\<close> is false.
\<close>

definition run_query ::
  "env \<Rightarrow> DatabaseConnection \<Rightarrow> string \<Rightarrow> pyval list option \<Rightarrow> bool
     \<Rightarrow> (error + string list \<times> pyval list list) \<times> DatabaseConnection" where
  "run_query E self query params fetch =
     (case cursor E self of
        (Inl e, s) \<Rightarrow> (Inl e, s)
      | (Inr c, s) \<Rightarrow>
          (case conn_execute E c (SQL query, params) of
             (Inl e, c1) \<Rightarrow> (Inl e, s\<lparr>connection := Some c1\<rparr>)
           | (Inr r, c1) \<Rightarrow>
               (let res = (case fst r of
                             Some columns \<Rightarrow>
                               if fetch \<and> columns \<noteq> [] then (columns, snd r) else ([], [])
                           | None \<Rightarrow> ([], []))
                in if \<not> fetch
                   then (case conn_commit c1 of
                           (Inl e, c2) \<Rightarrow> (Inl e, s\<lparr>connection := Some c2\<rparr>)
                         | (Inr _, c2) \<Rightarrow> (Inr res, s\<lparr>connection := Some c2\<rparr>))
                   else (Inr res, s\<lparr>connection := Some c1\<rparr>))))"

text \<open>The query texts of \<^verbatim>\<open>list_tables\<close> and \<^verbatim>\<open>describe_table\<close>, line by line.\<close>

definition unlines :: "string list \<Rightarrow> string" where
  "unlines ls = concat (map (\<lambda>l. CHR 0x0A # l) ls)"

definition quoted :: "string \<Rightarrow> string" where
  "quoted s = CHR 0x27 # s @ [CHR 0x27]"

definition list_tables_query :: "bool \<Rightarrow> string" where
  "list_tables_query include_system =
     unlines
       [''        SELECT table_schema, table_name'',
        ''        FROM information_schema.tables'',
        ''        WHERE table_type = '' @ quoted ''BASE TABLE'',
        ''        '' @ (if include_system then ''''
                       else ''AND table_schema NOT IN ('' @ quoted ''pg_catalog'' @ '', ''
                            @ quoted ''information_schema'' @ '')''),
        ''        ORDER BY table_schema, table_name'',
        ''        '']"

definition describe_table_query :: string where
  "describe_table_query =
     unlines
       [''        SELECT column_name, data_type, is_nullable, column_default'',
        ''        FROM information_schema.columns'',
        ''        WHERE table_schema = split_part(%s, '' @ quoted ''.'' @ '', 1)'',
        ''          AND table_name = split_part(%s, '' @ quoted ''.'' @ '', 2)'',
        ''        ORDER BY ordinal_position'',
        ''        '']"

definition list_tables ::
  "env \<Rightarrow> DatabaseConnection \<Rightarrow> bool \<Rightarrow> (error + pyval list list) \<times> DatabaseConnection" where
  "list_tables E self include_system =
     (case run_query E self (list_tables_query include_system) None True of
        (Inl e, s) \<Rightarrow> (Inl e, s)
      | (Inr res, s) \<Rightarrow> (Inr (snd res), s))"

definition describe_table ::
  "env \<Rightarrow> DatabaseConnection \<Rightarrow> string \<Rightarrow> (error + pyval list list) \<times> DatabaseConnection" where
  "describe_table E self table =
     (let schema_table = (if CHR ''.'' \<in> set table then table else ''public.'' @ table) in
      case run_query E self describe_table_query
             (Some [PStr schema_table, PStr schema_table]) True of
        (Inl e, s) \<Rightarrow> (Inl e, s)
      | (Inr res, s) \<Rightarrow> (Inr (snd res), s))"

text \<open>
  \<^verbatim>\<open>export_to_csv\<close>: runs the query with \<^verbatim>\<open>fetch=True\<close>; no columns is a
  \<^verbatim>\<open>ValueError\<close>; otherwise the parent directories are created and the columns and the
  rows are written through \<^verbatim>\<open>csv.writer\<close>.
\<close>

definition export_to_csv ::
  "env \<Rightarrow> string \<Rightarrow> path \<Rightarrow> pyval list option \<Rightarrow> DatabaseConnection \<times> filesystem
     \<Rightarrow> (error + path) \<times> DatabaseConnection \<times> filesystem" where
  "export_to_csv E query destination params w =
     (case run_query E (fst w) query params True of
        (Inl e, s) \<Rightarrow> (Inl e, s, snd w)
      | (Inr res, s) \<Rightarrow>
          if fst res = [] then (Inl (ValueError NoDataToExport), s, snd w)
          else (case mkdir_parents (snd w) (parent destination) of
                  Inl e \<Rightarrow> (Inl e, s, snd w)
                | Inr fs1 \<Rightarrow>
                    (case write_file fs1 destination
                            (csv_writer E (map PStr (fst res) # snd res)) of
                       Inl e \<Rightarrow> (Inl e, s, fs1)
                     | Inr fs2 \<Rightarrow> (Inr destination, s, fs2))))"

text \<open>\<^verbatim>\<open>execute_script\<close>: executes the text as one statement, then commits.\<close>

definition execute_script ::
  "env \<Rightarrow> DatabaseConnection \<Rightarrow> string \<Rightarrow> (error + unit) \<times> DatabaseConnection" where
  "execute_script E self sql =
     (case cursor E self of
        (Inl e, s) \<Rightarrow> (Inl e, s)
      | (Inr c, s) \<Rightarrow>
          (case conn_execute E c (SQL sql, None) of
             (Inl e, c1) \<Rightarrow> (Inl e, s\<lparr>connection := Some c1\<rparr>)
           | (Inr _, c1) \<Rightarrow>
               (case conn_commit c1 of
                  (Inl e, c2) \<Rightarrow> (Inl e, s\<lparr>connection := Some c2\<rparr>)
                | (Inr _, c2) \<Rightarrow> (Inr (), s\<lparr>connection := Some c2\<rparr>))))"

section \<open>Standard output and the state of a run\<close>

text \<open>
  What a program writes, one event per call: the shell's prompt, \<^verbatim>\<open>print\<close> of a text,
  \<^verbatim>\<open>print(format_table(headers, rows))\<close> (the rendering of the table is not modelled:
  \<open>PrintRendered\<close> is \<^verbatim>\<open>pgtool.render.format_table\<close>, \<open>PrintTable\<close> the \<^verbatim>\<open>format_table\<close>
  of pg_tool), the fixed Russian messages of pgtool/cli.py, messages that interpolate a
  path or a count, and writes to the error stream.
\<close>

datatype printed =
    Prompt
  | Print string
  | PrintRendered "string list" "pyval list list"
  | PrintTable "string list" "pyval list list"
  | PrintQueryDone
  | PrintNoRows
  | PrintNoTables
  | PrintTableNotFound
  | PrintSaved path
  | PrintScriptDone
  | PrintExported string path
  | PrintImported nat string
  | Stderr string
  | StderrError error

text \<open>The state a command works on: the database object, the file system, the output.\<close>

record 'd world =
  db :: 'd
  fsys :: filesystem
  out :: "printed list"

section \<open>pgtool/cli.py\<close>

text \<open>
  The namespace \<^verbatim>\<open>argparse\<close> returns for the parser of \<^verbatim>\<open>build_parser\<close>: the global
  options and the subcommand with its own arguments (\<^verbatim>\<open>query\<close>: sql, file, no_fetch,
  params; \<^verbatim>\<open>tables\<close>: include_system; \<^verbatim>\<open>describe\<close>: table; \<^verbatim>\<open>export\<close>: output, sql,
  file, params; \<^verbatim>\<open>script\<close>: path). The subcommand is required, so no other value of
  \<^verbatim>\<open>args.command\<close> reaches \<^verbatim>\<open>main\<close>.
\<close>

datatype command =
    Query "string option" "string option" bool "string list"
  | Tables bool
  | Describe string
  | Export string "string option" "string option" "string list"
  | Script string

record args =
  arg_config :: "string option"
  arg_dsn :: "string option"
  arg_host :: "string option"
  arg_port :: "int option"
  arg_user :: "string option"
  arg_password :: "string option"
  arg_database :: "string option"
  arg_option :: "string list"
  arg_command :: command

text \<open>\<^verbatim>\<open>str.strip()\<close> and \<^verbatim>\<open>str.split()\<close> on ASCII text; \<^verbatim>\<open>s.split(sep, 1)\<close> for a \<open>sep\<close> in \<open>s\<close>.\<close>

definition is_space :: "char \<Rightarrow> bool" where
  "is_space c = (let n = (of_char c :: nat) in (9 \<le> n \<and> n \<le> 13) \<or> (28 \<le> n \<and> n \<le> 32))"

definition strip :: "string \<Rightarrow> string" where
  "strip s = rev (dropWhile is_space (rev (dropWhile is_space s)))"

fun split_from :: "string \<Rightarrow> string \<Rightarrow> string list" where
  "split_from cur [] = (if cur = [] then [] else [cur])"
| "split_from cur (c # cs) =
     (if is_space c then (if cur = [] then split_from [] cs else cur # split_from [] cs)
      else split_from (cur @ [c]) cs)"

definition split :: "string \<Rightarrow> string list" where
  "split s = split_from [] s"

definition split_once :: "char \<Rightarrow> string \<Rightarrow> string \<times> string" where
  "split_once sep s = (takeWhile (\<lambda>c. c \<noteq> sep) s, tl (dropWhile (\<lambda>c. c \<noteq> sep) s))"

text \<open>\<^verbatim>\<open>parse_options\<close>: the loop over the \<^verbatim>\<open>KEY=VALUE\<close> options, on the dictionary built so far.\<close>

fun parse_options_from ::
  "string list \<Rightarrow> (string \<times> pyval) list \<Rightarrow> error + (string \<times> pyval) list" where
  "parse_options_from [] parsed = Inr parsed"
| "parse_options_from (option # rest) parsed =
     (if CHR ''='' \<notin> set option then Inl (ValueError (OptionNotKeyValue option))
      else parse_options_from rest
             (AList.update (strip (fst (split_once CHR ''='' option)))
                (PStr (strip (snd (split_once CHR ''='' option)))) parsed))"

definition parse_options :: "string list \<Rightarrow> error + (string \<times> pyval) list" where
  "parse_options opts = parse_options_from opts []"

text \<open>
  \<^verbatim>\<open>parse_params\<close>: the loop over the parameters, on the list built so far. Only
  \<^verbatim>\<open>ValueError\<close> and \<^verbatim>\<open>SyntaxError\<close> are caught (the parameter is then kept as a
  string); any other exception of \<^verbatim>\<open>ast.literal_eval\<close> leaves the function.
\<close>

fun parse_params_from :: "env \<Rightarrow> string list \<Rightarrow> pyval list \<Rightarrow> error + pyval list" where
  "parse_params_from E [] parsed = Inr parsed"
| "parse_params_from E (param # rest) parsed =
     (case literal_eval E param of
        Inr v \<Rightarrow> parse_params_from E rest (parsed @ [v])
      | Inl LiteralValueError \<Rightarrow> parse_params_from E rest (parsed @ [PStr param])
      | Inl LiteralSyntaxError \<Rightarrow> parse_params_from E rest (parsed @ [PStr param])
      | Inl LiteralTypeError \<Rightarrow> Inl TypeError
      | Inl LiteralMemoryError \<Rightarrow> Inl MemoryError
      | Inl LiteralRecursionError \<Rightarrow> Inl RecursionError)"

definition parse_params :: "env \<Rightarrow> string list \<Rightarrow> error + pyval list" where
  "parse_params E params = parse_params_from E params []"

text \<open>A string argument that is given and not empty (what \<^verbatim>\<open>if sql\<close> tests).\<close>

definition given :: "string option \<Rightarrow> string option" where
  "given a = (case a of None \<Rightarrow> None | Some s \<Rightarrow> if s = [] then None else Some s)"

definition read_sql :: "env \<Rightarrow> filesystem \<Rightarrow> string option \<Rightarrow> string option \<Rightarrow> error + string" where
  "read_sql E fs sql file_path =
     (case (given sql, given file_path) of
        (Some s, Some f) \<Rightarrow> Inl (ValueError SqlAndFileTogether)
      | (Some s, None) \<Rightarrow> Inr s
      | (None, Some f) \<Rightarrow> read_file fs (Path E f)
      | (None, None) \<Rightarrow> Inl (ValueError SqlOrFileRequired))"

definition opt_str :: "string option \<Rightarrow> pyval" where
  "opt_str a = (case a of None \<Rightarrow> PNone | Some s \<Rightarrow> PStr s)"

definition opt_int :: "int option \<Rightarrow> pyval" where
  "opt_int a = (case a of None \<Rightarrow> PNone | Some i \<Rightarrow> PInt i)"

text \<open>\<^verbatim>\<open>build_config\<close>: file, environment, command line, merged in that order.\<close>

definition build_config :: "env \<Rightarrow> filesystem \<Rightarrow> args \<Rightarrow> error + DatabaseConfig" where
  "build_config E fs a =
     (case load_config E fs (arg_config a) of
        Inl e \<Rightarrow> Inl e
      | Inr file_config \<Rightarrow>
          (case from_environment E of
             Inl e \<Rightarrow> Inl e
           | Inr env_config \<Rightarrow>
               (case parse_options (arg_option a) of
                  Inl e \<Rightarrow> Inl e
                | Inr option_mapping \<Rightarrow>
                    (case from_mapping E
                            (map_of
                               [(''host'', opt_str (arg_host a)), (''port'', opt_int (arg_port a)),
                                (''user'', opt_str (arg_user a)),
                                (''password'', opt_str (arg_password a)),
                                (''database'', opt_str (arg_database a)),
                                (''dsn'', opt_str (arg_dsn a)),
                                (''options'', PDict option_mapping)]) of
                       Inl e \<Rightarrow> Inl e
                     | Inr cli_config \<Rightarrow>
                         Inr (merge_configs [file_config, env_config, cli_config])))))"

definition handle_query ::
  "env \<Rightarrow> string option \<Rightarrow> string option \<Rightarrow> bool \<Rightarrow> string list
     \<Rightarrow> DatabaseConnection world \<Rightarrow> (error + unit) \<times> DatabaseConnection world" where
  "handle_query E sql file no_fetch params w =
     (case read_sql E (fsys w) sql file of
        Inl e \<Rightarrow> (Inl e, w)
      | Inr q \<Rightarrow>
          (case parse_params E params of
             Inl e \<Rightarrow> (Inl e, w)
           | Inr ps \<Rightarrow>
               (case run_query E (db w) q (Some ps) (\<not> no_fetch) of
                  (Inl e, d) \<Rightarrow> (Inl e, w\<lparr>db := d\<rparr>)
                | (Inr res, d) \<Rightarrow>
                    (Inr (),
                     w\<lparr>db := d,
                       out := out w @
                         [if no_fetch then PrintQueryDone
                          else if snd res = [] then PrintNoRows
                          else PrintRendered (fst res) (snd res)]\<rparr>))))"

definition handle_tables ::
  "env \<Rightarrow> bool \<Rightarrow> DatabaseConnection world \<Rightarrow> (error + unit) \<times> DatabaseConnection world" where
  "handle_tables E include_system w =
     (case list_tables E (db w) include_system of
        (Inl e, d) \<Rightarrow> (Inl e, w\<lparr>db := d\<rparr>)
      | (Inr rows, d) \<Rightarrow>
          (Inr (),
           w\<lparr>db := d,
             out := out w @
               [if rows = [] then PrintNoTables
                else PrintRendered [''schema'', ''table''] rows]\<rparr>))"

definition handle_describe ::
  "env \<Rightarrow> string \<Rightarrow> DatabaseConnection world \<Rightarrow> (error + unit) \<times> DatabaseConnection world" where
  "handle_describe E table w =
     (case describe_table E (db w) table of
        (Inl e, d) \<Rightarrow> (Inl e, w\<lparr>db := d\<rparr>)
      | (Inr rows, d) \<Rightarrow>
          (Inr (),
           w\<lparr>db := d,
             out := out w @
               [if rows = [] then PrintTableNotFound
                else PrintRendered [''column'', ''type'', ''nullable'', ''default''] rows]\<rparr>))"

definition handle_export ::
  "env \<Rightarrow> string \<Rightarrow> string option \<Rightarrow> string option \<Rightarrow> string list
     \<Rightarrow> DatabaseConnection world \<Rightarrow> (error + unit) \<times> DatabaseConnection world" where
  "handle_export E output sql file params w =
     (case read_sql E (fsys w) sql file of
        Inl e \<Rightarrow> (Inl e, w)
      | Inr q \<Rightarrow>
          (case parse_params E params of
             Inl e \<Rightarrow> (Inl e, w)
           | Inr ps \<Rightarrow>
               (case export_to_csv E q (Path E output) (Some ps) (db w, fsys w) of
                  (Inl e, d, fs) \<Rightarrow> (Inl e, w\<lparr>db := d, fsys := fs\<rparr>)
                | (Inr destination, d, fs) \<Rightarrow>
                    (Inr (),
                     w\<lparr>db := d, fsys := fs, out := out w @ [PrintSaved destination]\<rparr>))))"

definition handle_script ::
  "env \<Rightarrow> string \<Rightarrow> DatabaseConnection world \<Rightarrow> (error + unit) \<times> DatabaseConnection world" where
  "handle_script E script_path w =
     (case read_file (fsys w) (Path E script_path) of
        Inl e \<Rightarrow> (Inl e, w)
      | Inr sql \<Rightarrow>
          (case execute_script E (db w) sql of
             (Inl e, d) \<Rightarrow> (Inl e, w\<lparr>db := d\<rparr>)
           | (Inr _, d) \<Rightarrow> (Inr (), w\<lparr>db := d, out := out w @ [PrintScriptDone]\<rparr>)))"

text \<open>
  The \<^verbatim>\<open>try\<close> block of \<^verbatim>\<open>main\<close> after the arguments are parsed: the configuration, then
  the \<^verbatim>\<open>with DatabaseConnection(config) as db\<close> block, which connects on entry and closes
  on every exit; the database object is local to \<^verbatim>\<open>main\<close>, so what remains of the run is
  the file system and the output.
\<close>

definition dispatch ::
  "env \<Rightarrow> command \<Rightarrow> DatabaseConnection world \<Rightarrow> (error + unit) \<times> DatabaseConnection world" where
  "dispatch E cmd w =
     (case cmd of
        Query sql file no_fetch params \<Rightarrow> handle_query E sql file no_fetch params w
      | Tables include_system \<Rightarrow> handle_tables E include_system w
      | Describe table \<Rightarrow> handle_describe E table w
      | Export output sql file params \<Rightarrow> handle_export E output sql file params w
      | Script script_path \<Rightarrow> handle_script E script_path w)"

definition main_body ::
  "env \<Rightarrow> args \<Rightarrow> filesystem \<Rightarrow> (error + unit) \<times> filesystem \<times> printed list" where
  "main_body E a fs =
     (case build_config E fs a of
        Inl e \<Rightarrow> (Inl e, fs, [])
      | Inr cfg \<Rightarrow>
          (case connect E (DatabaseConnection_init cfg) of
             (Inl e, d) \<Rightarrow> (Inl e, fs, [])
           | (Inr _, d) \<Rightarrow>
               (case dispatch E (arg_command a) \<lparr>db = d, fsys = fs, out = []\<rparr> of
                  (r, w) \<Rightarrow> (r, fsys w, out w))))"

text \<open>
  \<^verbatim>\<open>main\<close>: \<open>parsed\<close> is what \<^verbatim>\<open>parser.parse_args(argv)\<close> does, the namespace or the
  \<^verbatim>\<open>SystemExit\<close> status \<^verbatim>\<open>argparse\<close> leaves with (which \<^verbatim>\<open>except Exception\<close> does not
  catch). Every other exception of the \<^verbatim>\<open>try\<close> block is printed to the error stream and
  the result is 1; without an exception the result is 0.
\<close>

definition is_Exception :: "error \<Rightarrow> bool" where
  "is_Exception e = (case e of SystemExit n \<Rightarrow> False | _ \<Rightarrow> True)"

definition main ::
  "env \<Rightarrow> int + args \<Rightarrow> filesystem \<Rightarrow> (error + int) \<times> filesystem \<times> printed list" where
  "main E parsed fs =
     (case parsed of
        Inl status \<Rightarrow> (Inl (SystemExit status), fs, [])
      | Inr a \<Rightarrow>
          (case main_body E a fs of
             (Inl e, fs', printed) \<Rightarrow>
               if is_Exception e then (Inr 1, fs', printed @ [StderrError e])
               else (Inl e, fs', printed)
           | (Inr _, fs', printed) \<Rightarrow> (Inr 0, fs', printed)))"

section \<open>pg_tool/cli.py\<close>

text \<open>
  \<^verbatim>\<open>ConnectionConfig\<close> (its fields carry the prefix \<open>cc_\<close> here) and the namespace of
  \<^verbatim>\<open>parse_args\<close> (prefix \<open>ns_\<close>), with the subcommand and its arguments; no subcommand
  is \<open>None\<close>.
\<close>

record ConnectionConfig =
  cc_dsn :: "string option"
  cc_host :: "string option"
  cc_port :: int
  cc_dbname :: "string option"
  cc_user :: "string option"
  cc_password :: "string option"
  cc_autocommit :: bool

datatype subcommand =
    ShellCmd
  | TablesCmd "string option"
  | DescribeCmd string
  | QueryCmd string
  | ExportCmd string string
  | ImportCmd string string bool

record namespace =
  ns_dsn :: "string option"
  ns_host :: "string option"
  ns_port :: int
  ns_dbname :: "string option"
  ns_user :: "string option"
  ns_password :: "string option"
  ns_ask_password :: bool
  ns_autocommit :: bool
  ns_command :: "subcommand option"

definition from_args :: "env \<Rightarrow> namespace \<Rightarrow> ConnectionConfig" where
  "from_args E a =
     \<lparr>cc_dsn = ns_dsn a, cc_host = ns_host a, cc_port = ns_port a, cc_dbname = ns_dbname a,
      cc_user = ns_user a,
      cc_password = (if ns_password a = None \<and> ns_ask_password a then Some (getpass E)
                     else ns_password a),
      cc_autocommit = ns_autocommit a\<rparr>"

definition to_connection_kwargs :: "ConnectionConfig \<Rightarrow> (string \<rightharpoonup> pyval)" where
  "to_connection_kwargs self =
     (case given (cc_dsn self) of
        Some d \<Rightarrow> [''conninfo'' \<mapsto> PStr d]
      | None \<Rightarrow>
          map_of (List.map_filter (\<lambda>x. x)
            [map_option (\<lambda>v. (''host'', PStr v)) (given (cc_host self)),
             (if cc_port self \<noteq> 0 then Some (''port'', PInt (cc_port self)) else None),
             map_option (\<lambda>v. (''dbname'', PStr v)) (given (cc_dbname self)),
             map_option (\<lambda>v. (''user'', PStr v)) (given (cc_user self)),
             map_option (\<lambda>v. (''password'', PStr v)) (given (cc_password self))]))"

definition parse_table_name :: "string \<Rightarrow> string \<times> string" where
  "parse_table_name table =
     (if CHR ''.'' \<in> set table then split_once CHR ''.'' table else (''public'', table))"

text \<open>
  \<^verbatim>\<open>DatabaseClient\<close> holds one connection, opened by its constructor; the object is
  modelled by that connection. Its methods carry the class name, since pgtool/db.py has
  methods of the same names.
\<close>

definition DatabaseClient_init :: "env \<Rightarrow> ConnectionConfig \<Rightarrow> error + connection" where
  "DatabaseClient_init E cfg =
     (case psycopg_connect E (to_connection_kwargs cfg) of
        Inl m \<Rightarrow> Inl (DatabaseError m)
      | Inr history \<Rightarrow> Inr ((new_connection history)\<lparr>autocommit := cc_autocommit cfg\<rparr>))"

definition DatabaseClient_close :: "connection \<Rightarrow> connection" where
  "DatabaseClient_close c = conn_close c"

text \<open>\<^verbatim>\<open>execute\<close>: a cursor with the \<^verbatim>\<open>dict_row\<close> factory, then the statement on it.\<close>

definition DatabaseClient_execute ::
  "env \<Rightarrow> connection \<Rightarrow> composable \<Rightarrow> pyval list \<Rightarrow> (error + result) \<times> connection" where
  "DatabaseClient_execute E c statement params =
     (case conn_cursor c of
        Inl e \<Rightarrow> (Inl e, c)
      | Inr _ \<Rightarrow> conn_execute E c (statement, if params = [] then None else Some params))"

text \<open>
  A row of a \<^verbatim>\<open>dict_row\<close> cursor: the dictionary from the column names to the values of
  the row. \<^verbatim>\<open>fetchall\<close> is an error of the driver when the statement produced no result
  set. \<^verbatim>\<open>row[key]\<close> raises \<^verbatim>\<open>KeyError\<close> for a missing key.
\<close>

definition dict_row :: "string list \<Rightarrow> pyval list \<Rightarrow> (string \<times> pyval) list" where
  "dict_row columns row = fold (\<lambda>kv d. AList.update (fst kv) (snd kv) d) (zip columns row) []"

definition fetchall_dict :: "result \<Rightarrow> error + (string \<times> pyval) list list" where
  "fetchall_dict r =
     (case fst r of
        None \<Rightarrow> Inl (DatabaseError ''the last operation did not produce a result'')
      | Some columns \<Rightarrow> Inr (map (dict_row columns) (snd r)))"

definition getitem :: "(string \<times> pyval) list \<Rightarrow> string \<Rightarrow> error + pyval" where
  "getitem d k = (case map_of d k of None \<Rightarrow> Inl (KeyError k) | Some v \<Rightarrow> Inr v)"

text \<open>A list comprehension whose element expression can raise.\<close>

fun collect :: "('a \<Rightarrow> error + 'b) \<Rightarrow> 'a list \<Rightarrow> error + 'b list" where
  "collect f [] = Inr []"
| "collect f (x # xs) =
     (case f x of
        Inl e \<Rightarrow> Inl e
      | Inr y \<Rightarrow> (case collect f xs of Inl e \<Rightarrow> Inl e | Inr ys \<Rightarrow> Inr (y # ys)))"

definition DatabaseClient_list_tables ::
  "env \<Rightarrow> connection \<Rightarrow> string option \<Rightarrow> (error + pyval list) \<times> connection" where
  "DatabaseClient_list_tables E c schema =
     (let schema_clause = (case given schema of Some s \<Rightarrow> '' AND table_schema = %s'' | None \<Rightarrow> '''');
          query = ''SELECT table_schema || '' @ quoted ''.'' @ '' || table_name AS name ''
                  @ ''FROM information_schema.tables ''
                  @ ''WHERE table_type = '' @ quoted ''BASE TABLE'' @ schema_clause
                  @ '' ORDER BY table_schema, table_name'';
          params = (case given schema of Some s \<Rightarrow> [PStr s] | None \<Rightarrow> [])
      in case DatabaseClient_execute E c (SQL query) params of
           (Inl e, c1) \<Rightarrow> (Inl e, c1)
         | (Inr r, c1) \<Rightarrow>
             (case fetchall_dict r of
                Inl e \<Rightarrow> (Inl e, c1)
              | Inr rows \<Rightarrow>
                  (case collect (\<lambda>row. getitem row ''name'') rows of
                     Inl e \<Rightarrow> (Inl e, c1)
                   | Inr names \<Rightarrow> (Inr names, c1))))"

definition DatabaseClient_describe_table ::
  "env \<Rightarrow> connection \<Rightarrow> string \<Rightarrow> (error + (string \<times> pyval) list list) \<times> connection" where
  "DatabaseClient_describe_table E c table =
     (let schema = fst (parse_table_name table); name = snd (parse_table_name table);
          query = ''SELECT column_name, data_type, is_nullable, column_default ''
                  @ ''FROM information_schema.columns ''
                  @ ''WHERE table_schema = %s AND table_name = %s ''
                  @ ''ORDER BY ordinal_position''
      in case DatabaseClient_execute E c (SQL query) [PStr schema, PStr name] of
           (Inl e, c1) \<Rightarrow> (Inl e, c1)
         | (Inr r, c1) \<Rightarrow>
             (case fetchall_dict r of
                Inl e \<Rightarrow> (Inl e, c1)
              | Inr rows \<Rightarrow> (Inr rows, c1)))"

text \<open>
  \<^verbatim>\<open>run_query\<close>: without a description it commits and returns the empty pair;
  otherwise the column names and every row as the list of its values in column order.
\<close>

definition DatabaseClient_run_query ::
  "env \<Rightarrow> connection \<Rightarrow> string \<Rightarrow> (error + string list \<times> pyval list list) \<times> connection" where
  "DatabaseClient_run_query E c query =
     (case DatabaseClient_execute E c (SQL query) [] of
        (Inl e, c1) \<Rightarrow> (Inl e, c1)
      | (Inr r, c1) \<Rightarrow>
          (case fst r of
             None \<Rightarrow>
               (case conn_commit c1 of
                  (Inl e, c2) \<Rightarrow> (Inl e, c2)
                | (Inr _, c2) \<Rightarrow> (Inr ([], []), c2))
           | Some headers \<Rightarrow>
               (case fetchall_dict r of
                  Inl e \<Rightarrow> (Inl e, c1)
                | Inr rows \<Rightarrow>
                    (case collect (\<lambda>row. collect (getitem row) headers) rows of
                       Inl e \<Rightarrow> (Inl e, c1)
                     | Inr values \<Rightarrow> (Inr (headers, values), c1)))))"

text \<open>
  \<^verbatim>\<open>export_table\<close>: \<^verbatim>\<open>SELECT * FROM schema.name\<close> with escaped identifiers; returns
  without writing when there are no headers; otherwise opens the path for writing and
  writes the headers and the rows. The rows are the cursor's dictionaries, and
  \<^verbatim>\<open>csv.writer\<close> iterates a dictionary over its keys.
\<close>

definition export_table ::
  "env \<Rightarrow> connection \<Rightarrow> filesystem \<Rightarrow> string \<Rightarrow> path
     \<Rightarrow> (error + unit) \<times> connection \<times> filesystem" where
  "export_table E c fs table path =
     (let schema = fst (parse_table_name table); name = snd (parse_table_name table);
          query = Composed [SQL ''SELECT * FROM '', Identifier schema, SQL ''.'', Identifier name]
      in case DatabaseClient_execute E c query [] of
           (Inl e, c1) \<Rightarrow> (Inl e, c1, fs)
         | (Inr r, c1) \<Rightarrow>
             (let headers = (case fst r of None \<Rightarrow> [] | Some d \<Rightarrow> d) in
              case fetchall_dict r of
                Inl e \<Rightarrow> (Inl e, c1, fs)
              | Inr rows \<Rightarrow>
                  if headers = [] then (Inr (), c1, fs)
                  else (case write_file fs path
                               (csv_writer E
                                  (map PStr headers # map (\<lambda>row. map (\<lambda>kv. PStr (fst kv)) row) rows)) of
                          Inl e \<Rightarrow> (Inl e, c1, fs)
                        | Inr fs1 \<Rightarrow> (Inr (), c1, fs1))))"

text \<open>
  \<^verbatim>\<open>import_csv\<close>: reads the header (\<^verbatim>\<open>next(reader)\<close>, which raises \<^verbatim>\<open>StopIteration\<close>
  when the reader yields nothing) and the rows; executes the \<^verbatim>\<open>TRUNCATE\<close> when
  asked; executes the \<^verbatim>\<open>INSERT\<close> once per row; commits; returns the number of rows.
\<close>

definition truncate_stmt :: "string \<Rightarrow> string \<Rightarrow> composable" where
  "truncate_stmt schema name =
     Composed [SQL ''TRUNCATE TABLE '', Identifier schema, SQL ''.'', Identifier name]"

definition insert_stmt :: "string \<Rightarrow> string \<Rightarrow> string list \<Rightarrow> composable" where
  "insert_stmt schema name headers =
     Composed
       [SQL ''INSERT INTO '', Identifier schema, SQL ''.'', Identifier name, SQL '' ('',
        Composed (sql_join '', '' (map Identifier headers)), SQL '') VALUES ('',
        Composed (sql_join '', '' (map (\<lambda>h. Placeholder) headers)), SQL '')'']"

definition import_csv ::
  "env \<Rightarrow> connection \<Rightarrow> filesystem \<Rightarrow> string \<Rightarrow> path \<Rightarrow> bool \<Rightarrow> (error + nat) \<times> connection" where
  "import_csv E c fs table path do_truncate =
     (let schema = fst (parse_table_name table); name = snd (parse_table_name table) in
      case read_file fs path of
        Inl e \<Rightarrow> (Inl e, c)
      | Inr text \<Rightarrow>
          (case csv_reader E text of
             None \<Rightarrow> (Inl CsvError, c)
           | Some [] \<Rightarrow> (Inl StopIteration, c)
           | Some (headers # values) \<Rightarrow>
               (case (if do_truncate
                      then (case conn_cursor c of
                              Inl e \<Rightarrow> (Inl e, c)
                            | Inr _ \<Rightarrow>
                                (case conn_execute E c (truncate_stmt schema name, None) of
                                   (Inl e, c1) \<Rightarrow> (Inl e, c1)
                                 | (Inr _, c1) \<Rightarrow> (Inr (), c1)))
                      else (Inr (), c)) of
                  (Inl e, c1) \<Rightarrow> (Inl e, c1)
                | (Inr _, c1) \<Rightarrow>
                    (case conn_cursor c1 of
                       Inl e \<Rightarrow> (Inl e, c1)
                     | Inr _ \<Rightarrow>
                         (case conn_executemany E c1 (insert_stmt schema name headers)
                                 (map (map PStr) values) of
                            (Inl e, c2) \<Rightarrow> (Inl e, c2)
                          | (Inr _, c2) \<Rightarrow>
                              (case conn_commit c2 of
                                 (Inl e, c3) \<Rightarrow> (Inl e, c3)
                               | (Inr _, c3) \<Rightarrow> (Inr (length values), c3)))))))"

text \<open>
  The interactive shell.
\<close>

fun str_join :: "string \<Rightarrow> string list \<Rightarrow> string" where
  "str_join sep [] = []"
| "str_join sep [x] = x"
| "str_join sep (x # y # ys) = x @ sep @ str_join sep (y # ys)"

definition as_str :: "pyval \<Rightarrow> error + string" where
  "as_str v = (case v of PStr s \<Rightarrow> Inr s | _ \<Rightarrow> Inl TypeError)"

definition help_text :: string where
  "help_text =
     str_join [CHR 0x0A]
       [''Available commands:'',
        ''  tables [schema]   - list tables in the database'',
        ''  describe <table>  - show table columns'',
        ''  query <sql>       - execute an arbitrary SQL query'',
        ''  export <table> <path> - export table to CSV'',
        ''  import <table> <path> [--truncate] - import CSV into a table'',
        ''  help              - show this message'',
        ''  quit/exit         - leave the shell'']"

definition describe_headers :: "string list" where
  "describe_headers = [''column_name'', ''data_type'', ''is_nullable'', ''column_default'']"

definition say :: "printed \<Rightarrow> 'd world \<Rightarrow> 'd world" where
  "say x w = w\<lparr>out := out w @ [x]\<rparr>"

text \<open>The body of the \<^verbatim>\<open>try\<close> block of \<^verbatim>\<open>handle_command\<close>, for the command name and its arguments.\<close>

definition command_body ::
  "env \<Rightarrow> string \<Rightarrow> string list \<Rightarrow> connection world \<Rightarrow> (error + unit) \<times> connection world" where
  "command_body E cmd args w =
     (if cmd = ''tables'' then
        (case DatabaseClient_list_tables E (db w) (case args of [] \<Rightarrow> None | a # _ \<Rightarrow> Some a) of
           (Inl e, c) \<Rightarrow> (Inl e, w\<lparr>db := c\<rparr>)
         | (Inr tables, c) \<Rightarrow>
             if tables = [] then (Inr (), say (Print ''(no tables found)'') (w\<lparr>db := c\<rparr>))
             else (case collect as_str tables of
                     Inl e \<Rightarrow> (Inl e, w\<lparr>db := c\<rparr>)
                   | Inr names \<Rightarrow> (Inr (), say (Print (str_join [CHR 0x0A] names)) (w\<lparr>db := c\<rparr>))))
      else if cmd = ''describe'' then
        (case args of
           [] \<Rightarrow> (Inr (), say (Print ''Usage: describe <schema.table>'') w)
         | a # _ \<Rightarrow>
             (case DatabaseClient_describe_table E (db w) a of
                (Inl e, c) \<Rightarrow> (Inl e, w\<lparr>db := c\<rparr>)
              | (Inr columns, c) \<Rightarrow>
                  if columns = []
                  then (Inr (), say (Print ''Table not found or has no columns.'') (w\<lparr>db := c\<rparr>))
                  else (case collect (\<lambda>col. collect (getitem col) describe_headers) columns of
                          Inl e \<Rightarrow> (Inl e, w\<lparr>db := c\<rparr>)
                        | Inr rows \<Rightarrow>
                            (Inr (), say (PrintTable describe_headers rows) (w\<lparr>db := c\<rparr>)))))
      else if cmd = ''query'' then
        (case args of
           [] \<Rightarrow> (Inr (), say (Print ''Usage: query <sql>'') w)
         | _ \<Rightarrow>
             (case DatabaseClient_run_query E (db w) (str_join '' '' args) of
                (Inl e, c) \<Rightarrow> (Inl e, w\<lparr>db := c\<rparr>)
              | (Inr res, c) \<Rightarrow> (Inr (), say (PrintTable (fst res) (snd res)) (w\<lparr>db := c\<rparr>))))
      else if cmd = ''export'' then
        (case args of
           [table, path_str] \<Rightarrow>
             (case expanduser E (Path E path_str) of
                None \<Rightarrow> (Inl RuntimeError, w)
              | Some path \<Rightarrow>
                  (case export_table E (db w) (fsys w) table path of
                     (Inl e, c, fs) \<Rightarrow> (Inl e, w\<lparr>db := c, fsys := fs\<rparr>)
                   | (Inr _, c, fs) \<Rightarrow>
                       (Inr (), say (PrintExported table path) (w\<lparr>db := c, fsys := fs\<rparr>))))
         | _ \<Rightarrow> (Inr (), say (Print ''Usage: export <schema.table> <path>'') w))
      else if cmd = ''import'' then
        (case args of
           table # path_str # flags \<Rightarrow>
             (case expanduser E (Path E path_str) of
                None \<Rightarrow> (Inl RuntimeError, w)
              | Some path \<Rightarrow>
                  (case import_csv E (db w) (fsys w) table path (''--truncate'' \<in> set flags) of
                     (Inl e, c) \<Rightarrow> (Inl e, w\<lparr>db := c\<rparr>)
                   | (Inr count, c) \<Rightarrow>
                       (Inr (), say (PrintImported count table) (w\<lparr>db := c\<rparr>))))
         | _ \<Rightarrow> (Inr (), say (Print ''Usage: import <schema.table> <path> [--truncate]'') w))
      else (Inr (),
            say (Print (''Unknown command: '' @ cmd @ ''. Type '' @ quoted ''help''
                        @ '' for instructions.'')) w))"

text \<open>
  \<^verbatim>\<open>handle_command\<close>: splits the line; runs the body; an exception of the driver is
  caught and printed as one line; any other exception propagates.
\<close>

definition handle_command ::
  "env \<Rightarrow> string \<Rightarrow> connection world \<Rightarrow> (error + unit) \<times> connection world" where
  "handle_command E command w =
     (case split command of
        [] \<Rightarrow> (Inr (), w)
      | cmd # args \<Rightarrow>
          (case command_body E cmd args w of
             (Inl e, w1) \<Rightarrow>
               (case e of
                  DatabaseError m \<Rightarrow> (Inr (), say (Print (''Error: '' @ m)) w1)
                | _ \<Rightarrow> (Inl e, w1))
           | (Inr u, w1) \<Rightarrow> (Inr u, w1)))"

text \<open>
  \<^verbatim>\<open>cmdloop\<close>. The input is what \<^verbatim>\<open>input(self.prompt)\<close> meets at each prompt: a typed
  line or an interrupt; the end of the list is the end of the input. Every call of
  \<^verbatim>\<open>input\<close> writes the prompt first.
\<close>

datatype stdin_event = Typed string | Interrupt

fun cmdloop_from ::
  "env \<Rightarrow> stdin_event list \<Rightarrow> connection world \<Rightarrow> (error + unit) \<times> connection world" where
  "cmdloop_from E [] w = (Inr (), say (Print []) (say Prompt w))"
| "cmdloop_from E (Interrupt # rest) w = (Inr (), say (Print []) (say Prompt w))"
| "cmdloop_from E (Typed line # rest) w =
     (if strip line = [] then cmdloop_from E rest (say Prompt w)
      else if strip line \<in> {''quit'', ''exit''} then (Inr (), say Prompt w)
      else if strip line = ''help'' then cmdloop_from E rest (say (Print help_text) (say Prompt w))
      else (case handle_command E (strip line) (say Prompt w) of
              (Inl e, w1) \<Rightarrow> (Inl e, w1)
            | (Inr _, w1) \<Rightarrow> cmdloop_from E rest w1))"

definition cmdloop ::
  "env \<Rightarrow> stdin_event list \<Rightarrow> connection world \<Rightarrow> (error + unit) \<times> connection world" where
  "cmdloop E inputs w =
     cmdloop_from E inputs
       (say (Print (''Type '' @ quoted ''help'' @ '' for a list of commands. Type ''
                    @ quoted ''quit'' @ '' to exit.'')) w)"

text \<open>
  \<^verbatim>\<open>run_cli\<close>. \<open>parsed\<close> is what \<^verbatim>\<open>parse_args(argv)\<close> does: the namespace, or the
  \<^verbatim>\<open>SystemExit\<close> status \<^verbatim>\<open>argparse\<close> leaves with. The body is the
  \<^verbatim>\<open>with DatabaseClient(config) as client\<close> block, which closes the client on every exit;
  an exception of the driver is caught, printed to the error stream, and the result is 2.
\<close>

definition finish :: "(error + int) \<times> connection world \<Rightarrow> (error + int) \<times> connection world" where
  "finish rw = (fst rw, (snd rw)\<lparr>db := DatabaseClient_close (db (snd rw))\<rparr>)"

definition run_cli_body ::
  "env \<Rightarrow> namespace \<Rightarrow> filesystem \<Rightarrow> stdin_event list
     \<Rightarrow> (error + (error + int) \<times> connection world)" where
  "run_cli_body E a fs inputs =
     (case DatabaseClient_init E (from_args E a) of
        Inl e \<Rightarrow> Inl e
      | Inr c \<Rightarrow>
          Inr (finish
            (let w = \<lparr>db = c, fsys = fs, out = []\<rparr> in
             case ns_command a of
               None \<Rightarrow>
                 (case cmdloop E inputs w of (Inl e, w1) \<Rightarrow> (Inl e, w1) | (Inr _, w1) \<Rightarrow> (Inr 0, w1))
             | Some ShellCmd \<Rightarrow>
                 (case cmdloop E inputs w of (Inl e, w1) \<Rightarrow> (Inl e, w1) | (Inr _, w1) \<Rightarrow> (Inr 0, w1))
             | Some (TablesCmd schema) \<Rightarrow>
                 (case DatabaseClient_list_tables E c schema of
                    (Inl e, c1) \<Rightarrow> (Inl e, w\<lparr>db := c1\<rparr>)
                  | (Inr tables, c1) \<Rightarrow>
                      if tables = [] then (Inr 0, say (Print ''(no tables found)'') (w\<lparr>db := c1\<rparr>))
                      else (case collect as_str tables of
                              Inl e \<Rightarrow> (Inl e, w\<lparr>db := c1\<rparr>)
                            | Inr names \<Rightarrow>
                                (Inr 0, say (Print (str_join [CHR 0x0A] names)) (w\<lparr>db := c1\<rparr>))))
             | Some (DescribeCmd table) \<Rightarrow>
                 (case DatabaseClient_describe_table E c table of
                    (Inl e, c1) \<Rightarrow> (Inl e, w\<lparr>db := c1\<rparr>)
                  | (Inr columns, c1) \<Rightarrow>
                      if columns = []
                      then (Inr 1, say (Print ''Table not found or has no columns.'') (w\<lparr>db := c1\<rparr>))
                      else (case collect (\<lambda>col. collect (getitem col) describe_headers) columns of
                              Inl e \<Rightarrow> (Inl e, w\<lparr>db := c1\<rparr>)
                            | Inr rows \<Rightarrow>
                                (Inr 0, say (PrintTable describe_headers rows) (w\<lparr>db := c1\<rparr>))))
             | Some (QueryCmd sql) \<Rightarrow>
                 (case DatabaseClient_run_query E c sql of
                    (Inl e, c1) \<Rightarrow> (Inl e, w\<lparr>db := c1\<rparr>)
                  | (Inr res, c1) \<Rightarrow>
                      (Inr 0, say (PrintTable (fst res) (snd res)) (w\<lparr>db := c1\<rparr>)))
             | Some (ExportCmd table path_str) \<Rightarrow>
                 (case expanduser E (Path E path_str) of
                    None \<Rightarrow> (Inl RuntimeError, w)
                  | Some path \<Rightarrow>
                      (case export_table E c fs table path of
                         (Inl e, c1, fs1) \<Rightarrow> (Inl e, w\<lparr>db := c1, fsys := fs1\<rparr>)
                       | (Inr _, c1, fs1) \<Rightarrow>
                           (Inr 0,
                            say (PrintExported table path) (w\<lparr>db := c1, fsys := fs1\<rparr>))))
             | Some (ImportCmd table path_str trunc) \<Rightarrow>
                 (case expanduser E (Path E path_str) of
                    None \<Rightarrow> (Inl RuntimeError, w)
                  | Some path \<Rightarrow>
                      (case import_csv E c fs table path trunc of
                         (Inl e, c1) \<Rightarrow> (Inl e, w\<lparr>db := c1\<rparr>)
                       | (Inr count, c1) \<Rightarrow>
                           (Inr 0, say (PrintImported count table) (w\<lparr>db := c1\<rparr>)))))))"

definition run_cli ::
  "env \<Rightarrow> int + namespace \<Rightarrow> filesystem \<Rightarrow> stdin_event list
     \<Rightarrow> (error + int) \<times> filesystem \<times> printed list" where
  "run_cli E parsed fs inputs =
     (case parsed of
        Inl status \<Rightarrow> (Inl (SystemExit status), fs, [])
      | Inr a \<Rightarrow>
          (case run_cli_body E a fs inputs of
             Inl e \<Rightarrow>
               (case e of
                  DatabaseError m \<Rightarrow> (Inr 2, fs, [Stderr (''Database error: '' @ m)])
                | _ \<Rightarrow> (Inl e, fs, []))
           | Inr (Inl e, w) \<Rightarrow>
               (case e of
                  DatabaseError m \<Rightarrow>
                    (Inr 2, fsys w, out w @ [Stderr (''Database error: '' @ m)])
                | _ \<Rightarrow> (Inl e, fsys w, out w))
           | Inr (Inr status, w) \<Rightarrow> (Inr status, fsys w, out w)))"

text \<open>
  The value a scalar field gets from the three sources according to the rule "the last
  source that explicitly set it", where a field is set when it is not \<^verbatim>\<open>None\<close> (the
  type of every field is \<^verbatim>\<open>Optional\<close>, and \<^verbatim>\<open>from_mapping\<close> and \<^verbatim>\<open>to_connect_kwargs\<close> treat
  \<^verbatim>\<open>None\<close> alone as unset).
\<close>

definition last_set :: "pyval \<Rightarrow> pyval \<Rightarrow> pyval \<Rightarrow> pyval" where
  "last_set f e c = (if c \<noteq> PNone then c else if e \<noteq> PNone then e else f)"

text \<open>The last of the three values that is true in Python's sense; \<^verbatim>\<open>None\<close> when none is.\<close>

definition last_truthy :: "pyval \<Rightarrow> pyval \<Rightarrow> pyval \<Rightarrow> pyval" where
  "last_truthy f e c =
     (if truthy c then c else if truthy e then e else if truthy f then f else PNone)"

section \<open>Example runs\<close>

text \<open>
  Concrete environments for the closed instances below. In \<open>example_env\<close> the server
  accepts every connection and answers every statement without a result set; there are
  no environment variables and no parsable configuration file; no parameter is a Python
  literal; an empty file has no CSV rows, and any other text is read as one row of one
  field. The variants differ in what the server answers.
\<close>

definition example_env :: env where
  "example_env =
     \<lparr>psycopg_connect = (\<lambda>kwargs. Inr []),
      psycopg_execute = (\<lambda>c st. Inr (None, [])),
      int_of_str = (\<lambda>s. None),
      py_str = (\<lambda>v. ''?''),
      environ = [],
      Path = (\<lambda>s. [s]),
      expanduser = (\<lambda>p. Some p),
      DEFAULT_CONFIG_LOCATIONS =
        [[''pgtool.toml''], [''home'', ''.pgtool.toml''],
         [''home'', ''.config'', ''pgtool'', ''config.toml'']],
      toml_load = (\<lambda>t. None),
      literal_eval = (\<lambda>s. Inl LiteralValueError),
      csv_reader = (\<lambda>t. if t = [] then Some [] else Some [[t]]),
      csv_writer = (\<lambda>rows. concat (map (\<lambda>r. ''row;'') rows)),
      getpass = ''secret''\<rparr>"

text \<open>A server that rejects every statement.\<close>

definition rejecting_env :: env where
  "rejecting_env = example_env\<lparr>psycopg_execute := (\<lambda>c st. Inl (ServerSide ''syntax error''))\<rparr>"

text \<open>A server that cannot be reached.\<close>

definition unreachable_env :: env where
  "unreachable_env = example_env\<lparr>psycopg_connect := (\<lambda>kwargs. Inl ''connection refused'')\<rparr>"

text \<open>
  A CSV file with three header columns and one data row of two fields, and a driver that
  refuses, before sending it, a statement whose parameters do not fill its placeholders
  (here: every statement that comes with parameters).
\<close>

definition ragged_env :: env where
  "ragged_env =
     example_env
       \<lparr>psycopg_execute :=
          (\<lambda>c st. case snd st of
                     None \<Rightarrow> Inr (None, [])
                   | Some ps \<Rightarrow>
                       Inl (ClientSide ''the query has 3 placeholders but 2 parameters were passed'')),
        csv_reader := (\<lambda>t. Some [[''a'', ''b'', ''c''], [''1'', ''2'']])\<rparr>"

text \<open>
  A CSV file with two header columns and one data row of two fields, and a server that
  rejects the row (the first column of the table is an integer; here: every statement
  that comes with parameters is rejected).
\<close>

definition mistyped_env :: env where
  "mistyped_env =
     example_env
       \<lparr>psycopg_execute :=
          (\<lambda>c st. case snd st of
                     None \<Rightarrow> Inr (None, [])
                   | Some ps \<Rightarrow> Inl (ServerSide ''invalid input syntax for type integer'')),
        csv_reader := (\<lambda>t. Some [[''id'', ''name''], [''x'', ''ann'']])\<rparr>"

text \<open>A server that answers every statement with one row of the catalogue's columns.\<close>

definition catalogue_env :: env where
  "catalogue_env =
     example_env
       \<lparr>psycopg_execute :=
          (\<lambda>c st. Inr (Some [''name'', ''column_name'', ''data_type'', ''is_nullable'',
                              ''column_default''],
                        [[PStr ''public.person'', PStr ''id'', PStr ''integer'', PStr ''NO'',
                          PNone]]))\<rparr>"

text \<open>A parameter that \<^verbatim>\<open>ast.literal_eval\<close> answers with \<^verbatim>\<open>TypeError\<close>.\<close>

definition unhashable_env :: env where
  "unhashable_env =
     example_env
       \<lparr>literal_eval := (\<lambda>s. if s = ''{[1]: 2}'' then Inl LiteralTypeError else Inl LiteralValueError)\<rparr>"

text \<open>A configuration file that sets the port.\<close>

definition port_env :: env where
  "port_env =
     example_env
       \<lparr>toml_load := (\<lambda>t. Some (PDict [(''database'', PDict [(''port'', PInt 5432)])]))\<rparr>"

definition port_fs :: filesystem where
  "port_fs =
     \<lparr>dirs = {},
      files = [[''pgtool.toml''] \<mapsto> Text (''[database]'' @ [CHR 0x0A] @ ''port = 5432'')]\<rparr>"

text \<open>A server that answers every statement with two columns and two rows.\<close>

definition select_env :: env where
  "select_env =
     example_env
       \<lparr>psycopg_execute :=
          (\<lambda>c st. Inr (Some [''id'', ''name''],
                        [[PInt 1, PStr ''ann''], [PInt 2, PStr ''bob'']]))\<rparr>"

text \<open>A server that answers every statement with a result set of no columns.\<close>

definition no_columns_env :: env where
  "no_columns_env = example_env\<lparr>psycopg_execute := (\<lambda>c st. Inr (Some [], []))\<rparr>"

definition empty_fs :: filesystem where
  "empty_fs = \<lparr>dirs = {}, files = Map.empty\<rparr>"

definition csv_fs :: filesystem where
  "csv_fs = \<lparr>dirs = {}, files = [[''data.csv''] \<mapsto> Text (''a,b,c'' @ [CHR 0x0A] @ ''1,2'')]\<rparr>"

definition people_fs :: filesystem where
  "people_fs =
     \<lparr>dirs = {}, files = [[''people.csv''] \<mapsto> Text (''id,name'' @ [CHR 0x0A] @ ''x,ann'')]\<rparr>"

definition empty_csv_fs :: filesystem where
  "empty_csv_fs = \<lparr>dirs = {}, files = [[''empty.csv''] \<mapsto> Text []]\<rparr>"

definition example_session :: DatabaseConnection where
  "example_session = DatabaseConnection_init DatabaseConfig_default"

definition example_namespace :: namespace where
  "example_namespace =
     \<lparr>ns_dsn = None, ns_host = Some ''localhost'', ns_port = 5432, ns_dbname = Some ''postgres'',
      ns_user = None, ns_password = None, ns_ask_password = False, ns_autocommit = False,
      ns_command = Some (QueryCmd ''SELECT 1'')\<rparr>"

definition example_args :: args where
  "example_args =
     \<lparr>arg_config = None, arg_dsn = None, arg_host = None, arg_port = None, arg_user = None,
      arg_password = None, arg_database = None, arg_option = [],
      arg_command = Tables False\<rparr>"

text \<open>The state of a shell on a new connection, before anything is written.\<close>

definition example_world :: "connection world" where
  "example_world = \<lparr>db = new_connection [], fsys = empty_fs, out = []\<rparr>"

text \<open>
  A connection has no open transaction when nothing is pending and the transaction was
  not aborted: this is what the driver reports as committed (idle).
\<close>

definition committed :: "connection \<Rightarrow> bool" where
  "committed c = (pending c = [] \<and> \<not> failed c)"
section \<open>Configuration precedence\<close>

lemma py_or_chain:
  "py_or c (py_or e (py_or f PNone)) = last_truthy f e c"
  by (simp add: py_or_def last_truthy_def)

lemma merge_configs_three:
  "merge_configs [f, e, c] =
     merged_with (merged_with (merged_with DatabaseConfig_default f) e) c"
  by (simp add: merge_configs_def)

text \<open>
  What \<^verbatim>\<open>merge_configs\<close> computes for three sources: each scalar field is the last of
  the three values that is true, and the options maps merge key-wise, a later source
  overriding single keys.
\<close>

lemma merge_configs_fields:
  "host (merge_configs [f, e, c]) = last_truthy (host f) (host e) (host c) \<and>
   port (merge_configs [f, e, c]) = last_truthy (port f) (port e) (port c) \<and>
   user (merge_configs [f, e, c]) = last_truthy (user f) (user e) (user c) \<and>
   password (merge_configs [f, e, c]) = last_truthy (password f) (password e) (password c) \<and>
   database (merge_configs [f, e, c]) = last_truthy (database f) (database e) (database c) \<and>
   dsn (merge_configs [f, e, c]) = last_truthy (dsn f) (dsn e) (dsn c) \<and>
   options (merge_configs [f, e, c]) k =
     (case options c k of Some v \<Rightarrow> Some v
      | None \<Rightarrow> (case options e k of Some v \<Rightarrow> Some v | None \<Rightarrow> options f k))"
  unfolding merge_configs_three
  by (simp add: merged_with_def DatabaseConfig_default_def py_or_chain map_add_def
      split: option.split)

text \<open>
  C1 (merging file, environment and command line in that order, each scalar field is
  the value of the last source that explicitly set it) does not hold of the code at a
  port that is set to 0. The configuration file holds \<^verbatim>\<open>port = 5432\<close> and the command
  line is \<^verbatim>\<open>--port 0\<close>: the configuration built from the command line has the port 0,
  not \<^verbatim>\<open>None\<close>, so the last source that set the port is the command line and the rule
  gives 0; \<^verbatim>\<open>merge_configs\<close> gives 5432, and so does \<^verbatim>\<open>build_config\<close> for these inputs,
  since \<^verbatim>\<open>other.port or self.port\<close> takes the 0 for unset.
\<close>

theorem merge_configs_port_zero:
  "from_mapping port_env (map_of [(''port'', opt_int (Some 0))])
     = Inr (DatabaseConfig_default\<lparr>port := PInt 0\<rparr>) \<and>
   last_set (PInt 5432) PNone (PInt 0) = PInt 0 \<and>
   port (merge_configs
      [DatabaseConfig_default\<lparr>port := PInt 5432\<rparr>, DatabaseConfig_default,
       DatabaseConfig_default\<lparr>port := PInt 0\<rparr>]) = PInt 5432 \<and>
   build_config port_env port_fs (example_args\<lparr>arg_port := Some 0\<rparr>)
     = Inr (DatabaseConfig_default\<lparr>port := PInt 5432\<rparr>)"
proof (intro conjI)
  show "from_mapping port_env (map_of [(''port'', opt_int (Some 0))])
     = Inr (DatabaseConfig_default\<lparr>port := PInt 0\<rparr>)"
    by (simp add: from_mapping_def dict_get_def opt_int_def py_int_def py_or_def
        DatabaseConfig_default_def)
  show "last_set (PInt 5432) PNone (PInt 0) = PInt 0"
    by (simp add: last_set_def)
  show "port (merge_configs
      [DatabaseConfig_default\<lparr>port := PInt 5432\<rparr>, DatabaseConfig_default,
       DatabaseConfig_default\<lparr>port := PInt 0\<rparr>]) = PInt 5432"
    by (simp add: merge_configs_def merged_with_def DatabaseConfig_default_def py_or_def)
  have from_file: "load_config port_env port_fs None = Inr (DatabaseConfig_default\<lparr>port := PInt 5432\<rparr>)"
    by (simp add: load_config_def port_env_def example_env_def port_fs_def from_mapping_def
        dict_get_def py_int_def py_or_def DatabaseConfig_default_def)
  have environment: "from_environment port_env = Inr DatabaseConfig_default"
    by (simp add: from_environment_def port_env_def example_env_def from_mapping_def
        dict_get_def py_or_def DatabaseConfig_default_def)
  show "build_config port_env port_fs (example_args\<lparr>arg_port := Some 0\<rparr>)
     = Inr (DatabaseConfig_default\<lparr>port := PInt 5432\<rparr>)"
    by (simp add: build_config_def example_args_def from_file environment parse_options_def
        opt_str_def opt_int_def from_mapping_def dict_get_def py_int_def py_or_def
        merge_configs_def merged_with_def DatabaseConfig_default_def)
qed


section \<open>Loading a configuration file\<close>

lemma load_candidates_no_file:
  "\<forall>q \<in> set ps. \<not> is_file fs q \<Longrightarrow> load_candidates E fs ps = Inr DatabaseConfig_default"
  by (induction ps) (auto simp: is_file_def)

text \<open>
  C3, as stated, fails: with an explicit path at which no file exists, \<^verbatim>\<open>load_config\<close>
  does not fail; it returns the empty configuration.
\<close>

theorem load_config_missing_explicit_counterexample:
  "load_config example_env empty_fs (Some ''missing.toml'') = Inr DatabaseConfig_default"
  by (simp add: load_config_def example_env_def empty_fs_def)

text \<open>
  C3, amended: for every explicitly supplied configuration file path, \<^verbatim>\<open>load_config\<close>
  returns the empty configuration, without an error, when no file exists at that path;
  and when no explicit path is given and no default location holds a file, it returns
  the empty configuration as well.
\<close>

theorem load_config_no_file:
  "(p \<noteq> [] \<and> \<not> is_file fs (Path E p) \<longrightarrow>
      load_config E fs (Some p) = Inr DatabaseConfig_default) \<and>
   ((\<forall>q \<in> set (DEFAULT_CONFIG_LOCATIONS E). \<not> is_file fs q) \<longrightarrow>
      load_config E fs None = Inr DatabaseConfig_default)"
  by (auto simp: load_config_def load_candidates_no_file is_file_def)

theorem load_config_no_file_witness:
  "''absent.toml'' \<noteq> [] \<and> \<not> is_file empty_fs (Path example_env ''absent.toml'') \<and>
   load_config example_env empty_fs (Some ''absent.toml'') = Inr DatabaseConfig_default \<and>
   load_config example_env empty_fs None = Inr DatabaseConfig_default"
proof -
  have a: "''absent.toml'' \<noteq> [] \<and> \<not> is_file empty_fs (Path example_env ''absent.toml'')"
    by (simp add: is_file_def empty_fs_def)
  have b: "\<forall>q \<in> set (DEFAULT_CONFIG_LOCATIONS example_env). \<not> is_file empty_fs q"
    by (simp add: is_file_def empty_fs_def)
  from a b load_config_no_file [of "''absent.toml''" empty_fs example_env]
  show ?thesis by blast
qed

section \<open>Executing a statement through a session\<close>

lemma conn_execute_ok:
  "\<not> closed c \<Longrightarrow> \<not> failed c \<Longrightarrow> psycopg_execute E c st = Inr r \<Longrightarrow>
   conn_execute E c st =
     (Inr r, if autocommit c then c\<lparr>durable := durable c @ [st]\<rparr>
             else c\<lparr>pending := pending c @ [st]\<rparr>)"
  by (simp add: conn_execute_def)

lemma conn_execute_Inr:
  "conn_execute E c st = (Inr r, c1) \<Longrightarrow>
   \<not> closed c \<and> \<not> failed c \<and> psycopg_execute E c st = Inr r \<and>
   c1 = (if autocommit c then c\<lparr>durable := durable c @ [st]\<rparr>
         else c\<lparr>pending := pending c @ [st]\<rparr>)"
  by (auto simp: conn_execute_def split: if_splits sum.splits refusal.splits)

lemma cursor_Inr:
  "cursor E self = (Inr c, s) \<Longrightarrow> connect E self = (Inr c, s) \<and> \<not> closed c"
  by (auto simp: cursor_def conn_cursor_def split: prod.splits sum.splits if_splits)

lemma cursor_ok:
  "connect E self = (Inr c, s) \<Longrightarrow> \<not> closed c \<Longrightarrow> cursor E self = (Inr c, s)"
  by (simp add: cursor_def conn_cursor_def)

lemma run_query_no_fetch_returns:
  assumes "connect E self = (Inr c, s)" "\<not> closed c" "\<not> failed c"
    "psycopg_execute E c (SQL query, params) = Inr r"
  shows "run_query E self query params False =
     (Inr ([], []),
      s\<lparr>connection := Some
          ((if autocommit c then c\<lparr>durable := durable c @ [(SQL query, params)]\<rparr>
            else c\<lparr>pending := pending c @ [(SQL query, params)]\<rparr>)
           \<lparr>durable := durable (if autocommit c then c\<lparr>durable := durable c @ [(SQL query, params)]\<rparr>
                                  else c\<lparr>pending := pending c @ [(SQL query, params)]\<rparr>)
                        @ pending (if autocommit c then c\<lparr>durable := durable c @ [(SQL query, params)]\<rparr>
                                  else c\<lparr>pending := pending c @ [(SQL query, params)]\<rparr>),
             pending := []\<rparr>)\<rparr>)"
  using assms
  by (simp add: run_query_def cursor_ok conn_execute_ok conn_commit_def split: option.splits)

lemma example_connect:
  "connect example_env example_session =
     (Inr (new_connection []), example_session\<lparr>connection := Some (new_connection [])\<rparr>)"
  by (simp add: connect_def example_env_def example_session_def DatabaseConnection_init_def)

text \<open>
  C2: for every SQL statement, \<^verbatim>\<open>run_query\<close> with \<^verbatim>\<open>fetch=False\<close> returns the no-result
  value, the empty columns and the empty rows, and leaves the connection committed:
  whenever the call returns, its value is the empty pair, the session's connection has
  no open transaction and the statement is part of the committed history; and the call
  does return whenever the session connects and the server executes the statement (an
  exception of the driver is not a return).
\<close>

theorem run_query_no_fetch:
  "(run_query E self query params False = (Inr res, s') \<longrightarrow>
      res = ([], []) \<and>
      (\<exists>c'. connection s' = Some c' \<and> committed c' \<and> (SQL query, params) \<in> set (durable c'))) \<and>
   (connect E self = (Inr c, s) \<and> \<not> closed c \<and> \<not> failed c \<and>
    psycopg_execute E c (SQL query, params) = Inr r \<longrightarrow>
      (\<exists>s'. run_query E self query params False = (Inr ([], []), s')))"
proof (rule conjI; rule impI)
  assume a: "run_query E self query params False = (Inr res, s')"
  then obtain c s where cur: "cursor E self = (Inr c, s)"
    by (auto simp: run_query_def split: prod.splits sum.splits)
  with a obtain r c1 where ex: "conn_execute E c (SQL query, params) = (Inr r, c1)"
    by (auto simp: run_query_def split: prod.splits sum.splits)
  from conn_execute_Inr [OF ex] cursor_Inr [OF cur]
  have pre: "connect E self = (Inr c, s)" "\<not> closed c" "\<not> failed c"
    "psycopg_execute E c (SQL query, params) = Inr r"
    by simp_all
  from run_query_no_fetch_returns [OF pre] a pre
  show "res = ([], []) \<and>
      (\<exists>c'. connection s' = Some c' \<and> committed c' \<and> (SQL query, params) \<in> set (durable c'))"
    by (auto simp: committed_def)
next
  assume "connect E self = (Inr c, s) \<and> \<not> closed c \<and> \<not> failed c \<and>
    psycopg_execute E c (SQL query, params) = Inr r"
  then show "\<exists>s'. run_query E self query params False = (Inr ([], []), s')"
    using run_query_no_fetch_returns [of E self c s query params r] by blast
qed

theorem run_query_no_fetch_witness:
  "\<exists>s'. run_query example_env example_session ''DELETE FROM t'' None False = (Inr ([], []), s') \<and>
     (\<exists>c'. connection s' = Some c' \<and> committed c' \<and> (SQL ''DELETE FROM t'', None) \<in> set (durable c'))"
proof -
  have pre: "connect example_env example_session =
       (Inr (new_connection []), example_session\<lparr>connection := Some (new_connection [])\<rparr>) \<and>
     \<not> closed (new_connection []) \<and> \<not> failed (new_connection []) \<and>
     psycopg_execute example_env (new_connection []) (SQL ''DELETE FROM t'', None) = Inr (None, [])"
    by (simp add: example_connect) (simp add: new_connection_def example_env_def)
  from run_query_no_fetch [of example_env example_session "''DELETE FROM t''" None "([], [])" _
      "new_connection []" _ "(None, [])"] pre
  show ?thesis by blast
qed

text \<open>
  C10: for every statement executed through \<^verbatim>\<open>run_query\<close> with \<^verbatim>\<open>fetch=True\<close> for which
  the cursor has no description, the call returns the empty pair and does not commit:
  the committed history is unchanged, and the open transaction is what it was with the
  statement added to it. (A connection opened by \<^verbatim>\<open>connect\<close> is never in autocommit mode.)
\<close>

theorem run_query_fetch_no_description:
  assumes "connect E self = (Inr c, s)" "\<not> closed c" "\<not> failed c" "\<not> autocommit c"
    "psycopg_execute E c (SQL query, params) = Inr (None, rows)"
  shows "run_query E self query params True =
     (Inr ([], []), s\<lparr>connection := Some (c\<lparr>pending := pending c @ [(SQL query, params)]\<rparr>)\<rparr>)"
  using assms
  by (simp add: run_query_def cursor_ok conn_execute_ok)

theorem run_query_fetch_no_description_witness:
  "run_query example_env example_session ''CREATE TABLE t (a int)'' None True =
     (Inr ([], []),
      example_session\<lparr>connection :=
        Some ((new_connection [])\<lparr>pending := [(SQL ''CREATE TABLE t (a int)'', None)]\<rparr>)\<rparr>)"
proof -
  have "\<not> closed (new_connection [])" "\<not> failed (new_connection [])"
    "\<not> autocommit (new_connection [])"
    "psycopg_execute example_env (new_connection []) (SQL ''CREATE TABLE t (a int)'', None)
       = Inr (None, [])"
    by (simp_all add: new_connection_def example_env_def)
  from run_query_fetch_no_description [OF example_connect this]
  show ?thesis by (simp add: new_connection_def)
qed


section \<open>Operations after close\<close>

text \<open>
  C4, as stated, fails for \<^verbatim>\<open>DatabaseConnection\<close>: a session is connected and closed,
  and \<^verbatim>\<open>run_query\<close> on it afterwards returns the rows of the query; \<^verbatim>\<open>cursor\<close> has
  reconnected.
\<close>

theorem run_query_after_close_counterexample:
  "fst (run_query select_env (close (snd (connect select_env example_session)))
          ''SELECT id, name FROM person'' None True)
   = Inr ([''id'', ''name''], [[PInt 1, PStr ''ann''], [PInt 2, PStr ''bob'']])"
  by (simp add: run_query_def cursor_def connect_def close_def conn_cursor_def conn_execute_def
      select_env_def example_env_def example_session_def DatabaseConnection_init_def
      new_connection_def)

lemma closed_execute:
  "DatabaseClient_execute E (DatabaseClient_close c) st ps =
     (Inl (DatabaseError ''the connection is closed''), DatabaseClient_close c)"
  by (simp add: DatabaseClient_execute_def DatabaseClient_close_def conn_close_def conn_cursor_def)

text \<open>
  C4, amended: after \<^verbatim>\<open>close()\<close> a \<^verbatim>\<open>DatabaseConnection\<close> (pgtool/db.py) holds no
  connection, and a later operation does not fail for that reason: acquiring a cursor
  opens a new connection, and \<^verbatim>\<open>run_query\<close> returns when the server accepts the
  connection and the statement. After \<^verbatim>\<open>close()\<close> on a \<^verbatim>\<open>DatabaseClient\<close> (pg_tool),
  \<^verbatim>\<open>execute\<close>, \<^verbatim>\<open>run_query\<close>, \<^verbatim>\<open>list_tables\<close>, \<^verbatim>\<open>describe_table\<close> and
  \<^verbatim>\<open>export_table\<close> fail with the driver's error for a closed connection. Neither
  program has an error of its own for a closed session.
\<close>

theorem operations_after_close:
  "connection (close self) = None \<and>
   (psycopg_connect E (to_connect_kwargs (config self)) = Inr h \<longrightarrow>
      cursor E (close self) =
        (Inr (new_connection h), self\<lparr>connection := Some (new_connection h)\<rparr>)) \<and>
   (psycopg_connect E (to_connect_kwargs (config self)) = Inr h \<and>
    psycopg_execute E (new_connection h) (SQL query, params) = Inr r \<longrightarrow>
      (\<exists>res s'. run_query E (close self) query params fetch = (Inr res, s'))) \<and>
   DatabaseClient_execute E (DatabaseClient_close c) st ps =
     (Inl (DatabaseError ''the connection is closed''), DatabaseClient_close c) \<and>
   DatabaseClient_run_query E (DatabaseClient_close c) query =
     (Inl (DatabaseError ''the connection is closed''), DatabaseClient_close c) \<and>
   DatabaseClient_list_tables E (DatabaseClient_close c) schema =
     (Inl (DatabaseError ''the connection is closed''), DatabaseClient_close c) \<and>
   DatabaseClient_describe_table E (DatabaseClient_close c) table =
     (Inl (DatabaseError ''the connection is closed''), DatabaseClient_close c) \<and>
   export_table E (DatabaseClient_close c) fs table path =
     (Inl (DatabaseError ''the connection is closed''), DatabaseClient_close c, fs)"
proof (intro conjI impI)
  show "connection (close self) = None"
    by (simp add: close_def split: option.splits)
  have conn: "connect E (close self) =
      (Inr (new_connection h), self\<lparr>connection := Some (new_connection h)\<rparr>)"
    if "psycopg_connect E (to_connect_kwargs (config self)) = Inr h" for h
    using that by (simp add: connect_def close_def split: option.splits)
  show "cursor E (close self) =
      (Inr (new_connection h), self\<lparr>connection := Some (new_connection h)\<rparr>)"
    if "psycopg_connect E (to_connect_kwargs (config self)) = Inr h"
    using conn [OF that] by (simp add: cursor_ok new_connection_def)
  show "\<exists>res s'. run_query E (close self) query params fetch = (Inr res, s')"
    if "psycopg_connect E (to_connect_kwargs (config self)) = Inr h \<and>
        psycopg_execute E (new_connection h) (SQL query, params) = Inr r"
  proof -
    have cur: "cursor E (close self) =
        (Inr (new_connection h), self\<lparr>connection := Some (new_connection h)\<rparr>)"
      using conn [of h] that by (simp add: cursor_ok new_connection_def)
    have ex: "conn_execute E (new_connection h) (SQL query, params) =
        (Inr r, (new_connection h)\<lparr>pending := [(SQL query, params)]\<rparr>)"
      using that by (simp add: conn_execute_def new_connection_def)
    have c1: "\<not> closed ((new_connection h)\<lparr>pending := [(SQL query, params)]\<rparr>)"
      "\<not> failed ((new_connection h)\<lparr>pending := [(SQL query, params)]\<rparr>)"
      by (simp_all add: new_connection_def)
    show ?thesis
      by (simp add: run_query_def cur ex conn_commit_def c1 Let_def)
  qed
  show "DatabaseClient_execute E (DatabaseClient_close c) st ps =
     (Inl (DatabaseError ''the connection is closed''), DatabaseClient_close c)"
    by (rule closed_execute)
  show "DatabaseClient_run_query E (DatabaseClient_close c) query =
     (Inl (DatabaseError ''the connection is closed''), DatabaseClient_close c)"
    by (simp add: DatabaseClient_run_query_def closed_execute)
  show "DatabaseClient_list_tables E (DatabaseClient_close c) schema =
     (Inl (DatabaseError ''the connection is closed''), DatabaseClient_close c)"
    by (simp add: DatabaseClient_list_tables_def closed_execute Let_def)
  show "DatabaseClient_describe_table E (DatabaseClient_close c) table =
     (Inl (DatabaseError ''the connection is closed''), DatabaseClient_close c)"
    by (simp add: DatabaseClient_describe_table_def closed_execute Let_def)
  show "export_table E (DatabaseClient_close c) fs table path =
     (Inl (DatabaseError ''the connection is closed''), DatabaseClient_close c, fs)"
    by (simp add: export_table_def closed_execute Let_def)
qed

theorem operations_after_close_witness:
  "cursor example_env (close (snd (connect example_env example_session))) =
     (Inr (new_connection []), example_session\<lparr>connection := Some (new_connection [])\<rparr>) \<and>
   (\<exists>res s'. run_query example_env (close (snd (connect example_env example_session)))
       ''SELECT 1'' None True = (Inr res, s'))"
proof -
  let ?s = "snd (connect example_env example_session)"
  have s: "?s = example_session\<lparr>connection := Some (new_connection [])\<rparr>"
    by (simp add: example_connect)
  have pre: "psycopg_connect example_env (to_connect_kwargs (config ?s)) = Inr [] \<and>
      psycopg_execute example_env (new_connection []) (SQL ''SELECT 1'', None) = Inr (None, [])"
    by (simp add: example_env_def)
  from operations_after_close [of ?s example_env "[]" "''SELECT 1''" None "(None, [])" True] pre
  show ?thesis by (simp add: s)
qed
section \<open>Importing a CSV file\<close>

text \<open>What one \<^verbatim>\<open>execute\<close> and a batch of them can do to a connection.\<close>

lemma conn_execute_step:
  assumes "conn_execute E c st = (r, c')"
  shows "closed c' = closed c" "autocommit c' = autocommit c"
    "\<not> autocommit c \<Longrightarrow> durable c' = durable c"
    "\<not> autocommit c \<Longrightarrow> \<not> failed c \<Longrightarrow> failed c' \<Longrightarrow> pending c' = []"
    "\<not> autocommit c \<Longrightarrow> \<not> failed c' \<Longrightarrow> prefix (pending c) (pending c')"
    "\<not> isl r \<Longrightarrow> \<not> failed c'"
  using assms
  by (auto simp: conn_execute_def split: if_splits sum.splits refusal.splits)

lemma conn_executemany_step:
  assumes "conn_executemany E c q rows = (r, c')"
  shows "closed c' = closed c \<and> autocommit c' = autocommit c \<and>
    (\<not> autocommit c \<longrightarrow> durable c' = durable c) \<and>
    (\<not> autocommit c \<longrightarrow> \<not> failed c \<longrightarrow> failed c' \<longrightarrow> pending c' = []) \<and>
    (\<not> autocommit c \<longrightarrow> \<not> failed c' \<longrightarrow> prefix (pending c) (pending c')) \<and>
    (\<not> isl r \<longrightarrow> \<not> failed c \<longrightarrow> \<not> failed c')"
  using assms
proof (induction rows arbitrary: c)
  case Nil
  then show ?case by auto
next
  case (Cons row rows)
  obtain r1 c1 where ex: "conn_execute E c (q, Some row) = (r1, c1)"
    by (cases "conn_execute E c (q, Some row)")
  note s = conn_execute_step [OF ex]
  show ?case
  proof (cases r1)
    case (Inl e)
    with Cons.prems ex have "c' = c1" "isl r" by auto
    with s show ?thesis by auto
  next
    case (Inr u)
    with Cons.prems ex have m: "conn_executemany E c1 q rows = (r, c')" by simp
    from Inr s(6) have f1: "\<not> failed c1" by simp
    note ih = Cons.IH [OF m]
    have "\<not> autocommit c \<longrightarrow> \<not> failed c' \<longrightarrow> prefix (pending c) (pending c')"
    proof (intro impI)
      assume a: "\<not> autocommit c" "\<not> failed c'"
      with s(2) ih have "prefix (pending c1) (pending c')" by simp
      moreover from a f1 s(5) have "prefix (pending c) (pending c1)" by simp
      ultimately show "prefix (pending c) (pending c')" by (rule prefix_order.trans [rotated])
    qed
    with s ih f1 show ?thesis by simp
  qed
qed

lemma conn_execute_error:
  "conn_execute E c st = (Inl e, c') \<Longrightarrow> \<exists>m. e = DatabaseError m"
  by (auto simp: conn_execute_def split: if_splits sum.splits refusal.splits)

lemma conn_executemany_error:
  "conn_executemany E c q rows = (Inl e, c') \<Longrightarrow> \<exists>m. e = DatabaseError m"
proof (induction rows arbitrary: c)
  case Nil
  then show ?case by simp
next
  case (Cons row rows)
  then show ?case
    by (auto split: prod.splits sum.splits dest: conn_execute_error)
qed

lemma conn_commit_error:
  "conn_commit c = (Inl e, c') \<Longrightarrow> (\<exists>m. e = DatabaseError m) \<and> c' = c \<and> closed c"
  by (auto simp: conn_commit_def split: if_splits)

lemma conn_cursor_error:
  "conn_cursor c = Inl e \<Longrightarrow> (\<exists>m. e = DatabaseError m) \<and> closed c"
  by (auto simp: conn_cursor_def split: if_splits)

text \<open>A failure of \<^verbatim>\<open>import_csv\<close> before the file is read leaves the connection alone.\<close>

lemma import_csv_not_read:
  "read_file fs path = Inl e \<Longrightarrow> import_csv E c fs table path tr = (Inl e, c)"
  "read_file fs path = Inr content \<Longrightarrow> csv_reader E content = None \<Longrightarrow>
     import_csv E c fs table path tr = (Inl CsvError, c)"
  "read_file fs path = Inr content \<Longrightarrow> csv_reader E content = Some [] \<Longrightarrow>
     import_csv E c fs table path tr = (Inl StopIteration, c)"
  by (simp_all add: import_csv_def Let_def)

text \<open>
  A failure of \<^verbatim>\<open>import_csv\<close> after the header and the rows are read: it is an error
  of the driver; without autocommit nothing was committed; when the transaction was
  aborted nothing is pending; and when it was not, and the truncate was executed, the
  truncate is still pending.
\<close>

lemma import_csv_read_Inl:
  assumes rd: "read_file fs path = Inr content" "csv_reader E content = Some (headers # vals)"
    and imp: "import_csv E c fs table path tr = (Inl e, c')"
  shows "(\<exists>m. e = DatabaseError m) \<and>
     (\<not> autocommit c \<longrightarrow> durable c' = durable c) \<and>
     (\<not> autocommit c \<longrightarrow> \<not> failed c \<longrightarrow> failed c' \<longrightarrow> pending c' = []) \<and>
     (tr \<longrightarrow> \<not> autocommit c \<longrightarrow> \<not> closed c \<longrightarrow> \<not> failed c \<longrightarrow> \<not> failed c' \<longrightarrow>
      psycopg_execute E c
        (truncate_stmt (fst (parse_table_name table)) (snd (parse_table_name table)), None) = Inr r \<longrightarrow>
        prefix
          (pending c @
             [(truncate_stmt (fst (parse_table_name table)) (snd (parse_table_name table)), None)])
          (pending c'))"
proof -
  let ?schema = "fst (parse_table_name table)" and ?name = "snd (parse_table_name table)"
  let ?t = "(truncate_stmt ?schema ?name, None)"
  define t where "t =
    (if tr then (case conn_cursor c of
                   Inl e \<Rightarrow> (Inl e, c)
                 | Inr _ \<Rightarrow>
                     (case conn_execute E c ?t of
                        (Inl e, c1) \<Rightarrow> (Inl e, c1)
                      | (Inr _, c1) \<Rightarrow> (Inr (), c1)))
     else (Inr (), c))"
  obtain r1 c1 where t: "t = (r1, c1)" by (cases t)
  have unfold: "import_csv E c fs table path tr =
    (case t of
       (Inl e, c1) \<Rightarrow> (Inl e, c1)
     | (Inr _, c1) \<Rightarrow>
         (case conn_cursor c1 of
            Inl e \<Rightarrow> (Inl e, c1)
          | Inr _ \<Rightarrow>
              (case conn_executemany E c1 (insert_stmt ?schema ?name headers)
                      (map (map PStr) vals) of
                 (Inl e, c2) \<Rightarrow> (Inl e, c2)
               | (Inr _, c2) \<Rightarrow>
                   (case conn_commit c2 of
                      (Inl e, c3) \<Rightarrow> (Inl e, c3)
                    | (Inr _, c3) \<Rightarrow> (Inr (length vals), c3)))))"
    unfolding t_def by (simp add: import_csv_def Let_def rd)
  have c1: "closed c1 = closed c" "autocommit c1 = autocommit c"
    "\<not> autocommit c \<Longrightarrow> durable c1 = durable c"
    "\<not> autocommit c \<Longrightarrow> \<not> failed c \<Longrightarrow> failed c1 \<Longrightarrow> pending c1 = []"
    using t unfolding t_def
    by (auto split: if_splits sum.splits prod.splits dest: conn_execute_step)
  have r1_err: "r1 = Inl e1 \<Longrightarrow> \<exists>m. e1 = DatabaseError m" for e1
    using t unfolding t_def
    by (auto split: if_splits sum.splits prod.splits
        dest: conn_execute_error conn_cursor_error)
  have r1_ok: "\<not> isl r1 \<Longrightarrow> \<not> failed c \<Longrightarrow> \<not> failed c1"
    using t unfolding t_def
    by (auto split: if_splits sum.splits prod.splits dest: conn_execute_step(6))
  have trunc: "r1 = Inr () \<and> c1 = c\<lparr>pending := pending c @ [?t]\<rparr>"
    if "tr" "\<not> autocommit c" "\<not> closed c" "\<not> failed c" "psycopg_execute E c ?t = Inr r"
    using t that unfolding t_def by (simp add: conn_cursor_def conn_execute_def)
  show ?thesis
  proof (cases r1)
    case (Inl e1)
    with imp unfold t have "e = e1" "c' = c1" by simp_all
    with Inl r1_err c1 trunc show ?thesis by auto
  next
    case u: (Inr u)
    show ?thesis
    proof (cases "conn_cursor c1")
      case (Inl e2)
      with imp unfold t u have "e = e2" "c' = c1" by simp_all
      with conn_cursor_error [OF Inl] c1 u r1_ok trunc show ?thesis by auto
    next
      case cur: (Inr u2)
      obtain r2 c2 where m: "conn_executemany E c1 (insert_stmt ?schema ?name headers)
          (map (map PStr) vals) = (r2, c2)"
        by (cases "conn_executemany E c1 (insert_stmt ?schema ?name headers)
          (map (map PStr) vals)")
      note s = conn_executemany_step [OF m]
      from u r1_ok have f1: "\<not> failed c \<Longrightarrow> \<not> failed c1" by simp
      show ?thesis
      proof (cases r2)
        case (Inl e3)
        with imp unfold t u cur m have ec: "e = e3" "c' = c2" by simp_all
        from Inl m conn_executemany_error have err: "\<exists>m. e3 = DatabaseError m" by blast
        have "prefix (pending c @ [?t]) (pending c')"
          if "tr" "\<not> autocommit c" "\<not> closed c" "\<not> failed c" "\<not> failed c'"
            "psycopg_execute E c ?t = Inr r"
        proof -
          from trunc [OF that(1-4,6)] have "pending c1 = pending c @ [?t]" by simp
          with s c1(2) that ec show ?thesis by simp
        qed
        with ec err s c1 f1 show ?thesis by auto
      next
        case (Inr u3)
        with imp unfold t u cur m obtain e4 where k: "conn_commit c2 = (Inl e4, c')" "e = e4"
          by (auto split: prod.splits sum.splits)
        from conn_commit_error [OF k(1)] have k2: "\<exists>m. e4 = DatabaseError m" "c' = c2" "closed c2"
          by simp_all
        from Inr s f1 have f2: "\<not> failed c \<Longrightarrow> \<not> failed c2" by simp
        from k2 s c1 have cl: "closed c" by simp
        from k k2 s c1 f2 cl show ?thesis by auto
      qed
    qed
  qed
qed

text \<open>Whatever the failure of \<^verbatim>\<open>import_csv\<close>, without autocommit nothing was committed.\<close>

lemma import_csv_Inl_durable:
  assumes "import_csv E c fs table path tr = (Inl e, c')" "\<not> autocommit c"
  shows "durable c' = durable c"
proof (cases "read_file fs path")
  case (Inl e1)
  from import_csv_not_read(1) [OF Inl] assms show ?thesis by simp
next
  case (Inr content)
  show ?thesis
  proof (cases "csv_reader E content")
    case None
    from import_csv_not_read(2) [OF Inr None] assms show ?thesis by simp
  next
    case (Some rows)
    show ?thesis
    proof (cases rows)
      case Nil
      with Some import_csv_not_read(3) [OF Inr] assms show ?thesis by simp
    next
      case (Cons headers vals)
      with Some have "csv_reader E content = Some (headers # vals)" by simp
      from import_csv_read_Inl [OF Inr this assms(1)] assms(2) show ?thesis by simp
    qed
  qed
qed

text \<open>The example files, read.\<close>

lemma read_examples:
  "read_file empty_csv_fs [''empty.csv''] = Inr []"
  "read_file csv_fs [''data.csv''] = Inr (''a,b,c'' @ [CHR 0x0A] @ ''1,2'')"
  "read_file people_fs [''people.csv''] = Inr (''id,name'' @ [CHR 0x0A] @ ''x,ann'')"
  "read_file empty_fs [''missing.csv''] = Inl (FileNotFoundError [''missing.csv''])"
  by (simp_all add: read_file_def parent_def is_file_def is_dir_def empty_csv_fs_def csv_fs_def
      people_fs_def empty_fs_def)

lemma ragged_import:
  "import_csv ragged_env (new_connection []) csv_fs ''t'' [''data.csv''] False
     = (Inl (DatabaseError ''the query has 3 placeholders but 2 parameters were passed''),
        new_connection [])"
  "import_csv ragged_env (new_connection []) csv_fs ''t'' [''data.csv''] True
     = (Inl (DatabaseError ''the query has 3 placeholders but 2 parameters were passed''),
        (new_connection [])\<lparr>pending := [(truncate_stmt ''public'' ''t'', None)]\<rparr>)"
  by (simp_all add: import_csv_def read_examples ragged_env_def example_env_def
      conn_cursor_def conn_execute_def new_connection_def parse_table_name_def Let_def)

lemma mistyped_import:
  "import_csv mistyped_env (new_connection []) people_fs ''t'' [''people.csv''] tr
     = (Inl (DatabaseError ''invalid input syntax for type integer''),
        \<lparr>closed = False, autocommit = False, failed = True, pending = [], durable = []\<rparr>)"
  by (simp add: import_csv_def read_examples mistyped_env_def example_env_def
      conn_cursor_def conn_execute_def new_connection_def Let_def)




section \<open>Truncate and insert\<close>

lemma conn_execute_grows:
  "conn_execute E c st = (r, c') \<Longrightarrow> prefix (durable c) (durable c')"
  by (auto simp: conn_execute_def split: if_splits sum.splits refusal.splits)

lemma conn_executemany_grows:
  "conn_executemany E c q rows = (r, c') \<Longrightarrow> prefix (durable c) (durable c')"
proof (induction rows arbitrary: c)
  case Nil
  then show ?case by simp
next
  case (Cons row rows)
  obtain r1 c1 where ex: "conn_execute E c (q, Some row) = (r1, c1)"
    by (cases "conn_execute E c (q, Some row)")
  note g = conn_execute_grows [OF ex]
  show ?case
  proof (cases r1)
    case (Inl e)
    with Cons.prems ex g show ?thesis by simp
  next
    case (Inr u)
    with Cons.prems ex have "conn_executemany E c1 q rows = (r, c')" by simp
    from Cons.IH [OF this] g show ?thesis by (rule prefix_order.trans [rotated])
  qed
qed

lemma conn_commit_grows:
  "conn_commit c = (r, c') \<Longrightarrow> prefix (durable c) (durable c')"
  by (auto simp: conn_commit_def split: if_splits)

lemma conn_commit_failed:
  "failed c \<Longrightarrow> durable (snd (conn_commit c)) = durable c"
  by (simp add: conn_commit_def)

lemma import_csv_autocommit_truncate:
  assumes "autocommit c" "\<not> closed c" "\<not> failed c"
    "read_file fs path = Inr content" "csv_reader E content = Some (headers # vals)"
    "psycopg_execute E c
       (truncate_stmt (fst (parse_table_name table)) (snd (parse_table_name table)), None) = Inr r"
  shows "prefix
     (durable c @
        [(truncate_stmt (fst (parse_table_name table)) (snd (parse_table_name table)), None)])
     (durable (snd (import_csv E c fs table path True)))"
proof -
  let ?t = "(truncate_stmt (fst (parse_table_name table)) (snd (parse_table_name table)), None)"
  let ?c1 = "c\<lparr>durable := durable c @ [?t]\<rparr>"
  let ?ins = "insert_stmt (fst (parse_table_name table)) (snd (parse_table_name table)) headers"
  have ex: "conn_execute E c ?t = (Inr r, ?c1)"
    using assms by (simp add: conn_execute_def)
  have cur: "conn_cursor c = Inr ()" "conn_cursor ?c1 = Inr ()"
    using assms by (simp_all add: conn_cursor_def)
  obtain r2 c2 where m: "conn_executemany E ?c1 ?ins (map (map PStr) vals) = (r2, c2)"
    by (cases "conn_executemany E ?c1 ?ins (map (map PStr) vals)")
  from conn_executemany_grows [OF m] have g2: "prefix (durable c @ [?t]) (durable c2)"
    by simp
  obtain r3 c3 where k: "conn_commit c2 = (r3, c3)" by (cases "conn_commit c2")
  from conn_commit_grows [OF k] g2 have g3: "prefix (durable c @ [?t]) (durable c3)"
    by (rule prefix_order.trans [rotated])
  have "snd (import_csv E c fs table path True) = c2 \<or>
        snd (import_csv E c fs table path True) = c3"
    using assms(4,5) ex cur m k
    by (simp add: import_csv_def Let_def split: sum.splits)
  with g2 g3 show ?thesis by auto
qed

text \<open>
  When a failed import leaves an aborted transaction, nothing is pending, and a commit
  issued afterwards commits nothing.
\<close>

lemma import_csv_aborted:
  assumes "\<not> autocommit c" "\<not> failed c" "import_csv E c fs table path tr = (Inl e, c')"
    "failed c'"
  shows "pending c' = [] \<and> durable (snd (conn_commit c')) = durable c"
proof -
  from import_csv_Inl_durable [OF assms(3,1)] have d: "durable c' = durable c" .
  have "pending c' = []"
  proof (cases "read_file fs path")
    case (Inl e1)
    from import_csv_not_read(1) [OF Inl] assms show ?thesis by simp
  next
    case (Inr content)
    show ?thesis
    proof (cases "csv_reader E content")
      case None
      from import_csv_not_read(2) [OF Inr None] assms show ?thesis by simp
    next
      case (Some rows)
      show ?thesis
      proof (cases rows)
        case Nil
        with Some import_csv_not_read(3) [OF Inr] assms show ?thesis by simp
      next
        case (Cons headers vals)
        with Some have "csv_reader E content = Some (headers # vals)" by simp
        from import_csv_read_Inl [OF Inr this assms(3)] assms(1,2,4) show ?thesis by simp
      qed
    qed
  qed
  with d conn_commit_failed [OF assms(4)] show ?thesis by simp
qed

text \<open>
  C6, as stated, fails: on a connection without autocommit (the default) the truncate and
  the insert run in one transaction. With truncate requested and a row the server
  rejects, the call leaves an aborted transaction in which nothing is pending, and a
  commit issued afterwards commits nothing: the truncate was rolled back with the
  insert, and the table does not stay truncated.
\<close>

theorem import_csv_truncate_counterexample:
  "import_csv mistyped_env (new_connection []) people_fs ''t'' [''people.csv''] True
     = (Inl (DatabaseError ''invalid input syntax for type integer''),
        \<lparr>closed = False, autocommit = False, failed = True, pending = [], durable = []\<rparr>) \<and>
   durable (snd (conn_commit
      \<lparr>closed = False, autocommit = False, failed = True, pending = [], durable = []\<rparr>)) = []"
  by (simp add: import_csv_def read_examples mistyped_env_def example_env_def
      conn_cursor_def conn_execute_def conn_commit_def new_connection_def Let_def)

text \<open>
  C6, amended: with truncate requested, the \<^verbatim>\<open>TRUNCATE\<close> is a separate statement
  executed before the insert, but it has no transaction of its own: \<^verbatim>\<open>import_csv\<close>
  commits once, after the insert. On a connection without autocommit, when the import
  fails, neither the truncate nor any row is committed by the call. If the server
  rejected a statement, the transaction is aborted and the truncate is rolled back with
  it: nothing is pending, and a commit issued afterwards commits nothing. If the
  driver refused a row before sending it, the transaction stays open with the truncate
  pending in it, uncommitted. On a connection with autocommit, once the server has
  executed the truncate it is committed, whatever happens to the insert afterwards.
\<close>

theorem import_csv_truncate_transaction:
  "(\<not> autocommit c \<and> import_csv E c fs table path True = (Inl e, c') \<longrightarrow>
      durable c' = durable c) \<and>
   (\<not> autocommit c \<and> \<not> failed c \<and> import_csv E c fs table path True = (Inl e, c') \<and>
    failed c' \<longrightarrow>
      pending c' = [] \<and> durable (snd (conn_commit c')) = durable c) \<and>
   (\<not> autocommit c \<and> \<not> closed c \<and> \<not> failed c \<and>
    read_file fs path = Inr content \<and> csv_reader E content = Some (headers # vals) \<and>
    psycopg_execute E c
      (truncate_stmt (fst (parse_table_name table)) (snd (parse_table_name table)), None) = Inr r \<and>
    import_csv E c fs table path True = (Inl e, c') \<and> \<not> failed c' \<longrightarrow>
      prefix
        (pending c @
           [(truncate_stmt (fst (parse_table_name table)) (snd (parse_table_name table)), None)])
        (pending c')) \<and>
   (autocommit c \<and> \<not> closed c \<and> \<not> failed c \<and>
    read_file fs path = Inr content \<and> csv_reader E content = Some (headers # vals) \<and>
    psycopg_execute E c
      (truncate_stmt (fst (parse_table_name table)) (snd (parse_table_name table)), None) = Inr r \<longrightarrow>
      prefix
        (durable c @
           [(truncate_stmt (fst (parse_table_name table)) (snd (parse_table_name table)), None)])
        (durable (snd (import_csv E c fs table path True))))"
proof (intro conjI; rule impI)
  assume "\<not> autocommit c \<and> import_csv E c fs table path True = (Inl e, c')"
  then show "durable c' = durable c"
    using import_csv_Inl_durable [of E c fs table path True e c'] by blast
next
  assume "\<not> autocommit c \<and> \<not> failed c \<and> import_csv E c fs table path True = (Inl e, c') \<and>
    failed c'"
  then show "pending c' = [] \<and> durable (snd (conn_commit c')) = durable c"
    using import_csv_aborted [of c E fs table path True e c'] by blast
next
  assume a: "\<not> autocommit c \<and> \<not> closed c \<and> \<not> failed c \<and>
    read_file fs path = Inr content \<and> csv_reader E content = Some (headers # vals) \<and>
    psycopg_execute E c
      (truncate_stmt (fst (parse_table_name table)) (snd (parse_table_name table)), None) = Inr r \<and>
    import_csv E c fs table path True = (Inl e, c') \<and> \<not> failed c'"
  then have "read_file fs path = Inr content" "csv_reader E content = Some (headers # vals)"
    "import_csv E c fs table path True = (Inl e, c')"
    by simp_all
  from import_csv_read_Inl [OF this, of r] a
  show "prefix
        (pending c @
           [(truncate_stmt (fst (parse_table_name table)) (snd (parse_table_name table)), None)])
        (pending c')"
    by simp
next
  assume "autocommit c \<and> \<not> closed c \<and> \<not> failed c \<and>
    read_file fs path = Inr content \<and> csv_reader E content = Some (headers # vals) \<and>
    psycopg_execute E c
      (truncate_stmt (fst (parse_table_name table)) (snd (parse_table_name table)), None) = Inr r"
  then show "prefix
        (durable c @
           [(truncate_stmt (fst (parse_table_name table)) (snd (parse_table_name table)), None)])
        (durable (snd (import_csv E c fs table path True)))"
    using import_csv_autocommit_truncate [of c fs path content E headers vals table r] by blast
qed

theorem import_csv_truncate_transaction_witness:
  "durable (snd (import_csv mistyped_env (new_connection []) people_fs ''t'' [''people.csv''] True))
     = [] \<and>
   pending (snd (import_csv mistyped_env (new_connection []) people_fs ''t'' [''people.csv''] True))
     = [] \<and>
   durable (snd (conn_commit
     (snd (import_csv mistyped_env (new_connection []) people_fs ''t'' [''people.csv''] True))))
     = [] \<and>
   prefix [(truncate_stmt ''public'' ''t'', None)]
     (pending (snd (import_csv ragged_env (new_connection []) csv_fs ''t'' [''data.csv''] True))) \<and>
   prefix [(truncate_stmt ''public'' ''t'', None)]
     (durable (snd (import_csv mistyped_env ((new_connection [])\<lparr>autocommit := True\<rparr>) people_fs
        ''t'' [''people.csv''] True)))"
proof -
  let ?aborted = "\<lparr>closed = False, autocommit = False, failed = True, pending = [], durable = []\<rparr>"
  let ?open = "(new_connection [])\<lparr>pending := [(truncate_stmt ''public'' ''t'', None)]\<rparr>"
  let ?auto = "(new_connection [])\<lparr>autocommit := True\<rparr>"
  have n: "\<not> autocommit (new_connection [])" "\<not> closed (new_connection [])"
    "\<not> failed (new_connection [])" "durable (new_connection []) = []"
    "pending (new_connection []) = []"
    by (simp_all add: new_connection_def)
  have p: "parse_table_name ''t'' = (''public'', ''t'')"
    by (simp add: parse_table_name_def)
  have m: "import_csv mistyped_env (new_connection []) people_fs ''t'' [''people.csv''] True
      = (Inl (DatabaseError ''invalid input syntax for type integer''), ?aborted)"
    by (rule mistyped_import)
  from import_csv_truncate_transaction
    [where c = "new_connection []" and E = mistyped_env and fs = people_fs and table = "''t''"
       and path = "[''people.csv'']"
       and e = "DatabaseError ''invalid input syntax for type integer''" and c' = ?aborted]
    m n
  have 1: "durable ?aborted = [] \<and> pending ?aborted = [] \<and>
      durable (snd (conn_commit ?aborted)) = []"
    by simp
  have g: "import_csv ragged_env (new_connection []) csv_fs ''t'' [''data.csv''] True
      = (Inl (DatabaseError ''the query has 3 placeholders but 2 parameters were passed''), ?open)"
    by (rule ragged_import(2))
  have rd: "read_file csv_fs [''data.csv''] = Inr (''a,b,c'' @ [CHR 0x0A] @ ''1,2'') \<and>
      csv_reader ragged_env (''a,b,c'' @ [CHR 0x0A] @ ''1,2'')
        = Some ([''a'', ''b'', ''c''] # [[''1'', ''2'']]) \<and>
      psycopg_execute ragged_env (new_connection [])
        (truncate_stmt (fst (parse_table_name ''t'')) (snd (parse_table_name ''t'')), None)
        = Inr (None, []) \<and>
      \<not> failed ?open"
    by (simp add: read_examples ragged_env_def example_env_def new_connection_def)
  from import_csv_truncate_transaction
    [where c = "new_connection []" and E = ragged_env and fs = csv_fs and table = "''t''"
       and path = "[''data.csv'']" and content = "''a,b,c'' @ [CHR 0x0A] @ ''1,2''"
       and headers = "[''a'', ''b'', ''c'']" and vals = "[[''1'', ''2'']]" and r = "(None, [])"
       and e = "DatabaseError ''the query has 3 placeholders but 2 parameters were passed''"
       and c' = ?open]
    g rd n
  have 2: "prefix [(truncate_stmt ''public'' ''t'', None)] (pending ?open)"
    by (simp add: p)
  have b: "autocommit ?auto \<and> \<not> closed ?auto \<and> \<not> failed ?auto \<and>
      read_file people_fs [''people.csv''] = Inr (''id,name'' @ [CHR 0x0A] @ ''x,ann'') \<and>
      csv_reader mistyped_env (''id,name'' @ [CHR 0x0A] @ ''x,ann'')
        = Some ([''id'', ''name''] # [[''x'', ''ann'']]) \<and>
      psycopg_execute mistyped_env ?auto
        (truncate_stmt (fst (parse_table_name ''t'')) (snd (parse_table_name ''t'')), None)
        = Inr (None, [])"
    by (simp add: new_connection_def read_examples mistyped_env_def example_env_def)
  have d: "durable ?auto = []" by (simp add: new_connection_def)
  from import_csv_truncate_transaction
    [where c = ?auto and E = mistyped_env and fs = people_fs and table = "''t''"
       and path = "[''people.csv'']" and content = "''id,name'' @ [CHR 0x0A] @ ''x,ann''"
       and headers = "[''id'', ''name'']" and vals = "[[''x'', ''ann'']]" and r = "(None, [])"] b
  have 3: "prefix [(truncate_stmt ''public'' ''t'', None)]
     (durable (snd (import_csv mistyped_env ?auto people_fs ''t'' [''people.csv''] True)))"
    by (simp add: p d)
  from 1 2 3 show ?thesis by (simp add: m g)
qed

section \<open>Exporting to CSV\<close>

lemma not_in_prefixes_butlast:
  "p \<noteq> [] \<Longrightarrow> p \<notin> set (prefixes (butlast p))"
proof
  assume "p \<noteq> []" "p \<in> set (prefixes (butlast p))"
  then have "prefix p (butlast p)" by simp
  then have "length p \<le> length (butlast p)" by (rule prefix_length_le)
  with \<open>p \<noteq> []\<close> show False by (cases p rule: rev_cases) simp_all
qed

lemma mkdir_parents_ok:
  assumes "\<forall>q \<in> set (prefixes p). \<not> is_file fs q"
  shows "mkdir_parents fs p = Inr (fs\<lparr>dirs := dirs fs \<union> set (prefixes p)\<rparr>)"
proof -
  from assms have "\<forall>q \<in> set (butlast (prefixes p)). \<not> is_file fs q"
    by (auto dest: in_set_butlastD)
  then have "filter (is_file fs) (butlast (prefixes p)) = []"
    by (simp add: filter_empty_conv)
  moreover from assms have "\<not> is_file fs p" by simp
  ultimately show ?thesis by (simp add: mkdir_parents_def)
qed

lemma lookup_ok:
  "\<forall>q \<in> set qs. \<not> is_file fs q \<and> is_dir fs q \<Longrightarrow> lookup fs qs p = None"
  by (induction qs) simp_all

lemma lookup_missing:
  "\<forall>q \<in> set qs. \<not> is_file fs q \<Longrightarrow> \<exists>q \<in> set qs. \<not> is_dir fs q \<Longrightarrow>
   lookup fs qs p = Some (FileNotFoundError p)"
  by (induction qs) auto

lemma export_to_csv_writes:
  assumes "run_query E self query params True = (Inr (columns, rows), s)" "columns \<noteq> []"
    "\<forall>q \<in> set (prefixes (parent destination)). \<not> is_file fs q" "\<not> is_dir fs destination"
  shows "\<exists>fs'. export_to_csv E query destination params (self, fs) = (Inr destination, s, fs') \<and>
     files fs' destination = Some (Text (csv_writer E (map PStr columns # rows))) \<and>
     (\<forall>q \<in> set (prefixes (parent destination)). is_dir fs' q)"
proof -
  let ?fs1 = "fs\<lparr>dirs := dirs fs \<union> set (prefixes (parent destination))\<rparr>"
  have mk: "mkdir_parents fs (parent destination) = Inr ?fs1"
    using assms(3) by (rule mkdir_parents_ok)
  from assms(4) have ne: "destination \<noteq> []" and nd: "destination \<notin> dirs fs"
    by (simp_all add: is_dir_def)
  have d1: "\<not> is_dir ?fs1 destination"
    using ne nd not_in_prefixes_butlast [OF ne] by (simp add: is_dir_def parent_def)
  have "\<forall>q \<in> set (prefixes (parent destination)). \<not> is_file ?fs1 q \<and> is_dir ?fs1 q"
    using assms(3) by (simp add: is_file_def is_dir_def)
  then have d2: "lookup ?fs1 (prefixes (parent destination)) destination = None"
    by (rule lookup_ok)
  have wr: "write_file ?fs1 destination (csv_writer E (map PStr columns # rows)) =
      Inr (?fs1\<lparr>files := (files ?fs1)(destination \<mapsto> Text (csv_writer E (map PStr columns # rows)))\<rparr>)"
    using d1 d2 by (simp add: write_file_def)
  have "export_to_csv E query destination params (self, fs) =
      (Inr destination, s,
       ?fs1\<lparr>files := (files ?fs1)(destination \<mapsto> Text (csv_writer E (map PStr columns # rows)))\<rparr>)"
    using assms(1,2) mk wr by (simp add: export_to_csv_def)
  then show ?thesis by (auto simp: is_dir_def)
qed

lemma export_table_missing_parent:
  assumes "DatabaseClient_execute E c
      (Composed [SQL ''SELECT * FROM '', Identifier (fst (parse_table_name table)), SQL ''.'',
                 Identifier (snd (parse_table_name table))]) [] = (Inr (Some headers, rows), c1)"
    "headers \<noteq> []" "\<forall>q \<in> set (prefixes (parent path)). \<not> is_file fs q"
    "\<not> is_dir fs (parent path)"
  shows "export_table E c fs table path = (Inl (FileNotFoundError path), c1, fs)"
proof -
  from assms(4) have "\<exists>q \<in> set (prefixes (parent path)). \<not> is_dir fs q" by auto
  with assms(3) have "lookup fs (prefixes (parent path)) path = Some (FileNotFoundError path)"
    by (rule lookup_missing)
  with assms(1,2) show ?thesis
    by (simp add: export_table_def Let_def fetchall_dict_def write_file_def)
qed

text \<open>
  C7, as stated, fails for \<^verbatim>\<open>DatabaseClient.export_table\<close>: a result set without columns
  is no error (the call returns and writes nothing), and the parent directory of the
  destination is not created (the export of a table with columns into a missing
  directory fails with \<^verbatim>\<open>FileNotFoundError\<close>).
\<close>

theorem export_table_counterexample:
  "export_table no_columns_env (new_connection []) empty_fs ''t'' [''out.csv'']
     = (Inr (),
        (new_connection [])
          \<lparr>pending := [(Composed [SQL ''SELECT * FROM '', Identifier ''public'', SQL ''.'',
                                   Identifier ''t''], None)]\<rparr>,
        empty_fs) \<and>
   export_table select_env (new_connection []) empty_fs ''t'' [''reports'', ''out.csv'']
     = (Inl (FileNotFoundError [''reports'', ''out.csv'']),
        (new_connection [])
          \<lparr>pending := [(Composed [SQL ''SELECT * FROM '', Identifier ''public'', SQL ''.'',
                                   Identifier ''t''], None)]\<rparr>,
        empty_fs)"
  by (simp add: export_table_def DatabaseClient_execute_def conn_cursor_def conn_execute_def
      fetchall_dict_def no_columns_env_def select_env_def example_env_def new_connection_def
      parse_table_name_def write_file_def is_dir_def is_file_def parent_def empty_fs_def Let_def)

text \<open>
  C7, amended: \<^verbatim>\<open>DatabaseConnection.export_to_csv\<close> fails with the \<^verbatim>\<open>ValueError\<close>
  "Query did not return any data to export" when the statement gives no columns;
  otherwise (no regular file in the way of the parent directories, the destination not a
  directory) it creates the missing parent directories and writes, through
  \<^verbatim>\<open>csv.writer\<close>, the header row of the column names followed by the result rows, one
  CSV row each, in result order. \<^verbatim>\<open>DatabaseClient.export_table\<close> returns without an
  error and without writing when the result set has no columns, and does not create
  parent directories: with columns and a missing parent directory (no regular file in
  the way of it) it fails with \<^verbatim>\<open>FileNotFoundError\<close>.
\<close>

theorem export_header_and_rows:
  "(run_query E self query params True = (Inr ([], rows), s) \<longrightarrow>
      export_to_csv E query destination params (self, fs)
        = (Inl (ValueError NoDataToExport), s, fs)) \<and>
   (run_query E self query params True = (Inr (columns, rows), s) \<and> columns \<noteq> [] \<and>
    (\<forall>q \<in> set (prefixes (parent destination)). \<not> is_file fs q) \<and> \<not> is_dir fs destination \<longrightarrow>
      (\<exists>fs'. export_to_csv E query destination params (self, fs) = (Inr destination, s, fs') \<and>
         files fs' destination = Some (Text (csv_writer E (map PStr columns # rows))) \<and>
         (\<forall>q \<in> set (prefixes (parent destination)). is_dir fs' q))) \<and>
   (DatabaseClient_execute E c
      (Composed [SQL ''SELECT * FROM '', Identifier (fst (parse_table_name table)), SQL ''.'',
                 Identifier (snd (parse_table_name table))]) [] = (Inr (Some [], rows), c1) \<longrightarrow>
      export_table E c fs table path = (Inr (), c1, fs)) \<and>
   (DatabaseClient_execute E c
      (Composed [SQL ''SELECT * FROM '', Identifier (fst (parse_table_name table)), SQL ''.'',
                 Identifier (snd (parse_table_name table))]) [] = (Inr (Some headers, rows), c1) \<and>
    headers \<noteq> [] \<and> (\<forall>q \<in> set (prefixes (parent path)). \<not> is_file fs q) \<and>
    \<not> is_dir fs (parent path) \<longrightarrow>
      export_table E c fs table path = (Inl (FileNotFoundError path), c1, fs))"
proof (intro conjI; rule impI)
  assume "run_query E self query params True = (Inr ([], rows), s)"
  then show "export_to_csv E query destination params (self, fs)
        = (Inl (ValueError NoDataToExport), s, fs)"
    by (simp add: export_to_csv_def)
next
  assume "run_query E self query params True = (Inr (columns, rows), s) \<and> columns \<noteq> [] \<and>
    (\<forall>q \<in> set (prefixes (parent destination)). \<not> is_file fs q) \<and> \<not> is_dir fs destination"
  then show "\<exists>fs'. export_to_csv E query destination params (self, fs) = (Inr destination, s, fs') \<and>
         files fs' destination = Some (Text (csv_writer E (map PStr columns # rows))) \<and>
         (\<forall>q \<in> set (prefixes (parent destination)). is_dir fs' q)"
    using export_to_csv_writes [of E self query params columns rows s destination fs] by blast
next
  assume "DatabaseClient_execute E c
      (Composed [SQL ''SELECT * FROM '', Identifier (fst (parse_table_name table)), SQL ''.'',
                 Identifier (snd (parse_table_name table))]) [] = (Inr (Some [], rows), c1)"
  then show "export_table E c fs table path = (Inr (), c1, fs)"
    by (simp add: export_table_def Let_def fetchall_dict_def)
next
  assume "DatabaseClient_execute E c
      (Composed [SQL ''SELECT * FROM '', Identifier (fst (parse_table_name table)), SQL ''.'',
                 Identifier (snd (parse_table_name table))]) [] = (Inr (Some headers, rows), c1) \<and>
    headers \<noteq> [] \<and> (\<forall>q \<in> set (prefixes (parent path)). \<not> is_file fs q) \<and>
    \<not> is_dir fs (parent path)"
  then show "export_table E c fs table path = (Inl (FileNotFoundError path), c1, fs)"
    using export_table_missing_parent [of E c table headers rows c1 path fs] by blast
qed

lemma select_run_query:
  "run_query select_env example_session ''SELECT id, name FROM person'' None True =
     (Inr ([''id'', ''name''], [[PInt 1, PStr ''ann''], [PInt 2, PStr ''bob'']]),
      example_session\<lparr>connection :=
        Some ((new_connection [])\<lparr>pending := [(SQL ''SELECT id, name FROM person'', None)]\<rparr>)\<rparr>)"
  by (simp add: run_query_def cursor_def connect_def conn_cursor_def conn_execute_def
      select_env_def example_env_def example_session_def DatabaseConnection_init_def
      new_connection_def)

lemma no_columns_run_query:
  "run_query no_columns_env example_session ''SELECT'' None True =
     (Inr ([], []),
      example_session\<lparr>connection :=
        Some ((new_connection [])\<lparr>pending := [(SQL ''SELECT'', None)]\<rparr>)\<rparr>)"
  by (simp add: run_query_def cursor_def connect_def conn_cursor_def conn_execute_def
      no_columns_env_def example_env_def example_session_def DatabaseConnection_init_def
      new_connection_def)

lemma select_all_examples:
  "DatabaseClient_execute no_columns_env (new_connection [])
      (Composed [SQL ''SELECT * FROM '', Identifier (fst (parse_table_name ''t'')), SQL ''.'',
                 Identifier (snd (parse_table_name ''t''))]) []
     = (Inr (Some [], []),
        (new_connection [])
          \<lparr>pending := [(Composed [SQL ''SELECT * FROM '', Identifier ''public'', SQL ''.'',
                                   Identifier ''t''], None)]\<rparr>)"
  "DatabaseClient_execute select_env (new_connection [])
      (Composed [SQL ''SELECT * FROM '', Identifier (fst (parse_table_name ''t'')), SQL ''.'',
                 Identifier (snd (parse_table_name ''t''))]) []
     = (Inr (Some [''id'', ''name''], [[PInt 1, PStr ''ann''], [PInt 2, PStr ''bob'']]),
        (new_connection [])
          \<lparr>pending := [(Composed [SQL ''SELECT * FROM '', Identifier ''public'', SQL ''.'',
                                   Identifier ''t''], None)]\<rparr>)"
  by (simp_all add: DatabaseClient_execute_def conn_cursor_def conn_execute_def
      no_columns_env_def select_env_def example_env_def new_connection_def parse_table_name_def)

theorem export_header_and_rows_witness:
  "export_to_csv no_columns_env ''SELECT'' [''out.csv''] None (example_session, empty_fs)
     = (Inl (ValueError NoDataToExport),
        example_session\<lparr>connection :=
          Some ((new_connection [])\<lparr>pending := [(SQL ''SELECT'', None)]\<rparr>)\<rparr>,
        empty_fs) \<and>
   (\<exists>fs'. export_to_csv select_env ''SELECT id, name FROM person'' [''reports'', ''2024'', ''out.csv'']
            None (example_session, empty_fs)
          = (Inr [''reports'', ''2024'', ''out.csv''],
             example_session\<lparr>connection :=
               Some ((new_connection [])\<lparr>pending := [(SQL ''SELECT id, name FROM person'', None)]\<rparr>)\<rparr>,
             fs') \<and>
     files fs' [''reports'', ''2024'', ''out.csv''] = Some (Text ''row;row;row;'') \<and>
     is_dir fs' [''reports''] \<and> is_dir fs' [''reports'', ''2024'']) \<and>
   fst (export_table no_columns_env (new_connection []) empty_fs ''t'' [''out.csv'']) = Inr () \<and>
   fst (export_table select_env (new_connection []) empty_fs ''t'' [''reports'', ''out.csv''])
     = Inl (FileNotFoundError [''reports'', ''out.csv''])"
proof -
  from export_header_and_rows
    [where E = no_columns_env and self = example_session and query = "''SELECT''"
       and params = None and rows = "[]" and destination = "[''out.csv'']" and fs = empty_fs
       and s = "example_session\<lparr>connection :=
          Some ((new_connection [])\<lparr>pending := [(SQL ''SELECT'', None)]\<rparr>)\<rparr>"]
    no_columns_run_query
  have 1: "export_to_csv no_columns_env ''SELECT'' [''out.csv''] None (example_session, empty_fs)
     = (Inl (ValueError NoDataToExport),
        example_session\<lparr>connection :=
          Some ((new_connection [])\<lparr>pending := [(SQL ''SELECT'', None)]\<rparr>)\<rparr>,
        empty_fs)"
    by simp
  have pre: "[''id'', ''name''] \<noteq> [] \<and>
      (\<forall>q \<in> set (prefixes (parent [''reports'', ''2024'', ''out.csv''])). \<not> is_file empty_fs q) \<and>
      \<not> is_dir empty_fs [''reports'', ''2024'', ''out.csv'']"
    by (simp add: is_file_def is_dir_def empty_fs_def)
  have w: "csv_writer select_env
      [[PStr ''id'', PStr ''name''], [PInt 1, PStr ''ann''], [PInt 2, PStr ''bob'']] = ''row;row;row;''"
    by (simp add: select_env_def example_env_def)
  have p: "set (prefixes (parent [''reports'', ''2024'', ''out.csv''])) =
      {[], [''reports''], [''reports'', ''2024'']}"
    by (auto simp: parent_def)
  from export_header_and_rows
    [where E = select_env and self = example_session
       and query = "''SELECT id, name FROM person''" and params = None and fs = empty_fs
       and columns = "[''id'', ''name'']"
       and rows = "[[PInt 1, PStr ''ann''], [PInt 2, PStr ''bob'']]"
       and s = "example_session\<lparr>connection :=
          Some ((new_connection [])\<lparr>pending := [(SQL ''SELECT id, name FROM person'', None)]\<rparr>)\<rparr>"
       and destination = "[''reports'', ''2024'', ''out.csv'']"]
    select_run_query pre
  have 2: "\<exists>fs'. export_to_csv select_env ''SELECT id, name FROM person''
            [''reports'', ''2024'', ''out.csv''] None (example_session, empty_fs)
          = (Inr [''reports'', ''2024'', ''out.csv''],
             example_session\<lparr>connection :=
               Some ((new_connection [])\<lparr>pending := [(SQL ''SELECT id, name FROM person'', None)]\<rparr>)\<rparr>,
             fs') \<and>
     files fs' [''reports'', ''2024'', ''out.csv''] = Some (Text ''row;row;row;'') \<and>
     is_dir fs' [''reports''] \<and> is_dir fs' [''reports'', ''2024'']"
    by (simp add: w p) blast
  from export_header_and_rows
    [where E = no_columns_env and c = "new_connection []" and table = "''t''" and rows = "[]"
       and fs = empty_fs and path = "[''out.csv'']"]
    select_all_examples(1)
  have 3: "fst (export_table no_columns_env (new_connection []) empty_fs ''t'' [''out.csv''])
      = Inr ()"
    by simp
  have pre4: "[''id'', ''name''] \<noteq> [] \<and>
      (\<forall>q \<in> set (prefixes (parent [''reports'', ''out.csv''])). \<not> is_file empty_fs q) \<and>
      \<not> is_dir empty_fs (parent [''reports'', ''out.csv''])"
    by (simp add: is_file_def is_dir_def empty_fs_def parent_def)
  from export_header_and_rows
    [where E = select_env and c = "new_connection []" and table = "''t''"
       and headers = "[''id'', ''name'']"
       and rows = "[[PInt 1, PStr ''ann''], [PInt 2, PStr ''bob'']]"
       and fs = empty_fs and path = "[''reports'', ''out.csv'']"]
    select_all_examples(2) pre4
  have 4: "fst (export_table select_env (new_connection []) empty_fs ''t'' [''reports'', ''out.csv''])
     = Inl (FileNotFoundError [''reports'', ''out.csv''])"
    by simp
  from 1 2 3 4 show ?thesis by blast
qed

section \<open>The interactive shell\<close>

lemma say_out: "out (say x w) = out w @ [x]"
  by (simp add: say_def)

lemma command_body_out:
  "command_body E cmd args w = (r, w') \<Longrightarrow> \<exists>evs. out w' = out w @ evs"
  by (auto simp: command_body_def say_def
      split: if_splits prod.splits sum.splits list.splits option.splits)

lemma handle_command_out:
  "handle_command E command w = (r, w') \<Longrightarrow> \<exists>evs. out w' = out w @ evs"
  by (auto simp: handle_command_def say_def
      split: list.splits prod.splits sum.splits error.splits
      dest: command_body_out)

lemma cmdloop_from_prompt:
  "\<exists>evs. out (snd (cmdloop_from E inputs w)) = out w @ Prompt # evs"
proof (induction inputs arbitrary: w)
  case Nil
  show ?case by (simp add: say_def)
next
  case (Cons i inputs)
  show ?case
  proof (cases i)
    case Interrupt
    then show ?thesis by (simp add: say_def)
  next
    case (Typed line)
    consider "strip line = []" | "strip line \<in> {''quit'', ''exit''}" | "strip line = ''help''"
      | "strip line \<noteq> []" "strip line \<notin> {''quit'', ''exit''}" "strip line \<noteq> ''help''"
      by blast
    then show ?thesis
    proof cases
      case 1
      from Cons.IH [of "say Prompt w"] obtain evs where
        "out (snd (cmdloop_from E inputs (say Prompt w))) = out (say Prompt w) @ Prompt # evs" ..
      with 1 Typed show ?thesis by (simp add: say_out)
    next
      case 2
      with Typed show ?thesis by (auto simp: say_out)
    next
      case 3
      from Cons.IH [of "say (Print help_text) (say Prompt w)"] obtain evs where
        "out (snd (cmdloop_from E inputs (say (Print help_text) (say Prompt w)))) =
           out (say (Print help_text) (say Prompt w)) @ Prompt # evs" ..
      with 3 Typed show ?thesis by (simp add: say_out)
    next
      case 4
      obtain r w1 where h: "handle_command E (strip line) (say Prompt w) = (r, w1)"
        by (cases "handle_command E (strip line) (say Prompt w)")
      from handle_command_out [OF h] obtain evs1 where
        o1: "out w1 = out w @ Prompt # evs1" by (auto simp: say_out)
      show ?thesis
      proof (cases r)
        case (Inl e)
        with 4 Typed h o1 show ?thesis by simp
      next
        case (Inr u)
        from Cons.IH [of w1] obtain evs where
          "out (snd (cmdloop_from E inputs w1)) = out w1 @ Prompt # evs" ..
        with 4 Typed h o1 Inr show ?thesis by simp
      qed
    qed
  qed
qed

lemma handle_command_database_error:
  "split command = cmd # args \<Longrightarrow>
   command_body E cmd args w = (Inl (DatabaseError m), w1) \<Longrightarrow>
   handle_command E command w = (Inr (), say (Print (''Error: '' @ m)) w1)"
  by (simp add: handle_command_def)

lemma handle_command_other_exception:
  "split command = cmd # args \<Longrightarrow>
   command_body E cmd args w = (Inl e, w1) \<Longrightarrow> \<forall>m. e \<noteq> DatabaseError m \<Longrightarrow>
   handle_command E command w = (Inl e, w1)"
  by (cases e) (simp_all add: handle_command_def)

lemma strip_examples:
  "strip ''query SELECT nope'' = ''query SELECT nope''"
  "strip ''  '' = []"
  "strip '' quit'' = ''quit''"
  "strip ''import t missing.csv'' = ''import t missing.csv''"
  "strip ''import t empty.csv'' = ''import t empty.csv''"
  by (simp_all add: strip_def is_space_def)

lemma split_examples:
  "split ''query SELECT nope'' = [''query'', ''SELECT'', ''nope'']"
  "split ''import t missing.csv'' = [''import'', ''t'', ''missing.csv'']"
  "split ''import t empty.csv'' = [''import'', ''t'', ''empty.csv'']"
  by (simp_all add: split_def is_space_def)

text \<open>
  C8, as stated, fails in its last part ("a failed command never terminates the loop"):
  \<^verbatim>\<open>handle_command\<close> catches the errors of the driver only. The command
  \<^verbatim>\<open>import t missing.csv\<close>, for a file that does not exist, fails with
  \<^verbatim>\<open>FileNotFoundError\<close>, which leaves \<^verbatim>\<open>handle_command\<close> and \<^verbatim>\<open>cmdloop\<close>: the loop ends
  after the first prompt, and the next line is never read.
\<close>

theorem cmdloop_missing_file_counterexample:
  "cmdloop_from example_env [Typed ''import t missing.csv'', Typed ''tables''] example_world =
     (Inl (FileNotFoundError [''missing.csv'']),
      \<lparr>db = new_connection [], fsys = empty_fs, out = [Prompt]\<rparr>)"
  by (simp add: strip_examples split_examples handle_command_def command_body_def
      import_csv_not_read(1) read_examples example_env_def example_world_def say_def)

text \<open>
  C8, amended: for every input line of the shell loop, a blank line dispatches no handler
  (the loop goes on to the next prompt with the state unchanged); the lines \<^verbatim>\<open>quit\<close> and
  \<^verbatim>\<open>exit\<close> end the loop; when the body of a command raises an error of the driver
  (\<^verbatim>\<open>psycopg.Error\<close>), \<^verbatim>\<open>handle_command\<close> catches it, prints the one line
  \<^verbatim>\<open>Error: ...\<close> and returns, and the loop goes on with the rest of the input, writing
  the next prompt right after the error line; when the body of a command raises any
  other exception, the exception leaves \<^verbatim>\<open>handle_command\<close> and ends the loop, with the
  rest of the input unread.
\<close>

theorem cmdloop_lines:
  "(strip line = [] \<longrightarrow>
      cmdloop_from E (Typed line # rest) w = cmdloop_from E rest (say Prompt w)) \<and>
   (strip line = ''quit'' \<or> strip line = ''exit'' \<longrightarrow>
      cmdloop_from E (Typed line # rest) w = (Inr (), say Prompt w)) \<and>
   (strip line \<noteq> [] \<and> strip line \<noteq> ''quit'' \<and> strip line \<noteq> ''exit'' \<and> strip line \<noteq> ''help'' \<and>
    split (strip line) = cmd # args \<and>
    command_body E cmd args (say Prompt w) = (Inl (DatabaseError m), w1) \<longrightarrow>
      handle_command E (strip line) (say Prompt w) = (Inr (), say (Print (''Error: '' @ m)) w1) \<and>
      cmdloop_from E (Typed line # rest) w =
        cmdloop_from E rest (say (Print (''Error: '' @ m)) w1) \<and>
      (\<exists>evs. out (snd (cmdloop_from E (Typed line # rest) w)) =
         out w1 @ Print (''Error: '' @ m) # Prompt # evs)) \<and>
   (strip line \<noteq> [] \<and> strip line \<noteq> ''quit'' \<and> strip line \<noteq> ''exit'' \<and> strip line \<noteq> ''help'' \<and>
    split (strip line) = cmd # args \<and>
    command_body E cmd args (say Prompt w) = (Inl e, w1) \<and> (\<forall>m. e \<noteq> DatabaseError m) \<longrightarrow>
      handle_command E (strip line) (say Prompt w) = (Inl e, w1) \<and>
      cmdloop_from E (Typed line # rest) w = (Inl e, w1))"
proof (intro conjI impI)
  assume "strip line = []"
  then show "cmdloop_from E (Typed line # rest) w = cmdloop_from E rest (say Prompt w)"
    by simp
next
  assume "strip line = ''quit'' \<or> strip line = ''exit''"
  then show "cmdloop_from E (Typed line # rest) w = (Inr (), say Prompt w)"
    by auto
next
  assume a: "strip line \<noteq> [] \<and> strip line \<noteq> ''quit'' \<and> strip line \<noteq> ''exit'' \<and> strip line \<noteq> ''help'' \<and>
    split (strip line) = cmd # args \<and>
    command_body E cmd args (say Prompt w) = (Inl (DatabaseError m), w1)"
  then show h: "handle_command E (strip line) (say Prompt w) =
      (Inr (), say (Print (''Error: '' @ m)) w1)"
    by (simp add: handle_command_database_error)
  from a h show c: "cmdloop_from E (Typed line # rest) w =
      cmdloop_from E rest (say (Print (''Error: '' @ m)) w1)"
    by simp
  from cmdloop_from_prompt [of E rest "say (Print (''Error: '' @ m)) w1"] c
  show "\<exists>evs. out (snd (cmdloop_from E (Typed line # rest) w)) =
         out w1 @ Print (''Error: '' @ m) # Prompt # evs"
    by (simp add: say_out)
next
  assume a: "strip line \<noteq> [] \<and> strip line \<noteq> ''quit'' \<and> strip line \<noteq> ''exit'' \<and> strip line \<noteq> ''help'' \<and>
    split (strip line) = cmd # args \<and>
    command_body E cmd args (say Prompt w) = (Inl e, w1) \<and> (\<forall>m. e \<noteq> DatabaseError m)"
  then show h: "handle_command E (strip line) (say Prompt w) = (Inl e, w1)"
    using handle_command_other_exception [of "strip line" cmd args E "say Prompt w" e w1] by blast
  from a h show "cmdloop_from E (Typed line # rest) w = (Inl e, w1)"
    by simp
qed

lemma rejected_query:
  "command_body rejecting_env ''query'' [''SELECT'', ''nope''] (say Prompt example_world) =
     (Inl (DatabaseError ''syntax error''),
      \<lparr>db = (new_connection [])\<lparr>failed := True\<rparr>, fsys = empty_fs, out = [Prompt]\<rparr>)"
  by (simp add: command_body_def DatabaseClient_run_query_def DatabaseClient_execute_def
      conn_cursor_def conn_execute_def rejecting_env_def example_env_def example_world_def
      new_connection_def say_def)

lemma headerless_import:
  "command_body example_env ''import'' [''t'', ''empty.csv'']
      (say Prompt \<lparr>db = new_connection [], fsys = empty_csv_fs, out = []\<rparr>) =
     (Inl StopIteration, \<lparr>db = new_connection [], fsys = empty_csv_fs, out = [Prompt]\<rparr>)"
proof -
  have "import_csv example_env (new_connection []) empty_csv_fs ''t'' [''empty.csv''] False
      = (Inl StopIteration, new_connection [])"
    by (rule import_csv_not_read(3) [OF read_examples(1)]) (simp add: example_env_def)
  then show ?thesis
    by (simp add: command_body_def say_def) (simp add: example_env_def)
qed

theorem cmdloop_lines_witness:
  "cmdloop_from rejecting_env [Typed ''query SELECT nope'', Typed ''  '', Typed '' quit'']
     example_world =
   (Inr (),
    \<lparr>db = (new_connection [])\<lparr>failed := True\<rparr>, fsys = empty_fs,
     out = [Prompt, Print ''Error: syntax error'', Prompt, Prompt]\<rparr>) \<and>
   cmdloop_from example_env [Typed ''import t empty.csv'', Typed ''tables'']
     \<lparr>db = new_connection [], fsys = empty_csv_fs, out = []\<rparr> =
   (Inl StopIteration, \<lparr>db = new_connection [], fsys = empty_csv_fs, out = [Prompt]\<rparr>)"
proof -
  let ?w1 = "\<lparr>db = (new_connection [])\<lparr>failed := True\<rparr>, fsys = empty_fs, out = [Prompt]\<rparr>"
  let ?w2 = "say (Print (''Error: '' @ ''syntax error'')) ?w1"
  have 1: "cmdloop_from rejecting_env
        [Typed ''query SELECT nope'', Typed ''  '', Typed '' quit''] example_world =
      cmdloop_from rejecting_env [Typed ''  '', Typed '' quit''] ?w2"
    using cmdloop_lines [of "''query SELECT nope''" rejecting_env "[Typed ''  '', Typed '' quit'']"
        example_world "''query''" "[''SELECT'', ''nope'']" "''syntax error''" ?w1]
      strip_examples split_examples rejected_query
    by simp
  have 2: "cmdloop_from rejecting_env [Typed ''  '', Typed '' quit''] ?w2 =
      cmdloop_from rejecting_env [Typed '' quit''] (say Prompt ?w2)"
    using cmdloop_lines [of "''  ''" rejecting_env "[Typed '' quit'']" ?w2] strip_examples
    by simp
  have 3: "cmdloop_from rejecting_env [Typed '' quit''] (say Prompt ?w2) =
      (Inr (), say Prompt (say Prompt ?w2))"
    using cmdloop_lines [of "'' quit''" rejecting_env "[]" "say Prompt ?w2"] strip_examples
    by simp
  have 4: "cmdloop_from example_env [Typed ''import t empty.csv'', Typed ''tables'']
       \<lparr>db = new_connection [], fsys = empty_csv_fs, out = []\<rparr> =
     (Inl StopIteration, \<lparr>db = new_connection [], fsys = empty_csv_fs, out = [Prompt]\<rparr>)"
    using cmdloop_lines
      [where line = "''import t empty.csv''" and E = example_env and cmd = "''import''"
         and args = "[''t'', ''empty.csv'']"
         and w = "\<lparr>db = new_connection [], fsys = empty_csv_fs, out = []\<rparr>"
         and e = StopIteration
         and ?w1.0 = "\<lparr>db = new_connection [], fsys = empty_csv_fs, out = [Prompt]\<rparr>"
         and rest = "[Typed ''tables'']"]
      strip_examples split_examples headerless_import
    by simp
  show ?thesis
    unfolding 1 2 3 4 by (simp add: say_def)
qed

section \<open>Exit status\<close>

text \<open>Every exception the \<^verbatim>\<open>try\<close> block of \<^verbatim>\<open>main\<close> can raise is an \<^verbatim>\<open>Exception\<close>.\<close>

lemma connect_exc: "connect E self = (Inl e, s) \<Longrightarrow> is_Exception e"
  by (auto simp: connect_def is_Exception_def split: option.splits sum.splits)

lemma cursor_exc: "cursor E self = (Inl e, s) \<Longrightarrow> is_Exception e"
  by (auto simp: cursor_def conn_cursor_def is_Exception_def
      split: prod.splits sum.splits if_splits dest: connect_exc)

lemma conn_execute_exc: "conn_execute E c st = (Inl e, c') \<Longrightarrow> is_Exception e"
  by (auto dest: conn_execute_error simp: is_Exception_def)

lemma conn_commit_exc: "conn_commit c = (Inl e, c') \<Longrightarrow> is_Exception e"
  by (auto dest: conn_commit_error simp: is_Exception_def)

lemma run_query_exc: "run_query E self q ps f = (Inl e, s) \<Longrightarrow> is_Exception e"
  by (auto simp: run_query_def Let_def split: prod.splits sum.splits if_splits
      dest: cursor_exc conn_execute_exc conn_commit_exc)

lemma list_tables_exc: "list_tables E self b = (Inl e, s) \<Longrightarrow> is_Exception e"
  by (auto simp: list_tables_def split: prod.splits sum.splits dest: run_query_exc)

lemma describe_table_exc: "describe_table E self t = (Inl e, s) \<Longrightarrow> is_Exception e"
  by (auto simp: describe_table_def Let_def split: prod.splits sum.splits dest: run_query_exc)

lemma execute_script_exc: "execute_script E self sql = (Inl e, s) \<Longrightarrow> is_Exception e"
  by (auto simp: execute_script_def split: prod.splits sum.splits
      dest: cursor_exc conn_execute_exc conn_commit_exc)

lemma mkdir_parents_exc: "mkdir_parents fs p = Inl e \<Longrightarrow> is_Exception e"
  by (auto simp: mkdir_parents_def is_Exception_def split: if_splits)

lemma lookup_exc: "lookup fs qs p = Some e \<Longrightarrow> is_Exception e"
  by (induction qs) (auto simp: is_Exception_def split: if_splits)

lemma write_file_exc: "write_file fs p t = Inl e \<Longrightarrow> is_Exception e"
  by (auto simp: write_file_def is_Exception_def split: option.splits if_splits dest: lookup_exc)

lemma read_file_exc: "read_file fs p = Inl e \<Longrightarrow> is_Exception e"
  by (auto simp: read_file_def is_Exception_def
      split: option.splits content.splits if_splits dest: lookup_exc)

lemma export_to_csv_exc:
  "export_to_csv E q d ps w = (Inl e, s, fs') \<Longrightarrow> is_Exception e"
  by (auto simp: export_to_csv_def is_Exception_def split: prod.splits sum.splits if_splits
      dest: run_query_exc mkdir_parents_exc write_file_exc)

lemma read_sql_exc: "read_sql E fs sql file_path = Inl e \<Longrightarrow> is_Exception e"
  by (auto simp: read_sql_def is_Exception_def split: option.splits dest: read_file_exc)

lemma parse_params_from_exc: "parse_params_from E ps parsed = Inl e \<Longrightarrow> is_Exception e"
  by (induction ps arbitrary: parsed)
    (auto simp: is_Exception_def split: sum.splits literal_error.splits)

lemma parse_params_exc: "parse_params E ps = Inl e \<Longrightarrow> is_Exception e"
  by (auto simp: parse_params_def dest: parse_params_from_exc)

lemma py_int_exc: "py_int E v = Inl e \<Longrightarrow> is_Exception e"
  by (auto simp: py_int_def is_Exception_def split: pyval.splits option.splits)

lemma from_mapping_exc: "from_mapping E m = Inl e \<Longrightarrow> is_Exception e"
  by (auto simp: from_mapping_def Let_def map_sum_def split: sum.splits if_splits
      dest: py_int_exc)

lemma from_environment_exc: "from_environment E = Inl e \<Longrightarrow> is_Exception e"
  by (auto simp: from_environment_def Let_def dest: from_mapping_exc split: if_splits)

lemma load_candidates_exc: "load_candidates E fs ps = Inl e \<Longrightarrow> is_Exception e"
  by (induction ps)
    (auto simp: is_Exception_def split: option.splits content.splits pyval.splits
       dest: from_mapping_exc)

lemma load_config_exc: "load_config E fs p = Inl e \<Longrightarrow> is_Exception e"
  by (auto simp: load_config_def dest: load_candidates_exc)

lemma parse_options_from_exc: "parse_options_from opts parsed = Inl e \<Longrightarrow> is_Exception e"
  by (induction opts arbitrary: parsed) (auto simp: is_Exception_def split: if_splits)

lemma build_config_exc: "build_config E fs a = Inl e \<Longrightarrow> is_Exception e"
  by (auto simp: build_config_def parse_options_def split: sum.splits
      dest: load_config_exc from_environment_exc parse_options_from_exc from_mapping_exc)

lemma handle_query_exc:
  "handle_query E sql file_path no_fetch params w = (Inl e, w') \<Longrightarrow> is_Exception e"
  by (auto simp: handle_query_def split: sum.splits prod.splits
      dest: read_sql_exc parse_params_exc run_query_exc)

lemma handle_export_exc:
  "handle_export E output sql file_path params w = (Inl e, w') \<Longrightarrow> is_Exception e"
  by (auto simp: handle_export_def split: sum.splits prod.splits
      dest: read_sql_exc parse_params_exc export_to_csv_exc)

lemma dispatch_exc: "dispatch E cmd w = (Inl e, w') \<Longrightarrow> is_Exception e"
  by (cases cmd)
    (auto simp: dispatch_def handle_tables_def handle_describe_def handle_script_def
       split: sum.splits prod.splits
       dest: handle_query_exc handle_export_exc list_tables_exc describe_table_exc
         read_file_exc execute_script_exc)

lemma main_body_exc: "main_body E a fs = (Inl e, fs', printed) \<Longrightarrow> is_Exception e"
  by (auto simp: main_body_def split: sum.splits prod.splits
      dest: build_config_exc connect_exc dispatch_exc)

lemma main_status:
  "main E (Inr a) fs =
     (case main_body E a fs of
        (Inl e, fs', printed) \<Rightarrow> (Inr 1, fs', printed @ [StderrError e])
      | (Inr u, fs', printed) \<Rightarrow> (Inr 0, fs', printed))"
  by (auto simp: main_def split: prod.splits sum.splits dest: main_body_exc)

text \<open>The only value other than 0 that the \<^verbatim>\<open>with\<close> block of \<^verbatim>\<open>run_cli\<close> returns.\<close>

lemma run_cli_body_status:
  "run_cli_body E a fs inputs = Inr (Inr n, w) \<Longrightarrow>
   n = 0 \<or>
   (n = 1 \<and>
    (\<exists>t c c1. ns_command a = Some (DescribeCmd t) \<and>
       DatabaseClient_init E (from_args E a) = Inr c \<and>
       DatabaseClient_describe_table E c t = (Inr [], c1)))"
  by (auto simp: run_cli_body_def finish_def Let_def
      split: sum.splits option.splits subcommand.splits prod.splits if_splits)

lemma run_cli_status:
  "fst (run_cli E (Inr b) fs inputs) = Inr n \<Longrightarrow>
   n = 0 \<or> n = 2 \<or>
   (n = 1 \<and>
    (\<exists>t c c1. ns_command b = Some (DescribeCmd t) \<and>
       DatabaseClient_init E (from_args E b) = Inr c \<and>
       DatabaseClient_describe_table E c t = (Inr [], c1)))"
proof (cases "run_cli_body E b fs inputs")
  case (Inl e)
  assume "fst (run_cli E (Inr b) fs inputs) = Inr n"
  with Inl show ?thesis by (cases e) (simp_all add: run_cli_def)
next
  case (Inr rw)
  assume a: "fst (run_cli E (Inr b) fs inputs) = Inr n"
  obtain r w where rw: "rw = (r, w)" by (cases rw)
  show ?thesis
  proof (cases r)
    case (Inl e)
    with a Inr rw show ?thesis by (cases e) (simp_all add: run_cli_def)
  next
    case r: (Inr k)
    with a Inr rw have "k = n" by (simp add: run_cli_def)
    with Inr rw r run_cli_body_status [of E b fs inputs n w] show ?thesis by auto
  qed
qed

text \<open>
  C9, as stated, fails: \<^verbatim>\<open>run_cli\<close> returns 2, not 1, when it catches an error of the
  driver; here the server cannot be reached.
\<close>

theorem run_cli_status_counterexample:
  "run_cli unreachable_env (Inr example_namespace) empty_fs [] =
     (Inr 2, empty_fs, [Stderr ''Database error: connection refused''])"
  by (simp add: run_cli_def run_cli_body_def DatabaseClient_init_def unreachable_env_def
      example_env_def)

text \<open>
  C9, amended: \<^verbatim>\<open>main\<close> of pgtool returns 0 when its \<^verbatim>\<open>try\<close> block ends without an
  exception and 1, after printing the exception to the error stream, when the block
  raises one (no exception of the block escapes); when \<^verbatim>\<open>argparse\<close> rejects the
  arguments, \<^verbatim>\<open>main\<close> does not return but leaves with the \<^verbatim>\<open>SystemExit\<close> of
  \<^verbatim>\<open>argparse\<close>. \<^verbatim>\<open>run_cli\<close> of pg_tool returns only 0, 1 or 2: 0 when the command
  succeeds (the shell ends, the tables are listed, the columns of the table are shown,
  the query ran, the table was exported, the file was imported); 1 when \<^verbatim>\<open>describe\<close>
  finds no columns, and only then; and 2, after printing the message to the error
  stream, when it catches an error of the driver, be it from connecting or from the
  command.
\<close>

theorem exit_status:
  "main E (Inr a) fs =
     (case main_body E a fs of
        (Inl e, fs', printed) \<Rightarrow> (Inr 1, fs', printed @ [StderrError e])
      | (Inr u, fs', printed) \<Rightarrow> (Inr 0, fs', printed)) \<and>
   main E (Inl status) fs = (Inl (SystemExit status), fs, []) \<and>
   (fst (run_cli E (Inr b) fs inputs) = Inr n \<longrightarrow> n = 0 \<or> n = 1 \<or> n = 2) \<and>
   (fst (run_cli E (Inr b) fs inputs) = Inr 1 \<longrightarrow>
      (\<exists>t c c1. ns_command b = Some (DescribeCmd t) \<and>
         DatabaseClient_init E (from_args E b) = Inr c \<and>
         DatabaseClient_describe_table E c t = (Inr [], c1))) \<and>
   (psycopg_connect E (to_connection_kwargs (from_args E b)) = Inl m \<longrightarrow>
      run_cli E (Inr b) fs inputs = (Inr 2, fs, [Stderr (''Database error: '' @ m)])) \<and>
   (run_cli_body E b fs inputs = Inr (Inl (DatabaseError m), w) \<longrightarrow>
      run_cli E (Inr b) fs inputs = (Inr 2, fsys w, out w @ [Stderr (''Database error: '' @ m)])) \<and>
   (DatabaseClient_init E (from_args E b) = Inr c \<and>
    (ns_command b = None \<or> ns_command b = Some ShellCmd) \<and>
    cmdloop E inputs \<lparr>db = c, fsys = fs, out = []\<rparr> = (Inr (), w1) \<longrightarrow>
      run_cli E (Inr b) fs inputs = (Inr 0, fsys w1, out w1)) \<and>
   (DatabaseClient_init E (from_args E b) = Inr c \<and> ns_command b = Some (TablesCmd schema) \<and>
    DatabaseClient_list_tables E c schema = (Inr [], c1) \<longrightarrow>
      run_cli E (Inr b) fs inputs = (Inr 0, fs, [Print ''(no tables found)''])) \<and>
   (DatabaseClient_init E (from_args E b) = Inr c \<and> ns_command b = Some (TablesCmd schema) \<and>
    DatabaseClient_list_tables E c schema = (Inr tables, c1) \<and> tables \<noteq> [] \<and>
    collect as_str tables = Inr names \<longrightarrow>
      run_cli E (Inr b) fs inputs = (Inr 0, fs, [Print (str_join [CHR 0x0A] names)])) \<and>
   (DatabaseClient_init E (from_args E b) = Inr c \<and> ns_command b = Some (DescribeCmd table) \<and>
    DatabaseClient_describe_table E c table = (Inr [], c1) \<longrightarrow>
      run_cli E (Inr b) fs inputs = (Inr 1, fs, [Print ''Table not found or has no columns.''])) \<and>
   (DatabaseClient_init E (from_args E b) = Inr c \<and> ns_command b = Some (DescribeCmd table) \<and>
    DatabaseClient_describe_table E c table = (Inr columns, c1) \<and> columns \<noteq> [] \<and>
    collect (\<lambda>col. collect (getitem col) describe_headers) columns = Inr rows \<longrightarrow>
      run_cli E (Inr b) fs inputs = (Inr 0, fs, [PrintTable describe_headers rows])) \<and>
   (DatabaseClient_init E (from_args E b) = Inr c \<and> ns_command b = Some (QueryCmd sql) \<and>
    DatabaseClient_run_query E c sql = (Inr res, c1) \<longrightarrow>
      run_cli E (Inr b) fs inputs = (Inr 0, fs, [PrintTable (fst res) (snd res)])) \<and>
   (DatabaseClient_init E (from_args E b) = Inr c \<and>
    ns_command b = Some (ExportCmd table path_str) \<and>
    expanduser E (Path E path_str) = Some path \<and>
    export_table E c fs table path = (Inr (), c1, fs1) \<longrightarrow>
      run_cli E (Inr b) fs inputs = (Inr 0, fs1, [PrintExported table path])) \<and>
   (DatabaseClient_init E (from_args E b) = Inr c \<and>
    ns_command b = Some (ImportCmd table path_str trunc) \<and>
    expanduser E (Path E path_str) = Some path \<and>
    import_csv E c fs table path trunc = (Inr count, c1) \<longrightarrow>
      run_cli E (Inr b) fs inputs = (Inr 0, fs, [PrintImported count table]))"
proof (intro conjI)
  show "main E (Inr a) fs =
     (case main_body E a fs of
        (Inl e, fs', printed) \<Rightarrow> (Inr 1, fs', printed @ [StderrError e])
      | (Inr u, fs', printed) \<Rightarrow> (Inr 0, fs', printed))"
    by (rule main_status)
  show "main E (Inl status) fs = (Inl (SystemExit status), fs, [])"
    by (simp add: main_def)
  show "fst (run_cli E (Inr b) fs inputs) = Inr n \<longrightarrow> n = 0 \<or> n = 1 \<or> n = 2"
    using run_cli_status [of E b fs inputs n] by blast
  show "fst (run_cli E (Inr b) fs inputs) = Inr 1 \<longrightarrow>
      (\<exists>t c c1. ns_command b = Some (DescribeCmd t) \<and>
         DatabaseClient_init E (from_args E b) = Inr c \<and>
         DatabaseClient_describe_table E c t = (Inr [], c1))"
    using run_cli_status [of E b fs inputs 1] by simp
  show "psycopg_connect E (to_connection_kwargs (from_args E b)) = Inl m \<longrightarrow>
      run_cli E (Inr b) fs inputs = (Inr 2, fs, [Stderr (''Database error: '' @ m)])"
    by (simp add: run_cli_def run_cli_body_def DatabaseClient_init_def)
  show "run_cli_body E b fs inputs = Inr (Inl (DatabaseError m), w) \<longrightarrow>
      run_cli E (Inr b) fs inputs = (Inr 2, fsys w, out w @ [Stderr (''Database error: '' @ m)])"
    by (simp add: run_cli_def)
  show "DatabaseClient_init E (from_args E b) = Inr c \<and>
    (ns_command b = None \<or> ns_command b = Some ShellCmd) \<and>
    cmdloop E inputs \<lparr>db = c, fsys = fs, out = []\<rparr> = (Inr (), w1) \<longrightarrow>
      run_cli E (Inr b) fs inputs = (Inr 0, fsys w1, out w1)"
    by (auto simp: run_cli_def run_cli_body_def finish_def)
  show "DatabaseClient_init E (from_args E b) = Inr c \<and> ns_command b = Some (TablesCmd schema) \<and>
    DatabaseClient_list_tables E c schema = (Inr [], c1) \<longrightarrow>
      run_cli E (Inr b) fs inputs = (Inr 0, fs, [Print ''(no tables found)''])"
    by (simp add: run_cli_def run_cli_body_def finish_def say_def)
  show "DatabaseClient_init E (from_args E b) = Inr c \<and> ns_command b = Some (TablesCmd schema) \<and>
    DatabaseClient_list_tables E c schema = (Inr tables, c1) \<and> tables \<noteq> [] \<and>
    collect as_str tables = Inr names \<longrightarrow>
      run_cli E (Inr b) fs inputs = (Inr 0, fs, [Print (str_join [CHR 0x0A] names)])"
    by (simp add: run_cli_def run_cli_body_def finish_def say_def)
  show "DatabaseClient_init E (from_args E b) = Inr c \<and> ns_command b = Some (DescribeCmd table) \<and>
    DatabaseClient_describe_table E c table = (Inr [], c1) \<longrightarrow>
      run_cli E (Inr b) fs inputs = (Inr 1, fs, [Print ''Table not found or has no columns.''])"
    by (simp add: run_cli_def run_cli_body_def finish_def say_def)
  show "DatabaseClient_init E (from_args E b) = Inr c \<and> ns_command b = Some (DescribeCmd table) \<and>
    DatabaseClient_describe_table E c table = (Inr columns, c1) \<and> columns \<noteq> [] \<and>
    collect (\<lambda>col. collect (getitem col) describe_headers) columns = Inr rows \<longrightarrow>
      run_cli E (Inr b) fs inputs = (Inr 0, fs, [PrintTable describe_headers rows])"
    by (simp add: run_cli_def run_cli_body_def finish_def say_def)
  show "DatabaseClient_init E (from_args E b) = Inr c \<and> ns_command b = Some (QueryCmd sql) \<and>
    DatabaseClient_run_query E c sql = (Inr res, c1) \<longrightarrow>
      run_cli E (Inr b) fs inputs = (Inr 0, fs, [PrintTable (fst res) (snd res)])"
    by (simp add: run_cli_def run_cli_body_def finish_def say_def)
  show "DatabaseClient_init E (from_args E b) = Inr c \<and>
    ns_command b = Some (ExportCmd table path_str) \<and>
    expanduser E (Path E path_str) = Some path \<and>
    export_table E c fs table path = (Inr (), c1, fs1) \<longrightarrow>
      run_cli E (Inr b) fs inputs = (Inr 0, fs1, [PrintExported table path])"
    by (simp add: run_cli_def run_cli_body_def finish_def say_def)
  show "DatabaseClient_init E (from_args E b) = Inr c \<and>
    ns_command b = Some (ImportCmd table path_str trunc) \<and>
    expanduser E (Path E path_str) = Some path \<and>
    import_csv E c fs table path trunc = (Inr count, c1) \<longrightarrow>
      run_cli E (Inr b) fs inputs = (Inr 0, fs, [PrintImported count table])"
    by (simp add: run_cli_def run_cli_body_def finish_def say_def)
qed

text \<open>The example runs behind the instances of the exit status.\<close>

lemma example_client:
  "psycopg_connect E = (\<lambda>kwargs. Inr []) \<Longrightarrow>
   DatabaseClient_init E (from_args E (example_namespace\<lparr>ns_command := cmd\<rparr>))
     = Inr (new_connection [])"
  by (simp add: DatabaseClient_init_def from_args_def example_namespace_def new_connection_def)

lemma example_connects:
  "psycopg_connect example_env = (\<lambda>kwargs. Inr [])"
  "psycopg_connect rejecting_env = (\<lambda>kwargs. Inr [])"
  "psycopg_connect no_columns_env = (\<lambda>kwargs. Inr [])"
  "psycopg_connect catalogue_env = (\<lambda>kwargs. Inr [])"
  "psycopg_connect select_env = (\<lambda>kwargs. Inr [])"
  by (simp_all add: example_env_def rejecting_env_def no_columns_env_def catalogue_env_def
      select_env_def)

lemma example_build_config:
  "environ E = [] \<Longrightarrow> DEFAULT_CONFIG_LOCATIONS E = DEFAULT_CONFIG_LOCATIONS example_env \<Longrightarrow>
   build_config E empty_fs (example_args\<lparr>arg_command := cmd\<rparr>) = Inr DatabaseConfig_default"
  by (simp add: build_config_def load_config_def example_args_def example_env_def empty_fs_def
      from_environment_def from_mapping_def dict_get_def parse_options_def opt_str_def
      opt_int_def py_or_def merge_configs_def merged_with_def DatabaseConfig_default_def)

lemma example_main_bodies:
  "main_body unreachable_env example_args empty_fs =
     (Inl (DatabaseError ''connection refused''), empty_fs, [])"
  "main_body example_env example_args empty_fs = (Inr (), empty_fs, [PrintNoTables])"
  "main_body unhashable_env
     (example_args\<lparr>arg_command := Query (Some ''SELECT %s'') None False [''{[1]: 2}'']\<rparr>) empty_fs =
     (Inl TypeError, empty_fs, [])"
proof -
  have u: "build_config unreachable_env empty_fs example_args = Inr DatabaseConfig_default"
    using example_build_config [of unreachable_env "Tables False"]
    by (simp add: unreachable_env_def example_env_def example_args_def)
  have e: "build_config example_env empty_fs example_args = Inr DatabaseConfig_default"
    using example_build_config [of example_env "Tables False"]
    by (simp add: example_env_def example_args_def)
  have h: "build_config unhashable_env empty_fs
      (example_args\<lparr>arg_command := Query (Some ''SELECT %s'') None False [''{[1]: 2}'']\<rparr>)
      = Inr DatabaseConfig_default"
    by (rule example_build_config) (simp_all add: unhashable_env_def example_env_def)
  show "main_body unreachable_env example_args empty_fs =
     (Inl (DatabaseError ''connection refused''), empty_fs, [])"
    by (simp add: main_body_def u connect_def DatabaseConnection_init_def)
      (simp add: unreachable_env_def example_env_def)
  show "main_body example_env example_args empty_fs = (Inr (), empty_fs, [PrintNoTables])"
    by (simp add: main_body_def e connect_def DatabaseConnection_init_def)
      (simp add: example_env_def dispatch_def example_args_def handle_tables_def list_tables_def
        run_query_def cursor_def connect_def conn_cursor_def conn_execute_def new_connection_def)
  show "main_body unhashable_env
     (example_args\<lparr>arg_command := Query (Some ''SELECT %s'') None False [''{[1]: 2}'']\<rparr>) empty_fs =
     (Inl TypeError, empty_fs, [])"
    by (simp add: main_body_def h connect_def DatabaseConnection_init_def)
      (simp add: unhashable_env_def example_env_def dispatch_def handle_query_def read_sql_def
        given_def parse_params_def)
qed

lemma example_commands:
  "fst (DatabaseClient_run_query example_env (new_connection []) ''SELECT 1'') = Inr ([], [])"
  "fst (DatabaseClient_list_tables no_columns_env (new_connection []) None) = Inr []"
  "fst (DatabaseClient_list_tables catalogue_env (new_connection []) None)
     = Inr [PStr ''public.person'']"
  "fst (DatabaseClient_describe_table no_columns_env (new_connection []) ''person'') = Inr []"
  "fst (DatabaseClient_describe_table catalogue_env (new_connection []) ''person'')
     = Inr [dict_row [''name'', ''column_name'', ''data_type'', ''is_nullable'', ''column_default'']
              [PStr ''public.person'', PStr ''id'', PStr ''integer'', PStr ''NO'', PNone]]"
  "fst (export_table select_env (new_connection []) empty_fs ''t'' [''out.csv'']) = Inr ()"
  "fst (import_csv example_env (new_connection []) csv_fs ''t'' [''data.csv''] False) = Inr 0"
proof -
  show "fst (DatabaseClient_run_query example_env (new_connection []) ''SELECT 1'') = Inr ([], [])"
    by (simp add: DatabaseClient_run_query_def DatabaseClient_execute_def conn_cursor_def
        conn_execute_def conn_commit_def example_env_def new_connection_def)
  show "fst (DatabaseClient_list_tables no_columns_env (new_connection []) None) = Inr []"
    by (simp add: DatabaseClient_list_tables_def DatabaseClient_execute_def conn_cursor_def
        conn_execute_def fetchall_dict_def given_def no_columns_env_def example_env_def
        new_connection_def Let_def)
  show "fst (DatabaseClient_list_tables catalogue_env (new_connection []) None)
     = Inr [PStr ''public.person'']"
    by (simp add: DatabaseClient_list_tables_def DatabaseClient_execute_def conn_cursor_def
        conn_execute_def fetchall_dict_def given_def catalogue_env_def example_env_def
        new_connection_def dict_row_def getitem_def Let_def)
  show "fst (DatabaseClient_describe_table no_columns_env (new_connection []) ''person'') = Inr []"
    by (simp add: DatabaseClient_describe_table_def DatabaseClient_execute_def conn_cursor_def
        conn_execute_def fetchall_dict_def no_columns_env_def example_env_def
        new_connection_def Let_def)
  show "fst (DatabaseClient_describe_table catalogue_env (new_connection []) ''person'')
     = Inr [dict_row [''name'', ''column_name'', ''data_type'', ''is_nullable'', ''column_default'']
              [PStr ''public.person'', PStr ''id'', PStr ''integer'', PStr ''NO'', PNone]]"
    by (simp add: DatabaseClient_describe_table_def DatabaseClient_execute_def conn_cursor_def
        conn_execute_def fetchall_dict_def catalogue_env_def example_env_def
        new_connection_def Let_def)
  show "fst (export_table select_env (new_connection []) empty_fs ''t'' [''out.csv'']) = Inr ()"
    by (simp add: export_table_def DatabaseClient_execute_def conn_cursor_def conn_execute_def
        fetchall_dict_def select_env_def example_env_def new_connection_def write_file_def
        is_dir_def is_file_def parent_def empty_fs_def Let_def)
  show "fst (import_csv example_env (new_connection []) csv_fs ''t'' [''data.csv''] False) = Inr 0"
    by (simp add: import_csv_def read_examples example_env_def conn_cursor_def conn_commit_def
        new_connection_def Let_def)
qed

lemma catalogue_rows:
  "collect (\<lambda>col. collect (getitem col) describe_headers)
     [dict_row [''name'', ''column_name'', ''data_type'', ''is_nullable'', ''column_default'']
        [PStr ''public.person'', PStr ''id'', PStr ''integer'', PStr ''NO'', PNone]]
   = Inr [[PStr ''id'', PStr ''integer'', PStr ''NO'', PNone]]"
  by (simp add: dict_row_def getitem_def describe_headers_def)

lemma rejected_run:
  "\<exists>w. run_cli_body rejecting_env example_namespace empty_fs []
          = Inr (Inl (DatabaseError ''syntax error''), w) \<and> fsys w = empty_fs \<and> out w = []"
  by (simp add: run_cli_body_def finish_def DatabaseClient_init_def from_args_def
      example_namespace_def DatabaseClient_run_query_def DatabaseClient_execute_def
      conn_cursor_def conn_execute_def rejecting_env_def example_env_def new_connection_def)

lemma quit_shell:
  "\<exists>w. cmdloop example_env [Typed ''quit''] \<lparr>db = new_connection [], fsys = empty_fs, out = []\<rparr>
          = (Inr (), w) \<and> fsys w = empty_fs"
  by (simp add: cmdloop_def strip_def is_space_def say_def)

theorem exit_status_witness:
  "run_cli unreachable_env (Inr example_namespace) empty_fs [] =
     (Inr 2, empty_fs, [Stderr ''Database error: connection refused'']) \<and>
   run_cli rejecting_env (Inr example_namespace) empty_fs [] =
     (Inr 2, empty_fs, [Stderr ''Database error: syntax error'']) \<and>
   main unreachable_env (Inr example_args) empty_fs =
     (Inr 1, empty_fs, [StderrError (DatabaseError ''connection refused'')]) \<and>
   main unhashable_env
     (Inr (example_args\<lparr>arg_command := Query (Some ''SELECT %s'') None False [''{[1]: 2}'']\<rparr>))
     empty_fs = (Inr 1, empty_fs, [StderrError TypeError]) \<and>
   main example_env (Inr example_args) empty_fs = (Inr 0, empty_fs, [PrintNoTables]) \<and>
   main example_env (Inl 2) empty_fs = (Inl (SystemExit 2), empty_fs, []) \<and>
   fst (run_cli example_env (Inr (example_namespace\<lparr>ns_command := Some ShellCmd\<rparr>)) empty_fs
          [Typed ''quit'']) = Inr 0 \<and>
   run_cli no_columns_env (Inr (example_namespace\<lparr>ns_command := Some (TablesCmd None)\<rparr>))
     empty_fs [] = (Inr 0, empty_fs, [Print ''(no tables found)'']) \<and>
   run_cli catalogue_env (Inr (example_namespace\<lparr>ns_command := Some (TablesCmd None)\<rparr>))
     empty_fs [] = (Inr 0, empty_fs, [Print ''public.person'']) \<and>
   run_cli no_columns_env (Inr (example_namespace\<lparr>ns_command := Some (DescribeCmd ''person'')\<rparr>))
     empty_fs [] = (Inr 1, empty_fs, [Print ''Table not found or has no columns.'']) \<and>
   (\<exists>c c1. DatabaseClient_describe_table no_columns_env c ''person'' = (Inr [], c1)) \<and>
   run_cli catalogue_env (Inr (example_namespace\<lparr>ns_command := Some (DescribeCmd ''person'')\<rparr>))
     empty_fs [] =
     (Inr 0, empty_fs,
      [PrintTable describe_headers [[PStr ''id'', PStr ''integer'', PStr ''NO'', PNone]]]) \<and>
   run_cli example_env (Inr example_namespace) empty_fs [] = (Inr 0, empty_fs, [PrintTable [] []]) \<and>
   fst (run_cli select_env (Inr (example_namespace\<lparr>ns_command := Some (ExportCmd ''t'' ''out.csv'')\<rparr>))
          empty_fs []) = Inr 0 \<and>
   run_cli example_env
     (Inr (example_namespace\<lparr>ns_command := Some (ImportCmd ''t'' ''data.csv'' False)\<rparr>)) csv_fs [] =
     (Inr 0, csv_fs, [PrintImported 0 ''t''])"
proof -
  let ?shell = "example_namespace\<lparr>ns_command := Some ShellCmd\<rparr>"
  let ?tables = "example_namespace\<lparr>ns_command := Some (TablesCmd None)\<rparr>"
  let ?describe = "example_namespace\<lparr>ns_command := Some (DescribeCmd ''person'')\<rparr>"
  let ?export = "example_namespace\<lparr>ns_command := Some (ExportCmd ''t'' ''out.csv'')\<rparr>"
  let ?import = "example_namespace\<lparr>ns_command := Some (ImportCmd ''t'' ''data.csv'' False)\<rparr>"
  let ?column = "dict_row [''name'', ''column_name'', ''data_type'', ''is_nullable'', ''column_default'']
      [PStr ''public.person'', PStr ''id'', PStr ''integer'', PStr ''NO'', PNone]"
  have q: "example_namespace\<lparr>ns_command := Some (QueryCmd ''SELECT 1'')\<rparr> = example_namespace"
    by (simp add: example_namespace_def)
  note client = example_client [OF example_connects(1)] example_client [OF example_connects(2)]
    example_client [OF example_connects(3)] example_client [OF example_connects(4)]
    example_client [OF example_connects(5)]
  have client_q: "DatabaseClient_init example_env (from_args example_env example_namespace)
      = Inr (new_connection [])"
    using client(1) [of "Some (QueryCmd ''SELECT 1'')"] by (simp add: q)

  have c: "psycopg_connect unreachable_env
      (to_connection_kwargs (from_args unreachable_env example_namespace)) = Inl ''connection refused''"
    by (simp add: unreachable_env_def example_env_def)
  from exit_status [where E = unreachable_env and b = example_namespace and fs = empty_fs
      and inputs = "[]" and m = "''connection refused''"] c
  have 1: "run_cli unreachable_env (Inr example_namespace) empty_fs [] =
     (Inr 2, empty_fs, [Stderr ''Database error: connection refused''])"
    by simp

  from rejected_run obtain w where w: "run_cli_body rejecting_env example_namespace empty_fs []
      = Inr (Inl (DatabaseError ''syntax error''), w)" "fsys w = empty_fs" "out w = []"
    by blast
  from exit_status [where E = rejecting_env and b = example_namespace and fs = empty_fs
      and inputs = "[]" and m = "''syntax error''" and w = w] w
  have 2: "run_cli rejecting_env (Inr example_namespace) empty_fs [] =
     (Inr 2, empty_fs, [Stderr ''Database error: syntax error''])"
    by simp

  from exit_status [where E = unreachable_env and a = example_args and fs = empty_fs]
    example_main_bodies(1)
  have 3: "main unreachable_env (Inr example_args) empty_fs =
     (Inr 1, empty_fs, [StderrError (DatabaseError ''connection refused'')])"
    by simp
  from exit_status [where E = unhashable_env and fs = empty_fs
      and a = "example_args\<lparr>arg_command := Query (Some ''SELECT %s'') None False [''{[1]: 2}'']\<rparr>"]
    example_main_bodies(3)
  have 4: "main unhashable_env
     (Inr (example_args\<lparr>arg_command := Query (Some ''SELECT %s'') None False [''{[1]: 2}'']\<rparr>))
     empty_fs = (Inr 1, empty_fs, [StderrError TypeError])"
    by simp
  from exit_status [where E = example_env and a = example_args and fs = empty_fs]
    example_main_bodies(2)
  have 5: "main example_env (Inr example_args) empty_fs = (Inr 0, empty_fs, [PrintNoTables])"
    by simp
  from exit_status [where E = example_env and status = 2 and fs = empty_fs]
  have 6: "main example_env (Inl 2) empty_fs = (Inl (SystemExit 2), empty_fs, [])"
    by simp

  from quit_shell obtain w1 where w1:
    "cmdloop example_env [Typed ''quit''] \<lparr>db = new_connection [], fsys = empty_fs, out = []\<rparr>
       = (Inr (), w1)" "fsys w1 = empty_fs"
    by blast
  from exit_status [where E = example_env and b = ?shell and fs = empty_fs
      and inputs = "[Typed ''quit'']" and c = "new_connection []" and ?w1.0 = w1]
    client(1) [of "Some ShellCmd"] w1
  have 7: "fst (run_cli example_env (Inr ?shell) empty_fs [Typed ''quit'']) = Inr 0"
    by simp

  from example_commands(2) obtain c1 where
    "DatabaseClient_list_tables no_columns_env (new_connection []) None = (Inr [], c1)"
    by (cases "DatabaseClient_list_tables no_columns_env (new_connection []) None") simp
  with exit_status [where E = no_columns_env and b = ?tables and fs = empty_fs and inputs = "[]"
      and c = "new_connection []" and schema = None and ?c1.0 = c1]
    client(3) [of "Some (TablesCmd None)"]
  have 8: "run_cli no_columns_env (Inr ?tables) empty_fs [] =
      (Inr 0, empty_fs, [Print ''(no tables found)''])"
    by simp

  from example_commands(3) obtain c1 where
    "DatabaseClient_list_tables catalogue_env (new_connection []) None
       = (Inr [PStr ''public.person''], c1)"
    by (cases "DatabaseClient_list_tables catalogue_env (new_connection []) None") simp
  with exit_status [where E = catalogue_env and b = ?tables and fs = empty_fs and inputs = "[]"
      and c = "new_connection []" and schema = None and ?c1.0 = c1
      and tables = "[PStr ''public.person'']" and names = "[''public.person'']"]
    client(4) [of "Some (TablesCmd None)"]
  have 9: "run_cli catalogue_env (Inr ?tables) empty_fs [] =
      (Inr 0, empty_fs, [Print ''public.person''])"
    by (simp add: as_str_def)

  from example_commands(4) obtain c1 where d:
    "DatabaseClient_describe_table no_columns_env (new_connection []) ''person'' = (Inr [], c1)"
    by (cases "DatabaseClient_describe_table no_columns_env (new_connection []) ''person''") simp
  with exit_status [where E = no_columns_env and b = ?describe and fs = empty_fs and inputs = "[]"
      and c = "new_connection []" and table = "''person''" and ?c1.0 = c1]
    client(3) [of "Some (DescribeCmd ''person'')"]
  have 10: "run_cli no_columns_env (Inr ?describe) empty_fs [] =
      (Inr 1, empty_fs, [Print ''Table not found or has no columns.''])"
    by simp
  have "fst (run_cli no_columns_env (Inr ?describe) empty_fs []) = Inr 1 \<longrightarrow>
      (\<exists>t c c1. ns_command ?describe = Some (DescribeCmd t) \<and>
         DatabaseClient_init no_columns_env (from_args no_columns_env ?describe) = Inr c \<and>
         DatabaseClient_describe_table no_columns_env c t = (Inr [], c1))"
    by (rule exit_status [THEN conjunct2, THEN conjunct2, THEN conjunct2, THEN conjunct1])
  with 10
  have 11: "\<exists>c c1. DatabaseClient_describe_table no_columns_env c ''person'' = (Inr [], c1)"
    by auto

  from example_commands(5) obtain c1 where
    "DatabaseClient_describe_table catalogue_env (new_connection []) ''person''
       = (Inr [?column], c1)"
    by (cases "DatabaseClient_describe_table catalogue_env (new_connection []) ''person''") simp
  with exit_status [where E = catalogue_env and b = ?describe and fs = empty_fs and inputs = "[]"
      and c = "new_connection []" and table = "''person''" and ?c1.0 = c1
      and columns = "[?column]"
      and rows = "[[PStr ''id'', PStr ''integer'', PStr ''NO'', PNone]]"]
    client(4) [of "Some (DescribeCmd ''person'')"] catalogue_rows
  have 12: "run_cli catalogue_env (Inr ?describe) empty_fs [] =
     (Inr 0, empty_fs,
      [PrintTable describe_headers [[PStr ''id'', PStr ''integer'', PStr ''NO'', PNone]]])"
    by simp

  from example_commands(1) obtain c1 where
    "DatabaseClient_run_query example_env (new_connection []) ''SELECT 1'' = (Inr ([], []), c1)"
    by (cases "DatabaseClient_run_query example_env (new_connection []) ''SELECT 1''") simp
  with exit_status [where E = example_env and b = example_namespace and fs = empty_fs
      and inputs = "[]" and c = "new_connection []" and sql = "''SELECT 1''" and ?c1.0 = c1
      and res = "([], [])"]
    client_q
  have 13: "run_cli example_env (Inr example_namespace) empty_fs [] =
      (Inr 0, empty_fs, [PrintTable [] []])"
    by (simp add: example_namespace_def)

  from example_commands(6) obtain c1 fs1 where
    "export_table select_env (new_connection []) empty_fs ''t'' [''out.csv''] = (Inr (), c1, fs1)"
    by (cases "export_table select_env (new_connection []) empty_fs ''t'' [''out.csv'']") auto
  with exit_status [where E = select_env and b = ?export and fs = empty_fs and inputs = "[]"
      and c = "new_connection []" and table = "''t''" and path_str = "''out.csv''"
      and path = "[''out.csv'']" and ?c1.0 = c1 and ?fs1.0 = fs1]
    client(5) [of "Some (ExportCmd ''t'' ''out.csv'')"]
  have 14: "fst (run_cli select_env (Inr ?export) empty_fs []) = Inr 0"
    by (simp add: select_env_def example_env_def)

  from example_commands(7) obtain c1 where
    "import_csv example_env (new_connection []) csv_fs ''t'' [''data.csv''] False = (Inr 0, c1)"
    by (cases "import_csv example_env (new_connection []) csv_fs ''t'' [''data.csv''] False") simp
  with exit_status [where E = example_env and b = ?import and fs = csv_fs and inputs = "[]"
      and c = "new_connection []" and table = "''t''" and path_str = "''data.csv''"
      and path = "[''data.csv'']" and trunc = False and count = 0 and ?c1.0 = c1]
    client(1) [of "Some (ImportCmd ''t'' ''data.csv'' False)"]
  have 15: "run_cli example_env (Inr ?import) csv_fs [] = (Inr 0, csv_fs, [PrintImported 0 ''t''])"
    by (simp add: example_env_def)

  from 1 2 3 4 5 6 7 8 9 10 11 12 13 14 15 show ?thesis by blast
qed

section \<open>Further properties\<close>

text \<open>
  When the DSN of a configuration is set (true), the connection parameters are the DSN
  alone, whatever the discrete fields and the options hold.
\<close>

theorem dsn_alone:
  "truthy (dsn cfg) \<Longrightarrow> to_connect_kwargs cfg = [''dsn'' \<mapsto> dsn cfg]"
  by (simp add: to_connect_kwargs_def)

theorem dsn_alone_witness:
  "to_connect_kwargs
     (DatabaseConfig_default\<lparr>host := PStr ''db1'', dsn := PStr ''postgresql://db2/app''\<rparr>)
   = [''dsn'' \<mapsto> PStr ''postgresql://db2/app'']"
  using dsn_alone [of "DatabaseConfig_default\<lparr>host := PStr ''db1'', dsn := PStr ''postgresql://db2/app''\<rparr>"]
  by simp

end
